theory Spec2Isabelle
  imports Complex_Main
begin

section \<open>Moon landing: a shallow embedding of the game's simulation core\<close>

text \<open>
  The repository holds several revisions of one browser game, each a single class
  \<^verbatim>\<open>Game\<close>. Two of them share the data model that is embedded here:
  \<^item> the revision with the oriented bounding box (\<^verbatim>\<open>src/unnamed/part_001\<close>),
    whose definitions keep the names of the source;
  \<^item> the revision that tests the bottom point of the craft (\<^verbatim>\<open>src/script.js\<close>),
    whose definitions carry the suffix \<open>_pt\<close> where the text or a constant differs.

  The two older revisions (\<^verbatim>\<open>src/unnamed/part_000\<close>: a terrain across the canvas, and a moon
  that is a plain circle) lack the ring of surface points with a landing-zone index, and
  are not embedded.

  A JavaScript number is modelled as a \<^typ>\<open>real\<close>: there is no rounding, no overflow,
  no signed zero and no \<^verbatim>\<open>NaN\<close>. Array indices and \<^verbatim>\<open>landingZoneIndex\<close> are integers.
  The DOM (canvas drawing, dashboard text, the countdown text) is left out; of the
  modal dialog only the arguments that \<^verbatim>\<open>endGame\<close> was called with are kept.
\<close>

subsection \<open>The functions of \<^verbatim>\<open>Math\<close> that the game calls\<close>

text \<open>
  \<^verbatim>\<open>Math.atan2(y, x)\<close>: the angle of the point \<open>(x, y)\<close> in \<open>(-\<pi>, \<pi>]\<close>, and \<open>0\<close> at the
  origin (ECMAScript: \<^verbatim>\<open>atan2(+0, +0)\<close> is \<^verbatim>\<open>+0\<close>).
\<close>

definition atan2 :: "real \<Rightarrow> real \<Rightarrow> real" where
  "atan2 b a =
     (if 0 < a then arctan (b / a)
      else if a < 0 then (if 0 \<le> b then arctan (b / a) + pi else arctan (b / a) - pi)
      else if 0 < b then pi / 2
      else if b < 0 then - (pi / 2)
      else 0)"

text \<open>
  The remainder operator \<^verbatim>\<open>a % b\<close> of JavaScript truncates the quotient towards zero,
  so that the result has the sign of the dividend.
\<close>

definition trunc :: "real \<Rightarrow> int" where
  "trunc r = (if 0 \<le> r then \<lfloor>r\<rfloor> else \<lceil>r\<rceil>)"

definition js_rem :: "real \<Rightarrow> real \<Rightarrow> real" where
  "js_rem a b = a - b * of_int (trunc (a / b))"

subsection \<open>Constants\<close>

text \<open>Constants with the same value in both revisions.\<close>

definition MOON_RADIUS :: real where "MOON_RADIUS = 400"
definition MOON_GRAVITY :: real where "MOON_GRAVITY = 162 / 100"
definition MOON_ROTATION_SPEED :: real where "MOON_ROTATION_SPEED = (2 / 100) / 60"
definition LANDING_ZONE_SPREAD :: int where "LANDING_ZONE_SPREAD = 5"
definition THRUST_FORCE :: real where "THRUST_FORCE = 4"
definition ACCEPTABLE_LANDING_ANGLE :: real where "ACCEPTABLE_LANDING_ANGLE = 4"
definition ACCEPTABLE_LANDING_SPEED :: real where "ACCEPTABLE_LANDING_SPEED = 25 / 10"

text \<open>Constants of \<^verbatim>\<open>part_001\<close>.\<close>

definition MOON_BUMPINESS :: real where "MOON_BUMPINESS = 25 / 1000"
definition MOON_SEGMENTS :: nat where "MOON_SEGMENTS = 280"
definition SPACECRAFT_HEIGHT :: real where "SPACECRAFT_HEIGHT = 8"
definition FUEL_CONSUMPTION :: real where "FUEL_CONSUMPTION = 15 / 10"
definition ROTATION_SPEED :: real where "ROTATION_SPEED = 35"

text \<open>Constants of \<^verbatim>\<open>script.js\<close>.\<close>

definition MOON_BUMPINESS_pt :: real where "MOON_BUMPINESS_pt = 3 / 100"
definition MOON_SEGMENTS_pt :: nat where "MOON_SEGMENTS_pt = 250"
definition SPACECRAFT_HEIGHT_pt :: real where "SPACECRAFT_HEIGHT_pt = 6"
definition FUEL_CONSUMPTION_pt :: real where "FUEL_CONSUMPTION_pt = 5 / 10"
definition ROTATION_SPEED_pt :: real where "ROTATION_SPEED_pt = 20"

text \<open>The fixed time step of \<^verbatim>\<open>update\<close>: \<^verbatim>\<open>const dt = 1 / 60\<close>.\<close>

definition dt :: real where "dt = 1 / 60"

subsection \<open>Data model\<close>

record vec =
  x :: real
  y :: real

record spacecraft = vec +
  rotation :: real
  velocityX :: real
  velocityY :: real
  fuel :: real

record keys =
  ArrowLeft :: bool
  ArrowRight :: bool
  ArrowUp :: bool

text \<open>
  The fields of \<^verbatim>\<open>Game\<close> that the simulation reads or writes. \<open>modal\<close> is \<open>None\<close>
  while the dialog is hidden and holds the arguments \<^verbatim>\<open>(success, reason)\<close> of the call
  of \<^verbatim>\<open>endGame\<close> that opened it.
\<close>

record game =
  canvas_width :: real
  canvas_height :: real
  scale :: real
  isGameActive :: bool
  isPaused :: bool
  moonPoints :: "vec list"
  landingZoneIndex :: int
  moonRotation :: real
  moonCenter :: vec
  moonRadius :: real
  spacecraft :: spacecraft
  keys :: keys
  modal :: "(bool \<times> string) option"

subsection \<open>Segment intersection (\<^verbatim>\<open>lineSegmentsIntersect\<close>, part_001)\<close>

definition lineSegmentsIntersect ::
  "real \<Rightarrow> real \<Rightarrow> real \<Rightarrow> real \<Rightarrow> real \<Rightarrow> real \<Rightarrow> real \<Rightarrow> real \<Rightarrow> bool" where
  "lineSegmentsIntersect x1 y1 x2 y2 x3 y3 x4 y4 =
     (let dx1 = x2 - x1;
          dy1 = y2 - y1;
          dx2 = x4 - x3;
          dy2 = y4 - y3;
          denominator = dx1 * dy2 - dy1 * dx2
      in if denominator = 0 then False
         else
           let t1 = ((x3 - x1) * dy2 - (y3 - y1) * dx2) / denominator;
               t2 = ((x3 - x1) * dy1 - (y3 - y1) * dx1) / denominator
           in 0 \<le> t1 \<and> t1 \<le> 1 \<and> 0 \<le> t2 \<and> t2 \<le> 1)"

subsection \<open>Rotation of the surface (\<^verbatim>\<open>rotatePoint\<close>) and the end of a session (\<^verbatim>\<open>endGame\<close>)\<close>

definition rotatePoint :: "vec \<Rightarrow> vec \<Rightarrow> real \<Rightarrow> vec" where
  "rotatePoint point center angle =
     (let cos_a = cos angle;
          sin_a = sin angle
      in \<lparr>x = cos_a * (x point - x center) - sin_a * (y point - y center) + x center,
          y = sin_a * (x point - x center) + cos_a * (y point - y center) + y center\<rparr>)"

text \<open>\<^verbatim>\<open>this.moonPoints.map((point) => this.rotatePoint(point, this.moonCenter, this.moonRotation))\<close>\<close>

definition rotatedPoints :: "game \<Rightarrow> vec list" where
  "rotatedPoints g = map (\<lambda>point. rotatePoint point (moonCenter g) (moonRotation g)) (moonPoints g)"

text \<open>
  \<^verbatim>\<open>endGame(success, reason)\<close> clears \<^verbatim>\<open>isGameActive\<close> and opens the modal dialog; the
  message it draws at random is presentation. In \<^verbatim>\<open>part_001\<close> the reason is one of the keys
  \<^verbatim>\<open>"success"\<close>, \<^verbatim>\<open>"missedZone"\<close>, \<^verbatim>\<open>"notUpright"\<close>, \<^verbatim>\<open>"tooFast"\<close> of \<^verbatim>\<open>MESSAGES\<close>; in
  \<^verbatim>\<open>script.js\<close> it is the text appended to the message, empty on success.
\<close>

definition endGame :: "bool \<Rightarrow> string \<Rightarrow> game \<Rightarrow> game" where
  "endGame success reason g = g\<lparr>isGameActive := False, modal := Some (success, reason)\<rparr>"

subsection \<open>Collision detection and classification of \<^verbatim>\<open>part_001\<close> (\<^verbatim>\<open>checkCollision\<close>)\<close>

text \<open>The four corners of the rotated bounding box, in the order of the array literal.\<close>

definition corners :: "game \<Rightarrow> vec list" where
  "corners g =
     (let halfWidth = SPACECRAFT_HEIGHT * scale g * (2 / 10);
          halfHeight = SPACECRAFT_HEIGHT * scale g * (4 / 10);
          angle = (rotation (spacecraft g) * pi) / 180;
          cos_a = cos angle;
          sin_a = sin angle
      in [\<lparr>x = x (spacecraft g) + (- halfWidth * cos_a - halfHeight * sin_a),
           y = y (spacecraft g) + (- halfWidth * sin_a + halfHeight * cos_a)\<rparr>,
          \<lparr>x = x (spacecraft g) + (halfWidth * cos_a - halfHeight * sin_a),
           y = y (spacecraft g) + (halfWidth * sin_a + halfHeight * cos_a)\<rparr>,
          \<lparr>x = x (spacecraft g) + (halfWidth * cos_a + halfHeight * sin_a),
           y = y (spacecraft g) + (halfWidth * sin_a - halfHeight * cos_a)\<rparr>,
          \<lparr>x = x (spacecraft g) + (- halfWidth * cos_a + halfHeight * sin_a),
           y = y (spacecraft g) + (- halfWidth * sin_a - halfHeight * cos_a)\<rparr>])"

text \<open>
  The inner loop \<^verbatim>\<open>for (let j = 0; j < 4; j++)\<close>: does one of the four sides of the box,
  from side \<open>j\<close> on, intersect the surface segment from \<open>moonP1\<close> to \<open>moonP2\<close>? The list
  \<open>cs\<close> is always the four corners.
\<close>

function sideLoop :: "vec list \<Rightarrow> vec \<Rightarrow> vec \<Rightarrow> nat \<Rightarrow> bool" where
  "sideLoop cs moonP1 moonP2 j =
     (if j < 4 then
        (let spacecraftP1 = cs ! j;
             spacecraftP2 = cs ! (Suc j mod 4)
         in if lineSegmentsIntersect (x spacecraftP1) (y spacecraftP1)
                 (x spacecraftP2) (y spacecraftP2) (x moonP1) (y moonP1) (x moonP2) (y moonP2)
            then True
            else sideLoop cs moonP1 moonP2 (Suc j))
      else False)"
  by pat_completeness auto
termination
  by (relation "measure (\<lambda>(cs, moonP1, moonP2, j). 4 - j)") auto

text \<open>
  The outer loop \<^verbatim>\<open>for (let i = 0; i < rotatedPoints.length - 1; i++)\<close>. The result is the
  pair of \<^verbatim>\<open>collision\<close> and \<^verbatim>\<open>closestSegmentIndex\<close>, which start as \<^verbatim>\<open>false\<close> and \<^verbatim>\<open>-1\<close>
  and are set together, just before the loop is left.
\<close>

function segmentLoop :: "vec list \<Rightarrow> vec list \<Rightarrow> nat \<Rightarrow> bool \<times> int" where
  "segmentLoop cs rps i =
     (if int i < int (length rps) - 1 then
        (let moonP1 = rps ! i;
             moonP2 = rps ! Suc i
         in if sideLoop cs moonP1 moonP2 0 then (True, int i)
            else segmentLoop cs rps (Suc i))
      else (False, - 1))"
  by pat_completeness auto
termination
  by (relation "measure (\<lambda>(cs, rps, i). length rps - i)") auto

text \<open>The two variables after the loop, and the test of the side loop written as a predicate.\<close>

definition collision :: "game \<Rightarrow> bool" where
  "collision g = fst (segmentLoop (corners g) (rotatedPoints g) 0)"

definition closestSegmentIndex :: "game \<Rightarrow> int" where
  "closestSegmentIndex g = snd (segmentLoop (corners g) (rotatedPoints g) 0)"

definition silhouetteIntersects :: "game \<Rightarrow> nat \<Rightarrow> bool" where
  "silhouetteIntersects g i \<longleftrightarrow>
     list_ex (\<lambda>j. lineSegmentsIntersect
                (x (corners g ! j)) (y (corners g ! j))
                (x (corners g ! (Suc j mod 4))) (y (corners g ! (Suc j mod 4)))
                (x (rotatedPoints g ! i)) (y (rotatedPoints g ! i))
                (x (rotatedPoints g ! Suc i)) (y (rotatedPoints g ! Suc i)))
       [0 ..< 4]"

definition isInLandingZone :: "game \<Rightarrow> int \<Rightarrow> bool" where
  "isInLandingZone g segmentIndex \<longleftrightarrow> \<bar>segmentIndex - landingZoneIndex g\<bar> \<le> 1"

definition speed :: "game \<Rightarrow> real" where
  "speed g = sqrt (velocityX (spacecraft g) * velocityX (spacecraft g)
                   + velocityY (spacecraft g) * velocityY (spacecraft g))"

definition angleToCenter :: "game \<Rightarrow> real" where
  "angleToCenter g =
     (atan2 (y (moonCenter g) - y (spacecraft g)) (x (moonCenter g) - x (spacecraft g)) * 180) / pi"

definition relativeRotation :: "game \<Rightarrow> real" where
  "relativeRotation g = js_rem (rotation (spacecraft g) + 90 - angleToCenter g) 360"

definition normalizedRotation :: "game \<Rightarrow> real" where
  "normalizedRotation g =
     (if relativeRotation g > 180 then relativeRotation g - 360
      else if relativeRotation g < - 180 then relativeRotation g + 360
      else relativeRotation g)"

definition isUprightLanding :: "game \<Rightarrow> bool" where
  "isUprightLanding g \<longleftrightarrow> \<bar>normalizedRotation g\<bar> \<le> ACCEPTABLE_LANDING_ANGLE"

definition isSoftLanding :: "game \<Rightarrow> bool" where
  "isSoftLanding g \<longleftrightarrow> speed g \<le> ACCEPTABLE_LANDING_SPEED"

definition checkCollision :: "game \<Rightarrow> game" where
  "checkCollision g =
     (if \<not> collision g then g
      else if isInLandingZone g (closestSegmentIndex g) \<and> isUprightLanding g \<and> isSoftLanding g
      then endGame True ''success'' g
      else
        (let reason =
           (if \<not> isInLandingZone g (closestSegmentIndex g) then ''missedZone''
            else if \<not> isUprightLanding g then ''notUpright''
            else ''tooFast'')
         in endGame False reason g))"

subsection \<open>Collision detection and classification of \<^verbatim>\<open>script.js\<close>\<close>

text \<open>
  The only exception the simulation can raise: when the loop has not run,
  \<^verbatim>\<open>closestSegmentIndex\<close> is still \<^verbatim>\<open>-1\<close>, \<^verbatim>\<open>rotatedPoints[-1]\<close> is \<^verbatim>\<open>undefined\<close>, and reading its
  \<^verbatim>\<open>x\<close> throws. It leaves \<^verbatim>\<open>gameLoop\<close> before the next frame is requested.
\<close>

datatype error = TypeError

definition distanceToLineSegment :: "real \<Rightarrow> real \<Rightarrow> real \<Rightarrow> real \<Rightarrow> real \<Rightarrow> real \<Rightarrow> real" where
  "distanceToLineSegment px py x1 y1 x2 y2 =
     (let A = px - x1;
          B = py - y1;
          C = x2 - x1;
          D = y2 - y1;
          dot = A * C + B * D;
          len_sq = C * C + D * D;
          param = (if len_sq \<noteq> 0 then dot / len_sq else - 1);
          xx = (if param < 0 then x1 else if param > 1 then x2 else x1 + param * C);
          yy = (if param < 0 then y1 else if param > 1 then y2 else y1 + param * D);
          dx = px - xx;
          dy = py - yy
      in sqrt (dx * dx + dy * dy))"

text \<open>
  The loop that looks for the closest segment. \<open>minDistance\<close> is \<open>None\<close> for the initial
  \<^verbatim>\<open>Infinity\<close>, which every distance is below; \<open>closestIndex\<close> is the variable
  \<^verbatim>\<open>closestSegmentIndex\<close> while the loop runs.
\<close>

function closestLoop :: "vec \<Rightarrow> vec list \<Rightarrow> nat \<Rightarrow> real option \<Rightarrow> int \<Rightarrow> real option \<times> int" where
  "closestLoop bottom rps i minDistance closestIndex =
     (if int i < int (length rps) - 1 then
        (let p1 = rps ! i;
             p2 = rps ! Suc i;
             distance = distanceToLineSegment (x bottom) (y bottom) (x p1) (y p1) (x p2) (y p2)
         in if (case minDistance of None \<Rightarrow> True | Some m \<Rightarrow> distance < m)
            then closestLoop bottom rps (Suc i) (Some distance) (int i)
            else closestLoop bottom rps (Suc i) minDistance closestIndex)
      else (minDistance, closestIndex))"
  by pat_completeness auto
termination
  by (relation "measure (\<lambda>(bottom, rps, i, minDistance, closestIndex).
        length rps - i)") auto

definition spacecraftBottom :: "game \<Rightarrow> vec" where
  "spacecraftBottom g =
     \<lparr>x = x (spacecraft g), y = y (spacecraft g) + SPACECRAFT_HEIGHT_pt * scale g * (5 / 10)\<rparr>"

definition distanceToCenter :: "game \<Rightarrow> real" where
  "distanceToCenter g =
     sqrt ((x (spacecraftBottom g) - x (moonCenter g))\<^sup>2
           + (y (spacecraftBottom g) - y (moonCenter g))\<^sup>2)"

definition surfaceDistance :: "game \<Rightarrow> vec \<Rightarrow> real" where
  "surfaceDistance g surfacePoint =
     sqrt ((x surfacePoint - x (moonCenter g))\<^sup>2 + (y surfacePoint - y (moonCenter g))\<^sup>2)"

definition isUprightLanding_pt :: "game \<Rightarrow> bool" where
  "isUprightLanding_pt g \<longleftrightarrow> \<bar>rotation (spacecraft g)\<bar> \<le> ACCEPTABLE_LANDING_ANGLE"

definition closestSegmentIndex_pt :: "game \<Rightarrow> int" where
  "closestSegmentIndex_pt g = snd (closestLoop (spacecraftBottom g) (rotatedPoints g) 0 None (- 1))"

definition checkCollision_pt :: "game \<Rightarrow> error + game" where
  "checkCollision_pt g =
     (if closestSegmentIndex_pt g < 0 then Inl TypeError
      else
        (let surfacePoint = rotatedPoints g ! nat (closestSegmentIndex_pt g)
         in if distanceToCenter g \<ge> surfaceDistance g surfacePoint then Inr g
            else if isInLandingZone g (closestSegmentIndex_pt g) \<and> isUprightLanding_pt g
                    \<and> isSoftLanding g
            then Inr (endGame True [] g)
            else
              (let reason =
                 (if \<not> isInLandingZone g (closestSegmentIndex_pt g) then ''Missed the landing zone!''
                  else if \<not> isUprightLanding_pt g then ''Not upright!''
                  else ''Too fast!'')
               in Inr (endGame False reason g))))"

subsection \<open>The physics tick (\<^verbatim>\<open>update\<close>)\<close>

text \<open>
  One call of \<^verbatim>\<open>update\<close>, with the keys as the event handlers left them, in two parts:
  \<open>integrate\<close> is the body from \<^verbatim>\<open>const dt = 1 / 60\<close> to the update of the position, and
  \<open>update\<close> is the guard, that body and the call of \<^verbatim>\<open>checkCollision\<close>. The spacecraft
  \<open>s\<close> is rebound after each assignment of the source; \<^verbatim>\<open>distance\<close> is computed and not
  used. \<^verbatim>\<open>updateDashboard\<close> only writes text to the page.
\<close>

definition integrate :: "game \<Rightarrow> game" where
  "integrate g =
     (let rot = moonRotation g + MOON_ROTATION_SPEED * dt * pi * 2;
          s = spacecraft g;
          s = (if ArrowLeft (keys g) then s\<lparr>rotation := rotation s - ROTATION_SPEED * dt\<rparr> else s);
          s = (if ArrowRight (keys g) then s\<lparr>rotation := rotation s + ROTATION_SPEED * dt\<rparr> else s);
          s = (if ArrowUp (keys g) \<and> fuel s > 0 then
                 (let thrustAngle = (rotation s * pi) / 180
                  in s\<lparr>velocityX := velocityX s + sin thrustAngle * THRUST_FORCE * dt,
                       velocityY := velocityY s - cos thrustAngle * THRUST_FORCE * dt,
                       fuel := max 0 (fuel s - FUEL_CONSUMPTION * dt)\<rparr>)
               else s);
          dx = x (moonCenter g) - x s;
          dy = y (moonCenter g) - y s;
          distance = sqrt (dx * dx + dy * dy);
          gravityAngle = atan2 dy dx;
          s = s\<lparr>velocityX := velocityX s + cos gravityAngle * MOON_GRAVITY * dt,
                velocityY := velocityY s + sin gravityAngle * MOON_GRAVITY * dt\<rparr>;
          s = s\<lparr>x := x s + velocityX s * dt * scale g,
                y := y s + velocityY s * dt * scale g\<rparr>
      in g\<lparr>moonRotation := rot, spacecraft := s\<rparr>)"

definition update :: "game \<Rightarrow> game" where
  "update g = (if \<not> isGameActive g \<or> isPaused g then g else checkCollision (integrate g))"

definition integrate_pt :: "game \<Rightarrow> game" where
  "integrate_pt g =
     (let rot = moonRotation g + MOON_ROTATION_SPEED * dt * pi * 2;
          s = spacecraft g;
          s = (if ArrowLeft (keys g) then s\<lparr>rotation := rotation s - ROTATION_SPEED_pt * dt\<rparr> else s);
          s = (if ArrowRight (keys g) then s\<lparr>rotation := rotation s + ROTATION_SPEED_pt * dt\<rparr> else s);
          s = (if ArrowUp (keys g) \<and> fuel s > 0 then
                 (let thrustAngle = (rotation s * pi) / 180
                  in s\<lparr>velocityX := velocityX s + sin thrustAngle * THRUST_FORCE * dt,
                       velocityY := velocityY s - cos thrustAngle * THRUST_FORCE * dt,
                       fuel := max 0 (fuel s - FUEL_CONSUMPTION_pt * dt)\<rparr>)
               else s);
          dx = x (moonCenter g) - x s;
          dy = y (moonCenter g) - y s;
          distance = sqrt (dx * dx + dy * dy);
          gravityAngle = atan2 dy dx;
          s = s\<lparr>velocityX := velocityX s + cos gravityAngle * MOON_GRAVITY * dt,
                velocityY := velocityY s + sin gravityAngle * MOON_GRAVITY * dt\<rparr>;
          s = s\<lparr>x := x s + velocityX s * dt * scale g,
                y := y s + velocityY s * dt * scale g\<rparr>
      in g\<lparr>moonRotation := rot, spacecraft := s\<rparr>)"

definition update_pt :: "game \<Rightarrow> error + game" where
  "update_pt g =
     (if \<not> isGameActive g \<or> isPaused g then Inr g else checkCollision_pt (integrate_pt g))"

subsection \<open>Surface generation (\<^verbatim>\<open>generateMoon\<close>) and restart (\<^verbatim>\<open>reset\<close>)\<close>

text \<open>
  \<^verbatim>\<open>Math.random()\<close> is modelled by a sequence \<open>rand\<close>: \<open>rand k\<close> is the number that the
  \<open>k\<close>-th call within one \<^verbatim>\<open>generateMoon\<close> returns. Call \<open>0\<close> draws the spread of the
  landing zone; the loop draws one more number for every point outside the zone, the
  conditional expression being lazy.

  The loop \<^verbatim>\<open>for (let i = 0; i < MOON_SEGMENTS; i++)\<close> has the same text in both revisions;
  \<open>segments\<close> and \<open>bumpiness\<close> stand for the constants \<^verbatim>\<open>MOON_SEGMENTS\<close> and
  \<^verbatim>\<open>MOON_BUMPINESS\<close> of the revision. \<open>acc\<close> is \<^verbatim>\<open>this.moonPoints\<close>, to which each point is pushed.
\<close>

function moonLoop ::
  "(nat \<Rightarrow> real) \<Rightarrow> nat \<Rightarrow> real \<Rightarrow> real \<Rightarrow> real \<Rightarrow> real \<Rightarrow> int \<Rightarrow> nat \<Rightarrow> nat \<Rightarrow> vec list \<Rightarrow> vec list" where
  "moonLoop rand segments bumpiness radius centerX centerY zone i k acc =
     (if i < segments then
        (let angle = ((pi * 2) / real segments) * real i;
             isInZone = (zone \<le> int i \<and> int i \<le> zone + 1);
             randomOffset = (if isInZone then 0 else (rand k - 5 / 10) * radius * bumpiness);
             px = centerX + cos angle * (radius + randomOffset);
             py = centerY - sin angle * (radius + randomOffset)
         in moonLoop rand segments bumpiness radius centerX centerY zone (Suc i)
              (if isInZone then k else Suc k) (acc @ [\<lparr>x = px, y = py\<rparr>]))
      else acc)"
  by pat_completeness auto
termination
  by (relation "measure (\<lambda>(rand, segments, bumpiness, radius, centerX, centerY, zone, i, k, acc).
        segments - i)") auto

definition generateMoon :: "(nat \<Rightarrow> real) \<Rightarrow> game \<Rightarrow> game" where
  "generateMoon rand g =
     (let radius = MOON_RADIUS * scale g;
          centerX = canvas_width g * (5 / 10);
          centerY = canvas_height g + radius * (8 / 10);
          centerIndex = \<lfloor>real MOON_SEGMENTS / 4\<rfloor>;
          spread = \<lfloor>rand 0 * of_int (LANDING_ZONE_SPREAD * 2 + 1)\<rfloor> - LANDING_ZONE_SPREAD;
          zone = centerIndex + spread
      in g\<lparr>moonCenter := \<lparr>x = centerX, y = centerY\<rparr>,
           moonRadius := radius,
           landingZoneIndex := zone,
           moonPoints := moonLoop rand MOON_SEGMENTS MOON_BUMPINESS radius centerX centerY zone 0 1 []\<rparr>)"

definition generateMoon_pt :: "(nat \<Rightarrow> real) \<Rightarrow> game \<Rightarrow> game" where
  "generateMoon_pt rand g =
     (let radius = MOON_RADIUS * scale g;
          centerX = canvas_width g * (5 / 10);
          centerY = canvas_height g + radius * (8 / 10);
          centerIndex = \<lfloor>real MOON_SEGMENTS_pt / 4\<rfloor>;
          spread = \<lfloor>rand 0 * of_int (LANDING_ZONE_SPREAD * 2 + 1)\<rfloor> - LANDING_ZONE_SPREAD;
          zone = centerIndex + spread
      in g\<lparr>moonCenter := \<lparr>x = centerX, y = centerY\<rparr>,
           moonRadius := radius,
           landingZoneIndex := zone,
           moonPoints :=
             moonLoop rand MOON_SEGMENTS_pt MOON_BUMPINESS_pt radius centerX centerY zone 0 1 []\<rparr>)"

text \<open>\<^verbatim>\<open>reset\<close>: a fresh craft with a full tank of 100, and a new surface.\<close>

definition reset :: "(nat \<Rightarrow> real) \<Rightarrow> game \<Rightarrow> game" where
  "reset rand g =
     generateMoon rand
       (g\<lparr>isGameActive := True,
          spacecraft := \<lparr>x = canvas_width g * (5 / 10), y = canvas_height g * (3 / 10),
                         rotation = 0, velocityX = 0, velocityY = 0, fuel = 100\<rparr>\<rparr>)"

definition reset_pt :: "(nat \<Rightarrow> real) \<Rightarrow> game \<Rightarrow> game" where
  "reset_pt rand g =
     generateMoon_pt rand
       (g\<lparr>isGameActive := True,
          spacecraft := \<lparr>x = canvas_width g * (5 / 10), y = canvas_height g * (3 / 10),
                         rotation = 0, velocityX = 0, velocityY = 0, fuel = 100\<rparr>\<rparr>)"

subsection \<open>The session: window size, countdown and restart\<close>

text \<open>
  \<^verbatim>\<open>resizeCanvas\<close> takes the size of the window and derives the scale from it (the stars
  that \<^verbatim>\<open>part_001\<close> regenerates are presentation).
\<close>

definition resizeCanvas :: "real \<Rightarrow> real \<Rightarrow> game \<Rightarrow> game" where
  "resizeCanvas innerWidth innerHeight g =
     g\<lparr>canvas_width := innerWidth, canvas_height := innerHeight,
       scale := min innerWidth innerHeight / 200\<rparr>"

text \<open>
  \<^verbatim>\<open>startCountdown\<close> pauses the physics and starts a timer; \<open>countdownElapsed\<close> is the last
  run of the timer's callback, after "GO!". In \<^verbatim>\<open>part_001\<close> the session is reset when the
  countdown starts, in \<^verbatim>\<open>script.js\<close> when it has elapsed. \<open>tryAgain\<close> is the click handler of
  the button in the dialog: it hides the dialog and starts the countdown.
\<close>

definition startCountdown :: "(nat \<Rightarrow> real) \<Rightarrow> game \<Rightarrow> game" where
  "startCountdown rand g = reset rand (g\<lparr>isPaused := True\<rparr>)"

definition countdownElapsed :: "game \<Rightarrow> game" where
  "countdownElapsed g = g\<lparr>isPaused := False\<rparr>"

definition tryAgain :: "(nat \<Rightarrow> real) \<Rightarrow> game \<Rightarrow> game" where
  "tryAgain rand g = startCountdown rand (g\<lparr>modal := None\<rparr>)"

definition startCountdown_pt :: "game \<Rightarrow> game" where
  "startCountdown_pt g = g\<lparr>isPaused := True\<rparr>"

definition countdownElapsed_pt :: "(nat \<Rightarrow> real) \<Rightarrow> game \<Rightarrow> game" where
  "countdownElapsed_pt rand g = reset_pt rand (g\<lparr>isPaused := False\<rparr>)"

definition tryAgain_pt :: "game \<Rightarrow> game" where
  "tryAgain_pt g = startCountdown_pt (g\<lparr>modal := None\<rparr>)"

subsection \<open>Successive frames (\<^verbatim>\<open>gameLoop\<close>)\<close>

text \<open>
  \<^verbatim>\<open>gameLoop\<close> calls \<^verbatim>\<open>update\<close> once per animation frame. Between two frames the key
  handlers may have changed \<^verbatim>\<open>this.keys\<close>: a run is given by the keys held at each frame.
  In \<^verbatim>\<open>script.js\<close> an exception ends the run, since the next frame is never requested.
\<close>

fun run :: "keys list \<Rightarrow> game \<Rightarrow> game" where
  "run [] g = g"
| "run (k # ks) g = run ks (update (g\<lparr>keys := k\<rparr>))"

fun run_pt :: "keys list \<Rightarrow> game \<Rightarrow> error + game" where
  "run_pt [] g = Inr g"
| "run_pt (k # ks) g =
     (case update_pt (g\<lparr>keys := k\<rparr>) of Inl e \<Rightarrow> Inl e | Inr g' \<Rightarrow> run_pt ks g')"

subsection \<open>Predicates and example states used to state and to check the properties\<close>

text \<open>
  The test of \<^verbatim>\<open>script.js\<close> that lets \<^verbatim>\<open>checkCollision\<close> go on to the classification: the
  negation of \<^verbatim>\<open>distanceToCenter >= surfaceDistance\<close>.
\<close>

definition collision_pt :: "game \<Rightarrow> bool" where
  "collision_pt g \<longleftrightarrow>
     distanceToCenter g < surfaceDistance g (rotatedPoints g ! nat (closestSegmentIndex_pt g))"

text \<open>
  Does a side of the bounding box cross the segment that would close the polygon, from the
  last stored point back to the first? Only read for a surface with at least one point.
\<close>

definition closingSegmentIntersects :: "game \<Rightarrow> bool" where
  "closingSegmentIntersects g \<longleftrightarrow>
     list_ex (\<lambda>j. lineSegmentsIntersect
                (x (corners g ! j)) (y (corners g ! j))
                (x (corners g ! (Suc j mod 4))) (y (corners g ! (Suc j mod 4)))
                (x (last (rotatedPoints g))) (y (last (rotatedPoints g)))
                (x (hd (rotatedPoints g))) (y (hd (rotatedPoints g))))
       [0 ..< 4]"

text \<open>
  The point with index \<open>i\<close> of a surface of \<open>segments\<close> points around \<open>(centerX, centerY)\<close>
  when its radial offset from the circle of the given radius is \<open>offset\<close>, and the indices
  of the landing zone, \<^verbatim>\<open>landingZoneIndex\<close> and the next one.
\<close>

definition offsetPoint :: "real \<Rightarrow> real \<Rightarrow> real \<Rightarrow> nat \<Rightarrow> nat \<Rightarrow> real \<Rightarrow> vec" where
  "offsetPoint centerX centerY radius segments i offset =
     \<lparr>x = centerX + cos (((pi * 2) / real segments) * real i) * (radius + offset),
      y = centerY - sin (((pi * 2) / real segments) * real i) * (radius + offset)\<rparr>"

definition inZone :: "game \<Rightarrow> nat \<Rightarrow> bool" where
  "inZone g i \<longleftrightarrow> landingZoneIndex g \<le> int i \<and> int i \<le> landingZoneIndex g + 1"

text \<open>
  A session on a canvas of 200 by 200 pixels, for which \<^verbatim>\<open>resizeCanvas\<close> computes the scale
  1 and \<^verbatim>\<open>generateMoon\<close> the radius 400 and the centre (100, 520). The surface is cut down
  to four points on that circle, at the angles 0, 90, 180 and 270 degrees, the landing zone
  starting at the first of them.
\<close>

definition demoMoon :: "vec list" where
  "demoMoon = [\<lparr>x = 500, y = 520\<rparr>, \<lparr>x = 100, y = 120\<rparr>, \<lparr>x = - 300, y = 520\<rparr>,
               \<lparr>x = 100, y = 920\<rparr>]"

definition demo :: "real \<Rightarrow> spacecraft \<Rightarrow> keys \<Rightarrow> game" where
  "demo rot s k =
     \<lparr>canvas_width = 200, canvas_height = 200, scale = 1, isGameActive = True,
      isPaused = False, moonPoints = demoMoon, landingZoneIndex = 0, moonRotation = rot,
      moonCenter = \<lparr>x = 100, y = 520\<rparr>, moonRadius = 400, spacecraft = s, keys = k,
      modal = None\<rparr>"

definition noKeys :: keys where
  "noKeys = \<lparr>ArrowLeft = False, ArrowRight = False, ArrowUp = False\<rparr>"

definition thrustKey :: keys where
  "thrustKey = \<lparr>ArrowLeft = False, ArrowRight = False, ArrowUp = True\<rparr>"

text \<open>The rotation of the moon one tick before it completes a full turn.\<close>

definition beforeFullTurn :: real where
  "beforeFullTurn = 2 * pi - MOON_ROTATION_SPEED * dt * pi * 2"

text \<open>
  The value of \<^verbatim>\<open>distance\<close> in \<^verbatim>\<open>update\<close>, from the craft to the centre of the moon at the
  start of the tick, and the scalar product of the velocity with the vector from the craft
  to the centre: positive when the craft approaches the centre, negative when it recedes.
\<close>

definition distance :: "game \<Rightarrow> real" where
  "distance g =
     sqrt ((x (moonCenter g) - x (spacecraft g)) * (x (moonCenter g) - x (spacecraft g))
           + (y (moonCenter g) - y (spacecraft g)) * (y (moonCenter g) - y (spacecraft g)))"

definition approach :: "game \<Rightarrow> real" where
  "approach g =
     velocityX (spacecraft g) * (x (moonCenter g) - x (spacecraft g))
     + velocityY (spacecraft g) * (y (moonCenter g) - y (spacecraft g))"

text \<open>Is the thrust applied in this tick? The condition of the \<^verbatim>\<open>if\<close> in \<^verbatim>\<open>update\<close>.\<close>

definition thrusting :: "game \<Rightarrow> bool" where
  "thrusting g \<longleftrightarrow> ArrowUp (keys g) \<and> fuel (spacecraft g) > 0"

text \<open>
  The scalar product of the nose vector \<open>(sin r, - cos r)\<close> of the craft, along which
  \<^verbatim>\<open>update\<close> applies the thrust, with the vector from the centre of the moon to the craft.
\<close>

definition radialAlignment :: "game \<Rightarrow> real" where
  "radialAlignment g =
     sin ((rotation (spacecraft g) * pi) / 180) * (x (spacecraft g) - x (moonCenter g))
     - cos ((rotation (spacecraft g) * pi) / 180) * (y (spacecraft g) - y (moonCenter g))"

text \<open>
  The gravity step in the words of the specification, to compare \<open>integrate\<close> with: the
  distance is clamped to a minimum \<open>eps\<close> before the direction from the craft to the centre
  is normalised. The result is the pair of velocity components after gravity, for a craft
  that does not thrust.
\<close>

definition gravity_clamped :: "real \<Rightarrow> game \<Rightarrow> real \<times> real" where
  "gravity_clamped eps g =
     (let dx = x (moonCenter g) - x (spacecraft g);
          dy = y (moonCenter g) - y (spacecraft g);
          distance = max eps (sqrt (dx * dx + dy * dy))
      in (velocityX (spacecraft g) + dx / distance * MOON_GRAVITY * dt,
          velocityY (spacecraft g) + dy / distance * MOON_GRAVITY * dt))"

text \<open>
  Example states: a craft above the moon that climbs away from it at 10 m/s, and a craft
  at rest exactly at the centre of the moon.
\<close>

definition climbing :: game where
  "climbing =
     demo beforeFullTurn
       \<lparr>x = 100, y = 60, rotation = 0, velocityX = 0, velocityY = - 10, fuel = 50\<rparr> noKeys"

definition atCenter :: game where
  "atCenter =
     demo 0 \<lparr>x = 100, y = 520, rotation = 0, velocityX = 0, velocityY = 0, fuel = 50\<rparr> noKeys"

text \<open>
  A craft at rest at the place where \<^verbatim>\<open>reset\<close> puts it for this canvas, above a surface
  that is still the empty array of the constructor.
\<close>

definition released :: game where
  "released =
     (demo 0 \<lparr>x = 100, y = 60, rotation = 0, velocityX = 0, velocityY = 0, fuel = 100\<rparr> noKeys)
       \<lparr>moonPoints := []\<rparr>"

text \<open>
  Two more: a craft to the left of the moon whose nose points at the centre, after 1080
  ticks of the left key in \<^verbatim>\<open>part_001\<close> (\<open>1080 * 35 / 60 = 630\<close>), and a craft to the right of
  the moon that has never been turned.
\<close>

definition noseDown :: game where
  "noseDown =
     demo 0 \<lparr>x = - 400, y = 520, rotation = - 630, velocityX = 0, velocityY = 0, fuel = 50\<rparr>
       noKeys"

definition sideways :: game where
  "sideways =
     demo 0 \<lparr>x = 600, y = 520, rotation = 0, velocityX = 0, velocityY = 0, fuel = 50\<rparr> noKeys"

text \<open>
  The value of \<^verbatim>\<open>distance\<close> in pass \<open>i\<close> of the loop of \<^verbatim>\<open>script.js\<close>: from the bottom point
  of the craft to the surface segment that starts at the rotated point \<open>i\<close>.
\<close>

definition segmentDistance :: "game \<Rightarrow> nat \<Rightarrow> real" where
  "segmentDistance g i =
     distanceToLineSegment (x (spacecraftBottom g)) (y (spacecraftBottom g))
       (x (rotatedPoints g ! i)) (y (rotatedPoints g ! i))
       (x (rotatedPoints g ! Suc i)) (y (rotatedPoints g ! Suc i))"

text \<open>
  The distance, by \<^verbatim>\<open>distanceToLineSegment\<close>, from the position of the craft to side \<open>i\<close> of
  the surface polygon, the side after the last point being the one back to the first.
\<close>

definition clearance :: "game \<Rightarrow> nat \<Rightarrow> real" where
  "clearance g i =
     distanceToLineSegment (x (spacecraft g)) (y (spacecraft g))
       (x (rotatedPoints g ! i)) (y (rotatedPoints g ! i))
       (x (rotatedPoints g ! (Suc i mod length (rotatedPoints g))))
       (y (rotatedPoints g ! (Suc i mod length (rotatedPoints g))))"

text \<open>
  A craft at rest outside the example surface, 20 units above its side from (500, 520) to
  (100, 120), and inside the circle on which the four surface points lie.
\<close>

definition hovering :: game where
  "hovering =
     demo beforeFullTurn
       \<lparr>x = 280, y = 280, rotation = 0, velocityX = 0, velocityY = 0, fuel = 50\<rparr> noKeys"

text \<open>The same craft after the integration of one tick, on the way to the centre.\<close>

definition hovered :: game where
  "hovered =
     demo (2 * pi)
       \<lparr>x = 27999973 / 100000, y = 7000009 / 25000, rotation = 0,
        velocityX = - (162 / 10000), velocityY = 216 / 10000, fuel = 50\<rparr> noKeys"

section \<open>Properties\<close>

subsection \<open>The loops\<close>

declare sideLoop.simps [simp del] segmentLoop.simps [simp del] closestLoop.simps [simp del]
  moonLoop.simps [simp del]

lemma sideLoop_from:
  "sideLoop cs p1 p2 j \<longleftrightarrow>
     (\<exists>k. j \<le> k \<and> k < 4 \<and> lineSegmentsIntersect (x (cs ! k)) (y (cs ! k))
        (x (cs ! (Suc k mod 4))) (y (cs ! (Suc k mod 4))) (x p1) (y p1) (x p2) (y p2))"
proof (induction cs p1 p2 j rule: sideLoop.induct)
  case (1 cs p1 p2 j)
  show ?case
  proof (cases "j < 4")
    case False
    then show ?thesis by (subst sideLoop.simps) auto
  next
    case True
    show ?thesis
    proof (cases "lineSegmentsIntersect (x (cs ! j)) (y (cs ! j))
        (x (cs ! (Suc j mod 4))) (y (cs ! (Suc j mod 4))) (x p1) (y p1) (x p2) (y p2)")
      case hit: True
      with True show ?thesis by (subst sideLoop.simps) (auto simp: Let_def)
    next
      case miss: False
      have "sideLoop cs p1 p2 j = sideLoop cs p1 p2 (Suc j)"
        using True miss by (subst sideLoop.simps) (simp add: Let_def)
      also have "\<dots> \<longleftrightarrow> (\<exists>k. Suc j \<le> k \<and> k < 4 \<and> lineSegmentsIntersect (x (cs ! k)) (y (cs ! k))
        (x (cs ! (Suc k mod 4))) (y (cs ! (Suc k mod 4))) (x p1) (y p1) (x p2) (y p2))"
        using "1.IH" [OF True refl refl miss] .
      also have "\<dots> \<longleftrightarrow> (\<exists>k. j \<le> k \<and> k < 4 \<and> lineSegmentsIntersect (x (cs ! k)) (y (cs ! k))
        (x (cs ! (Suc k mod 4))) (y (cs ! (Suc k mod 4))) (x p1) (y p1) (x p2) (y p2))"
      proof (intro iffI; elim exE conjE)
        fix k assume "Suc j \<le> k" "k < 4" and hit: "lineSegmentsIntersect (x (cs ! k)) (y (cs ! k))
          (x (cs ! (Suc k mod 4))) (y (cs ! (Suc k mod 4))) (x p1) (y p1) (x p2) (y p2)"
        then have "j \<le> k \<and> k < 4" by simp
        with hit show "\<exists>k. j \<le> k \<and> k < 4 \<and> lineSegmentsIntersect (x (cs ! k)) (y (cs ! k))
          (x (cs ! (Suc k mod 4))) (y (cs ! (Suc k mod 4))) (x p1) (y p1) (x p2) (y p2)"
          by blast
      next
        fix k assume k: "j \<le> k" "k < 4" and hit: "lineSegmentsIntersect (x (cs ! k)) (y (cs ! k))
          (x (cs ! (Suc k mod 4))) (y (cs ! (Suc k mod 4))) (x p1) (y p1) (x p2) (y p2)"
        with miss have "k \<noteq> j" by auto
        with k have "Suc j \<le> k \<and> k < 4" by simp
        with hit show "\<exists>k. Suc j \<le> k \<and> k < 4 \<and> lineSegmentsIntersect (x (cs ! k)) (y (cs ! k))
          (x (cs ! (Suc k mod 4))) (y (cs ! (Suc k mod 4))) (x p1) (y p1) (x p2) (y p2)"
          by blast
      qed
      finally show ?thesis .
    qed
  qed
qed

lemma sideLoop_silhouette:
  "sideLoop (corners g) (rotatedPoints g ! i) (rotatedPoints g ! (Suc i)) 0
     \<longleftrightarrow> silhouetteIntersects g i"
  unfolding sideLoop_from silhouetteIntersects_def list_ex_iff by auto

lemma segmentLoop_hit:
  "segmentLoop cs rps i = (True, k) \<Longrightarrow>
     int i \<le> k \<and> k < int (length rps) - 1 \<and> sideLoop cs (rps ! nat k) (rps ! Suc (nat k)) 0
     \<and> (\<forall>j. i \<le> j \<and> int j < k \<longrightarrow> \<not> sideLoop cs (rps ! j) (rps ! (Suc j)) 0)"
proof (induction cs rps i rule: segmentLoop.induct)
  case (1 cs rps i)
  show ?case
  proof (cases "int i < int (length rps) - 1")
    case False
    with "1.prems" show ?thesis by (subst (asm) segmentLoop.simps) simp
  next
    case True
    show ?thesis
    proof (cases "sideLoop cs (rps ! i) (rps ! (Suc i)) 0")
      case hit: True
      with True "1.prems" have "k = int i"
        by (subst (asm) segmentLoop.simps) (simp add: Let_def)
      with True hit show ?thesis by auto
    next
      case miss: False
      with True "1.prems" have "segmentLoop cs rps (Suc i) = (True, k)"
        by (subst (asm) segmentLoop.simps) (simp add: Let_def)
      from "1.IH" [OF True refl refl miss this]
      have IH: "int (Suc i) \<le> k" "k < int (length rps) - 1"
        "sideLoop cs (rps ! nat k) (rps ! Suc (nat k)) 0"
        "\<And>j. Suc i \<le> j \<Longrightarrow> int j < k \<Longrightarrow> \<not> sideLoop cs (rps ! j) (rps ! (Suc j)) 0"
        by blast+
      have "\<not> sideLoop cs (rps ! j) (rps ! (Suc j)) 0" if "i \<le> j" "int j < k" for j
      proof (cases "j = i")
        case True
        with miss show ?thesis by simp
      next
        case False
        with that have "Suc i \<le> j" by simp
        with IH(4) that show ?thesis by blast
      qed
      with IH(1-3) show ?thesis by auto
    qed
  qed
qed

lemma segmentLoop_miss:
  "segmentLoop cs rps i = (False, k) \<Longrightarrow>
     k = - 1 \<and> (\<forall>j. i \<le> j \<and> int j < int (length rps) - 1
                  \<longrightarrow> \<not> sideLoop cs (rps ! j) (rps ! (Suc j)) 0)"
proof (induction cs rps i rule: segmentLoop.induct)
  case (1 cs rps i)
  show ?case
  proof (cases "int i < int (length rps) - 1")
    case False
    with "1.prems" show ?thesis by (subst (asm) segmentLoop.simps) auto
  next
    case True
    show ?thesis
    proof (cases "sideLoop cs (rps ! i) (rps ! (Suc i)) 0")
      case hit: True
      with True "1.prems" show ?thesis
        by (subst (asm) segmentLoop.simps) (simp add: Let_def)
    next
      case miss: False
      with True "1.prems" have "segmentLoop cs rps (Suc i) = (False, k)"
        by (subst (asm) segmentLoop.simps) (simp add: Let_def)
      from "1.IH" [OF True refl refl miss this]
      have IH: "k = - 1"
        "\<And>j. Suc i \<le> j \<Longrightarrow> int j < int (length rps) - 1
           \<Longrightarrow> \<not> sideLoop cs (rps ! j) (rps ! (Suc j)) 0"
        by blast+
      have "\<not> sideLoop cs (rps ! j) (rps ! (Suc j)) 0"
        if "i \<le> j" "int j < int (length rps) - 1" for j
      proof (cases "j = i")
        case True
        with miss show ?thesis by simp
      next
        case False
        with that have "Suc i \<le> j" by simp
        with IH(2) that show ?thesis by blast
      qed
      with IH(1) show ?thesis by auto
    qed
  qed
qed

text \<open>What the scan of \<^verbatim>\<open>part_001\<close> reports, in terms of the silhouette.\<close>

lemma collision_iff:
  "collision g \<longleftrightarrow>
     (\<exists>i. int i < int (length (rotatedPoints g)) - 1 \<and> silhouetteIntersects g i)"
proof (cases "segmentLoop (corners g) (rotatedPoints g) 0")
  case (Pair c k)
  show ?thesis
  proof (cases c)
    case True
    with Pair have hit: "segmentLoop (corners g) (rotatedPoints g) 0 = (True, k)" by simp
    from segmentLoop_hit [OF hit]
    have "0 \<le> k" "k < int (length (rotatedPoints g)) - 1"
      "sideLoop (corners g) (rotatedPoints g ! nat k) (rotatedPoints g ! Suc (nat k)) 0"
      by auto
    then have "int (nat k) < int (length (rotatedPoints g)) - 1 \<and> silhouetteIntersects g (nat k)"
      by (simp add: sideLoop_silhouette)
    then have "\<exists>i. int i < int (length (rotatedPoints g)) - 1 \<and> silhouetteIntersects g i" ..
    with hit show ?thesis by (simp add: collision_def)
  next
    case False
    with Pair have miss: "segmentLoop (corners g) (rotatedPoints g) 0 = (False, k)" by simp
    from segmentLoop_miss [OF miss]
    have "\<not> silhouetteIntersects g j" if "int j < int (length (rotatedPoints g)) - 1" for j
      using that by (simp add: sideLoop_silhouette)
    with miss show ?thesis by (auto simp: collision_def)
  qed
qed

lemma closestSegmentIndex_first:
  assumes "collision g"
  shows "0 \<le> closestSegmentIndex g"
    and "closestSegmentIndex g < int (length (rotatedPoints g)) - 1"
    and "silhouetteIntersects g (nat (closestSegmentIndex g))"
    and "\<And>j. int j < closestSegmentIndex g \<Longrightarrow> \<not> silhouetteIntersects g j"
proof -
  from assms have hit: "segmentLoop (corners g) (rotatedPoints g) 0 = (True, closestSegmentIndex g)"
    by (cases "segmentLoop (corners g) (rotatedPoints g) 0")
       (simp add: collision_def closestSegmentIndex_def)
  from segmentLoop_hit [OF hit]
  show "0 \<le> closestSegmentIndex g"
    and "closestSegmentIndex g < int (length (rotatedPoints g)) - 1"
    and "silhouetteIntersects g (nat (closestSegmentIndex g))"
    and "\<And>j. int j < closestSegmentIndex g \<Longrightarrow> \<not> silhouetteIntersects g j"
    by (auto simp: sideLoop_silhouette)
qed

lemma closestLoop_index:
  "snd (closestLoop b rps i m c) = c
   \<or> (int i \<le> snd (closestLoop b rps i m c)
      \<and> snd (closestLoop b rps i m c) < int (length rps) - 1)"
proof (induction b rps i m c rule: closestLoop.induct)
  case (1 b rps i m c)
  show ?case
  proof (cases "int i < int (length rps) - 1")
    case False
    then show ?thesis by (subst closestLoop.simps, subst (2) closestLoop.simps) simp
  next
    case True
    let ?d = "distanceToLineSegment (x b) (y b) (x (rps ! i)) (y (rps ! i))
                (x (rps ! (Suc i))) (y (rps ! (Suc i)))"
    show ?thesis
    proof (cases "case m of None \<Rightarrow> True | Some m' \<Rightarrow> ?d < m'")
      case closer: True
      with True have eq: "closestLoop b rps i m c = closestLoop b rps (Suc i) (Some ?d) (int i)"
        by (subst closestLoop.simps) (simp add: Let_def)
      from "1.IH"(1) [OF True refl refl refl closer] True show ?thesis
        unfolding eq by auto
    next
      case farther: False
      with True have eq: "closestLoop b rps i m c = closestLoop b rps (Suc i) m c"
        by (subst closestLoop.simps) (simp add: Let_def)
      from "1.IH"(2) [OF True refl refl refl farther] show ?thesis
        unfolding eq by auto
    qed
  qed
qed

lemma closestSegmentIndex_pt_range:
  "closestSegmentIndex_pt g = - 1 \<and> length (moonPoints g) < 2
   \<or> 0 \<le> closestSegmentIndex_pt g
     \<and> closestSegmentIndex_pt g < int (length (moonPoints g)) - 1"
proof (cases "length (moonPoints g) < 2")
  case True
  then have "\<not> int 0 < int (length (rotatedPoints g)) - 1"
    by (simp add: rotatedPoints_def)
  then show ?thesis using True
    by (subst closestSegmentIndex_pt_def, subst closestLoop.simps) simp
next
  case False
  then have lt: "int 0 < int (length (rotatedPoints g)) - 1"
    by (simp add: rotatedPoints_def)
  let ?b = "spacecraftBottom g" and ?rps = "rotatedPoints g"
  let ?d = "distanceToLineSegment (x ?b) (y ?b) (x (?rps ! 0)) (y (?rps ! 0))
                (x (?rps ! (Suc 0))) (y (?rps ! (Suc 0)))"
  have eq: "closestLoop ?b ?rps 0 None (- 1) = closestLoop ?b ?rps (Suc 0) (Some ?d) (int 0)"
    using lt by (subst closestLoop.simps) (simp add: Let_def)
  from closestLoop_index [of ?b ?rps "Suc 0" "Some ?d" "int 0"] False show ?thesis
    unfolding closestSegmentIndex_pt_def eq by (auto simp: rotatedPoints_def)
qed

subsection \<open>What a tick leaves alone\<close>

lemma endGame_fields [simp]:
  "spacecraft (endGame b r g) = spacecraft g" "keys (endGame b r g) = keys g"
  "moonRotation (endGame b r g) = moonRotation g" "moonPoints (endGame b r g) = moonPoints g"
  "moonCenter (endGame b r g) = moonCenter g" "scale (endGame b r g) = scale g"
  "isPaused (endGame b r g) = isPaused g" "landingZoneIndex (endGame b r g) = landingZoneIndex g"
  "isGameActive (endGame b r g) = False" "modal (endGame b r g) = Some (b, r)"
  by (simp_all add: endGame_def)

lemma checkCollision_cases:
  "checkCollision g = g \<and> \<not> collision g
   \<or> (\<exists>b r. checkCollision g = endGame b r g) \<and> collision g"
  by (auto simp: checkCollision_def Let_def)

lemma checkCollision_fields [simp]:
  "spacecraft (checkCollision g) = spacecraft g" "keys (checkCollision g) = keys g"
  "moonRotation (checkCollision g) = moonRotation g"
  "moonPoints (checkCollision g) = moonPoints g"
  "isPaused (checkCollision g) = isPaused g"
  "moonCenter (checkCollision g) = moonCenter g"
  using checkCollision_cases [of g] by auto

lemma checkCollision_pt_cases:
  "checkCollision_pt g = Inl TypeError \<and> closestSegmentIndex_pt g < 0
   \<or> checkCollision_pt g = Inr g \<and> 0 \<le> closestSegmentIndex_pt g \<and> \<not> collision_pt g
   \<or> (\<exists>b r. checkCollision_pt g = Inr (endGame b r g)) \<and> 0 \<le> closestSegmentIndex_pt g
     \<and> collision_pt g"
  by (auto simp: checkCollision_pt_def collision_pt_def Let_def)

lemma checkCollision_pt_fields:
  assumes "checkCollision_pt g = Inr g'"
  shows "spacecraft g' = spacecraft g" "keys g' = keys g" "moonRotation g' = moonRotation g"
    "moonPoints g' = moonPoints g" "isPaused g' = isPaused g"
  using checkCollision_pt_cases [of g] assms by auto

lemma checkCollision_pt_total:
  "2 \<le> length (moonPoints g) \<Longrightarrow> \<exists>g'. checkCollision_pt g = Inr g'"
  using checkCollision_pt_cases [of g] closestSegmentIndex_pt_range [of g] by auto

lemma integrate_fields [simp]:
  "isGameActive (integrate g) = isGameActive g" "isPaused (integrate g) = isPaused g"
  "modal (integrate g) = modal g" "moonPoints (integrate g) = moonPoints g"
  "keys (integrate g) = keys g" "moonCenter (integrate g) = moonCenter g"
  "scale (integrate g) = scale g" "landingZoneIndex (integrate g) = landingZoneIndex g"
  "moonRotation (integrate g) = moonRotation g + MOON_ROTATION_SPEED * dt * pi * 2"
  by (simp_all add: integrate_def Let_def)

lemma integrate_pt_fields [simp]:
  "isGameActive (integrate_pt g) = isGameActive g" "isPaused (integrate_pt g) = isPaused g"
  "modal (integrate_pt g) = modal g" "moonPoints (integrate_pt g) = moonPoints g"
  "keys (integrate_pt g) = keys g" "moonCenter (integrate_pt g) = moonCenter g"
  "scale (integrate_pt g) = scale g" "landingZoneIndex (integrate_pt g) = landingZoneIndex g"
  "moonRotation (integrate_pt g) = moonRotation g + MOON_ROTATION_SPEED * dt * pi * 2"
  by (simp_all add: integrate_pt_def Let_def)

lemma integrate_fuel:
  "fuel (spacecraft (integrate g)) =
     (if ArrowUp (keys g) \<and> 0 < fuel (spacecraft g)
      then max 0 (fuel (spacecraft g) - FUEL_CONSUMPTION * dt) else fuel (spacecraft g))"
  by (auto simp: integrate_def Let_def)

lemma integrate_pt_fuel:
  "fuel (spacecraft (integrate_pt g)) =
     (if ArrowUp (keys g) \<and> 0 < fuel (spacecraft g)
      then max 0 (fuel (spacecraft g) - FUEL_CONSUMPTION_pt * dt) else fuel (spacecraft g))"
  by (auto simp: integrate_pt_def Let_def)

lemma update_cases:
  "update g = g \<and> (\<not> isGameActive g \<or> isPaused g)
   \<or> update g = checkCollision (integrate g) \<and> isGameActive g \<and> \<not> isPaused g"
  by (auto simp: update_def)

lemma update_pt_cases:
  "update_pt g = Inr g \<and> (\<not> isGameActive g \<or> isPaused g)
   \<or> update_pt g = checkCollision_pt (integrate_pt g) \<and> isGameActive g \<and> \<not> isPaused g"
  by (auto simp: update_pt_def)

lemma update_pt_total:
  "2 \<le> length (moonPoints g) \<Longrightarrow> \<exists>g'. update_pt g = Inr g'"
  using update_pt_cases [of g] checkCollision_pt_total [of "integrate_pt g"] by auto

lemma update_moonPoints [simp]: "moonPoints (update g) = moonPoints g"
  using update_cases [of g] by auto

lemma update_pt_moonPoints: "update_pt g = Inr g' \<Longrightarrow> moonPoints g' = moonPoints g"
  using update_pt_cases [of g] checkCollision_pt_fields(4) [of "integrate_pt g" g'] by auto

lemma run_pt_total:
  "2 \<le> length (moonPoints g) \<Longrightarrow> \<exists>g'. run_pt ks g = Inr g'"
proof (induction ks arbitrary: g)
  case Nil
  show ?case by simp
next
  case (Cons k ks)
  let ?g = "g\<lparr>keys := k\<rparr>"
  from Cons.prems have len: "2 \<le> length (moonPoints ?g)" by simp
  from update_pt_total [OF len] obtain g1 where g1: "update_pt ?g = Inr g1" ..
  from update_pt_moonPoints [OF g1] len have "2 \<le> length (moonPoints g1)" by simp
  from Cons.IH [OF this] g1 show ?case by simp
qed

subsection \<open>Fuel\<close>

lemma update_fuel:
  "fuel (spacecraft (update g)) \<le> fuel (spacecraft g)"
  "0 \<le> fuel (spacecraft g) \<Longrightarrow> 0 \<le> fuel (spacecraft (update g))"
  using update_cases [of g]
  by (auto simp: integrate_fuel FUEL_CONSUMPTION_def dt_def)

lemma update_pt_fuel:
  assumes "update_pt g = Inr g'"
  shows "fuel (spacecraft g') \<le> fuel (spacecraft g)"
    and "0 \<le> fuel (spacecraft g) \<Longrightarrow> 0 \<le> fuel (spacecraft g')"
  using update_pt_cases [of g] assms checkCollision_pt_fields(1) [of "integrate_pt g" g']
  by (auto simp: integrate_pt_fuel FUEL_CONSUMPTION_pt_def dt_def)

lemma run_fuel:
  "fuel (spacecraft (run ks g)) \<le> fuel (spacecraft g)
   \<and> (0 \<le> fuel (spacecraft g) \<longrightarrow> 0 \<le> fuel (spacecraft (run ks g)))"
proof (induction ks arbitrary: g)
  case Nil
  show ?case by simp
next
  case (Cons k ks)
  let ?g = "update (g\<lparr>keys := k\<rparr>)"
  have step: "fuel (spacecraft ?g) \<le> fuel (spacecraft g)"
    "0 \<le> fuel (spacecraft g) \<Longrightarrow> 0 \<le> fuel (spacecraft ?g)"
    using update_fuel [of "g\<lparr>keys := k\<rparr>"] by simp_all
  from Cons.IH [of ?g] step show ?case by auto
qed

lemma run_pt_fuel:
  "run_pt ks g = Inr g' \<Longrightarrow>
     fuel (spacecraft g') \<le> fuel (spacecraft g)
     \<and> (0 \<le> fuel (spacecraft g) \<longrightarrow> 0 \<le> fuel (spacecraft g'))"
proof (induction ks arbitrary: g)
  case Nil
  then show ?case by simp
next
  case (Cons k ks)
  from Cons.prems obtain g1 where g1: "update_pt (g\<lparr>keys := k\<rparr>) = Inr g1"
    and rest: "run_pt ks g1 = Inr g'"
    by (auto split: sum.splits)
  have step: "fuel (spacecraft g1) \<le> fuel (spacecraft g)"
    "0 \<le> fuel (spacecraft g) \<Longrightarrow> 0 \<le> fuel (spacecraft g1)"
    using update_pt_fuel [OF g1] by simp_all
  from Cons.IH [OF rest] step show ?case by auto
qed

lemma reset_fuel: "fuel (spacecraft (reset rand g)) = 100" "fuel (spacecraft (reset_pt rand g)) = 100"
  by (simp_all add: reset_def reset_pt_def generateMoon_def generateMoon_pt_def Let_def)

subsection \<open>Evaluating the example session\<close>

named_theorems demo_simps \<open>unfolding the example states down to arithmetic\<close>

lemmas [demo_simps] = demo_def demoMoon_def noKeys_def thrustKey_def beforeFullTurn_def
  rotatedPoints_def rotatePoint_def corners_def collision_def closestSegmentIndex_def
  segmentLoop.simps sideLoop.simps lineSegmentsIntersect_def Let_def SPACECRAFT_HEIGHT_def

lemma trunc_small: "- 1 < r \<Longrightarrow> r < 1 \<Longrightarrow> trunc r = 0"
  by (auto simp: trunc_def floor_eq_iff ceiling_eq_iff)

lemma speed_acceptable_iff:
  "speed g \<le> ACCEPTABLE_LANDING_SPEED \<longleftrightarrow>
     velocityX (spacecraft g) * velocityX (spacecraft g)
       + velocityY (spacecraft g) * velocityY (spacecraft g) \<le> 25 / 4"
proof -
  have limit: "ACCEPTABLE_LANDING_SPEED = sqrt (25 / 4)"
    by (simp add: ACCEPTABLE_LANDING_SPEED_def real_sqrt_divide)
  show ?thesis
    unfolding speed_def limit by (rule real_sqrt_le_iff)
qed

lemma four_sides: "[0 ..< 4] = [0, 1, 2, 3]"
  by (simp add: upt_rec)

subsection \<open>The direction that \<^verbatim>\<open>Math.atan2\<close> gives\<close>

lemma sqrt_ratio:
  fixes a b :: real
  assumes "a \<noteq> 0"
  shows "sqrt (1 + (b / a)\<^sup>2) = sqrt (a\<^sup>2 + b\<^sup>2) / \<bar>a\<bar>"
proof -
  have "1 + (b / a)\<^sup>2 = (a\<^sup>2 + b\<^sup>2) / a\<^sup>2"
    using assms by (simp add: field_simps power2_eq_square)
  then show ?thesis
    by (simp add: real_sqrt_divide)
qed

lemma cos_arctan_ratio:
  fixes a b :: real
  assumes "a \<noteq> 0"
  shows "cos (arctan (b / a)) = \<bar>a\<bar> / sqrt (a\<^sup>2 + b\<^sup>2)"
  by (simp add: cos_arctan sqrt_ratio [OF assms])

lemma sin_arctan_ratio:
  fixes a b :: real
  assumes "a \<noteq> 0"
  shows "sin (arctan (b / a)) = (b / a) * \<bar>a\<bar> / sqrt (a\<^sup>2 + b\<^sup>2)"
  by (simp add: sin_arctan sqrt_ratio [OF assms])

lemma cos_atan2:
  assumes "a \<noteq> 0 \<or> b \<noteq> 0"
  shows "cos (atan2 b a) = a / sqrt (a\<^sup>2 + b\<^sup>2)"
proof -
  consider "0 < a" | "a < 0" | "a = 0" "b \<noteq> 0" using assms by fastforce
  then show ?thesis
  proof cases
    case 1
    then show ?thesis by (simp add: atan2_def cos_arctan_ratio)
  next
    case 2
    then show ?thesis by (simp add: atan2_def cos_arctan_ratio cos_add cos_diff)
  next
    case 3
    then show ?thesis by (simp add: atan2_def)
  qed
qed

lemma sin_atan2:
  assumes "a \<noteq> 0 \<or> b \<noteq> 0"
  shows "sin (atan2 b a) = b / sqrt (a\<^sup>2 + b\<^sup>2)"
proof -
  consider "0 < a" | "a < 0" | "a = 0" "0 < b" | "a = 0" "b < 0" using assms by fastforce
  then show ?thesis
  proof cases
    case 1
    then show ?thesis by (simp add: atan2_def sin_arctan_ratio)
  next
    case 2
    then show ?thesis by (simp add: atan2_def sin_arctan_ratio sin_add sin_diff)
  next
    case 3
    then show ?thesis by (simp add: atan2_def)
  next
    case 4
    then show ?thesis by (simp add: atan2_def)
  qed
qed

lemma atan2_origin [simp]: "atan2 0 0 = 0"
  by (simp add: atan2_def)

lemma atan2_range: "- pi < atan2 b a \<and> atan2 b a \<le> pi"
proof -
  have bounds: "- (pi / 2) < arctan (b / a)" "arctan (b / a) < pi / 2"
    by (rule arctan_lbound, rule arctan_ubound)
  have neg: "arctan (b / a) \<le> 0" if "a < 0" "0 \<le> b"
    using that by (simp add: divide_nonneg_neg)
  have pos: "0 < arctan (b / a)" if "a < 0" "b < 0"
    using that by (simp add: divide_neg_neg)
  from bounds neg pos pi_gt_zero show ?thesis
    by (auto simp: atan2_def)
qed

subsection \<open>Velocity over a tick\<close>

lemma speed_checkCollision [simp]: "speed (checkCollision g) = speed g"
  by (simp add: speed_def)

lemma speed_checkCollision_pt: "checkCollision_pt g = Inr g' \<Longrightarrow> speed g' = speed g"
  by (simp add: speed_def checkCollision_pt_fields(1))

lemma integrate_position:
  "x (spacecraft (integrate g)) =
     x (spacecraft g) + velocityX (spacecraft (integrate g)) * dt * scale g"
  "y (spacecraft (integrate g)) =
     y (spacecraft g) + velocityY (spacecraft (integrate g)) * dt * scale g"
  by (simp_all add: integrate_def Let_def)

text \<open>The velocity after \<open>integrate\<close>: the thrust, if any, and then gravity.\<close>

lemma integrate_velocity:
  "velocityX (spacecraft (integrate g)) =
     velocityX (spacecraft g)
     + (if ArrowUp (keys g) \<and> 0 < fuel (spacecraft g)
        then sin ((rotation (spacecraft (integrate g)) * pi) / 180) * THRUST_FORCE * dt else 0)
     + cos (atan2 (y (moonCenter g) - y (spacecraft g)) (x (moonCenter g) - x (spacecraft g)))
       * MOON_GRAVITY * dt"
  "velocityY (spacecraft (integrate g)) =
     velocityY (spacecraft g)
     - (if ArrowUp (keys g) \<and> 0 < fuel (spacecraft g)
        then cos ((rotation (spacecraft (integrate g)) * pi) / 180) * THRUST_FORCE * dt else 0)
     + sin (atan2 (y (moonCenter g) - y (spacecraft g)) (x (moonCenter g) - x (spacecraft g)))
       * MOON_GRAVITY * dt"
  by (auto simp: integrate_def Let_def)

lemma integrate_pt_velocity:
  "velocityX (spacecraft (integrate_pt g)) =
     velocityX (spacecraft g)
     + (if ArrowUp (keys g) \<and> 0 < fuel (spacecraft g)
        then sin ((rotation (spacecraft (integrate_pt g)) * pi) / 180) * THRUST_FORCE * dt else 0)
     + cos (atan2 (y (moonCenter g) - y (spacecraft g)) (x (moonCenter g) - x (spacecraft g)))
       * MOON_GRAVITY * dt"
  "velocityY (spacecraft (integrate_pt g)) =
     velocityY (spacecraft g)
     - (if ArrowUp (keys g) \<and> 0 < fuel (spacecraft g)
        then cos ((rotation (spacecraft (integrate_pt g)) * pi) / 180) * THRUST_FORCE * dt else 0)
     + sin (atan2 (y (moonCenter g) - y (spacecraft g)) (x (moonCenter g) - x (spacecraft g)))
       * MOON_GRAVITY * dt"
  by (auto simp: integrate_pt_def Let_def)

text \<open>
  Adding a vector of length \<open>k > 0\<close> in the direction of \<open>(a, b)\<close> to a velocity \<open>(v, w)\<close>
  lengthens it exactly when \<open>2 (v a + w b) + k d > 0\<close>, \<open>d\<close> being the length of \<open>(a, b)\<close>.
\<close>

lemma pull_lengthens_iff:
  fixes a b v w k :: real
  assumes d: "d = sqrt (a\<^sup>2 + b\<^sup>2)" and pos: "0 < d" and k: "0 < k"
  shows "sqrt (v * v + w * w) < sqrt ((v + a / d * k) * (v + a / d * k) + (w + b / d * k) * (w + b / d * k))
         \<longleftrightarrow> 0 < 2 * (v * a + w * b) + k * d"
proof -
  have dd: "d * d = a\<^sup>2 + b\<^sup>2"
    unfolding d by (simp add: power2_eq_square [symmetric])
  have unit: "(a / d) * (a / d) + (b / d) * (b / d) = 1"
  proof -
    have "(a / d) * (a / d) + (b / d) * (b / d) = (a\<^sup>2 + b\<^sup>2) / (d * d)"
      by (simp add: power2_eq_square add_divide_distrib)
    also have "\<dots> = (d * d) / (d * d)" by (simp only: dd)
    also have "\<dots> = 1" using pos by simp
    finally show ?thesis .
  qed
  have "(v + a / d * k) * (v + a / d * k) + (w + b / d * k) * (w + b / d * k)
        = v * v + w * w + 2 * k * (v * (a / d) + w * (b / d))
          + k * k * ((a / d) * (a / d) + (b / d) * (b / d))"
    by (simp add: algebra_simps)
  also have "\<dots> = v * v + w * w + (k / d) * (2 * (v * a + w * b) + k * d)"
    using pos unfolding unit by (simp add: field_simps)
  finally have expand: "(v + a / d * k) * (v + a / d * k) + (w + b / d * k) * (w + b / d * k)
        = v * v + w * w + (k / d) * (2 * (v * a + w * b) + k * d)" .
  have "0 < k / d" using pos k by simp
  then have "0 < (k / d) * (2 * (v * a + w * b) + k * d) \<longleftrightarrow> 0 < 2 * (v * a + w * b) + k * d"
    using zero_less_mult_iff [of "k / d" "2 * (v * a + w * b) + k * d"] by linarith
  then show ?thesis
    unfolding real_sqrt_less_iff expand by linarith
qed

text \<open>The speed after a coasting tick, for a craft that is not at the centre.\<close>

lemma coasting_speed_iff:
  assumes coast: "\<not> ArrowUp (keys g)"
    and off: "x (spacecraft g) \<noteq> x (moonCenter g) \<or> y (spacecraft g) \<noteq> y (moonCenter g)"
  shows "speed g < speed (integrate g) \<longleftrightarrow>
           0 < 2 * (velocityX (spacecraft g) * (x (moonCenter g) - x (spacecraft g))
                    + velocityY (spacecraft g) * (y (moonCenter g) - y (spacecraft g)))
               + MOON_GRAVITY * dt
                 * sqrt ((x (moonCenter g) - x (spacecraft g))\<^sup>2
                         + (y (moonCenter g) - y (spacecraft g))\<^sup>2)"
    and "speed g < speed (integrate_pt g) \<longleftrightarrow>
           0 < 2 * (velocityX (spacecraft g) * (x (moonCenter g) - x (spacecraft g))
                    + velocityY (spacecraft g) * (y (moonCenter g) - y (spacecraft g)))
               + MOON_GRAVITY * dt
                 * sqrt ((x (moonCenter g) - x (spacecraft g))\<^sup>2
                         + (y (moonCenter g) - y (spacecraft g))\<^sup>2)"
proof -
  let ?a = "x (moonCenter g) - x (spacecraft g)" and ?b = "y (moonCenter g) - y (spacecraft g)"
  let ?d = "sqrt (?a\<^sup>2 + ?b\<^sup>2)"
  from off have nz: "?a \<noteq> 0 \<or> ?b \<noteq> 0" by auto
  then have "0 < ?a\<^sup>2 + ?b\<^sup>2" by (auto simp: sum_power2_gt_zero_iff)
  then have pos: "0 < ?d" by simp
  have k: "0 < MOON_GRAVITY * dt" by (simp add: MOON_GRAVITY_def dt_def)
  note pull = pull_lengthens_iff [OF refl pos k, of "velocityX (spacecraft g)" "velocityY (spacecraft g)"]
  show "speed g < speed (integrate g) \<longleftrightarrow>
           0 < 2 * (velocityX (spacecraft g) * ?a + velocityY (spacecraft g) * ?b)
               + MOON_GRAVITY * dt * ?d"
    using pull coast
    by (simp add: speed_def integrate_velocity cos_atan2 [OF nz] sin_atan2 [OF nz] mult.assoc)
  show "speed g < speed (integrate_pt g) \<longleftrightarrow>
           0 < 2 * (velocityX (spacecraft g) * ?a + velocityY (spacecraft g) * ?b)
               + MOON_GRAVITY * dt * ?d"
    using pull coast
    by (simp add: speed_def integrate_pt_velocity cos_atan2 [OF nz] sin_atan2 [OF nz] mult.assoc)
qed

lemma speed_vertical: "velocityX (spacecraft g) = 0 \<Longrightarrow> speed g = \<bar>velocityY (spacecraft g)\<bar>"
  by (simp add: speed_def)

lemma integrate_velocity_coasting:
  assumes "\<not> thrusting g"
  shows "velocityX (spacecraft (integrate g)) =
     velocityX (spacecraft g)
     + cos (atan2 (y (moonCenter g) - y (spacecraft g)) (x (moonCenter g) - x (spacecraft g)))
       * MOON_GRAVITY * dt"
    and "velocityY (spacecraft (integrate g)) =
     velocityY (spacecraft g)
     + sin (atan2 (y (moonCenter g) - y (spacecraft g)) (x (moonCenter g) - x (spacecraft g)))
       * MOON_GRAVITY * dt"
  using assms by (auto simp: integrate_velocity thrusting_def)

text \<open>
  A craft above the centre of the moon, on the vertical through it, that does not move
  sideways and does not climb (the y axis of the canvas points down): a coasting tick keeps
  it on the vertical and adds \<open>MOON_GRAVITY * dt\<close> to its downward velocity.
\<close>

lemma vertical_fall_integrate:
  assumes "\<not> ArrowUp (keys g)" and "x (spacecraft g) = x (moonCenter g)"
    and "velocityX (spacecraft g) = 0" and "y (spacecraft g) < y (moonCenter g)"
  shows "velocityX (spacecraft (integrate g)) = 0"
    and "velocityY (spacecraft (integrate g)) = velocityY (spacecraft g) + MOON_GRAVITY * dt"
    and "x (spacecraft (integrate g)) = x (moonCenter g)"
proof -
  from assms(1) have coast: "\<not> thrusting g" by (simp add: thrusting_def)
  from assms(2,4) have angle:
    "atan2 (y (moonCenter g) - y (spacecraft g)) (x (moonCenter g) - x (spacecraft g)) = pi / 2"
    by (simp add: atan2_def)
  show vx: "velocityX (spacecraft (integrate g)) = 0"
    and "velocityY (spacecraft (integrate g)) = velocityY (spacecraft g) + MOON_GRAVITY * dt"
    using assms(3) by (simp_all add: integrate_velocity_coasting [OF coast] angle)
  show "x (spacecraft (integrate g)) = x (moonCenter g)"
    using assms(2) by (simp add: integrate_position vx)
qed

lemma vertical_fall_update:
  assumes "\<not> ArrowUp (keys g)" and "x (spacecraft g) = x (moonCenter g)"
    and "velocityX (spacecraft g) = 0" and "0 \<le> velocityY (spacecraft g)"
    and "isGameActive g \<and> \<not> isPaused g \<longrightarrow> y (spacecraft g) < y (moonCenter g)"
  shows "\<not> ArrowUp (keys (update g))" and "x (spacecraft (update g)) = x (moonCenter g)"
    and "velocityX (spacecraft (update g)) = 0" and "0 \<le> velocityY (spacecraft (update g))"
    and "moonCenter (update g) = moonCenter g"
    and "isGameActive g \<and> \<not> isPaused g \<longrightarrow> speed g < speed (update g)"
proof -
  have k: "0 < MOON_GRAVITY * dt" by (simp add: MOON_GRAVITY_def dt_def)
  have all: "\<not> ArrowUp (keys (update g)) \<and> x (spacecraft (update g)) = x (moonCenter g)
      \<and> velocityX (spacecraft (update g)) = 0 \<and> 0 \<le> velocityY (spacecraft (update g))
      \<and> moonCenter (update g) = moonCenter g
      \<and> (isGameActive g \<and> \<not> isPaused g \<longrightarrow> speed g < speed (update g))"
  proof (cases "isGameActive g \<and> \<not> isPaused g")
    case False
    with assms show ?thesis by (auto simp: update_def)
  next
    case True
    with assms(5) have above: "y (spacecraft g) < y (moonCenter g)" by simp
    note fall = vertical_fall_integrate [OF assms(1-3) above]
    from True have tick: "update g = checkCollision (integrate g)" by (simp add: update_def)
    have "speed (integrate g) = \<bar>velocityY (spacecraft g) + MOON_GRAVITY * dt\<bar>"
      using fall(1,2) by (simp add: speed_vertical)
    moreover have "speed g = \<bar>velocityY (spacecraft g)\<bar>"
      using assms(3) by (simp add: speed_vertical)
    ultimately have "speed g < speed (integrate g)" using assms(4) k by simp
    with assms fall k show ?thesis unfolding tick by simp
  qed
  from all show "\<not> ArrowUp (keys (update g))" and "x (spacecraft (update g)) = x (moonCenter g)"
    and "velocityX (spacecraft (update g)) = 0" and "0 \<le> velocityY (spacecraft (update g))"
    and "moonCenter (update g) = moonCenter g"
    and "isGameActive g \<and> \<not> isPaused g \<longrightarrow> speed g < speed (update g)"
    by blast+
qed

lemma checkCollision_pt_center:
  assumes "checkCollision_pt g = Inr g'"
  shows "moonCenter g' = moonCenter g"
  using checkCollision_pt_cases [of g] assms by auto

lemma integrate_pt_position:
  "x (spacecraft (integrate_pt g)) =
     x (spacecraft g) + velocityX (spacecraft (integrate_pt g)) * dt * scale g"
  "y (spacecraft (integrate_pt g)) =
     y (spacecraft g) + velocityY (spacecraft (integrate_pt g)) * dt * scale g"
  by (simp_all add: integrate_pt_def Let_def)

lemma vertical_fall_integrate_pt:
  assumes "\<not> ArrowUp (keys g)" and "x (spacecraft g) = x (moonCenter g)"
    and "velocityX (spacecraft g) = 0" and "y (spacecraft g) < y (moonCenter g)"
  shows "velocityX (spacecraft (integrate_pt g)) = 0"
    and "velocityY (spacecraft (integrate_pt g)) = velocityY (spacecraft g) + MOON_GRAVITY * dt"
    and "x (spacecraft (integrate_pt g)) = x (moonCenter g)"
proof -
  from assms(2,4) have angle:
    "atan2 (y (moonCenter g) - y (spacecraft g)) (x (moonCenter g) - x (spacecraft g)) = pi / 2"
    by (simp add: atan2_def)
  show vx: "velocityX (spacecraft (integrate_pt g)) = 0"
    and "velocityY (spacecraft (integrate_pt g)) = velocityY (spacecraft g) + MOON_GRAVITY * dt"
    using assms(1,3) by (simp_all add: integrate_pt_velocity angle)
  show "x (spacecraft (integrate_pt g)) = x (moonCenter g)"
    using assms(2) by (simp add: integrate_pt_position vx)
qed

lemma vertical_fall_update_pt:
  assumes "\<not> ArrowUp (keys g)" and "x (spacecraft g) = x (moonCenter g)"
    and "velocityX (spacecraft g) = 0" and "0 \<le> velocityY (spacecraft g)"
    and "isGameActive g \<and> \<not> isPaused g \<longrightarrow> y (spacecraft g) < y (moonCenter g)"
    and tick: "update_pt g = Inr g'"
  shows "x (spacecraft g') = x (moonCenter g)"
    and "velocityX (spacecraft g') = 0" and "0 \<le> velocityY (spacecraft g')"
    and "moonCenter g' = moonCenter g"
    and "isGameActive g \<and> \<not> isPaused g \<longrightarrow> speed g < speed g'"
proof -
  have k: "0 < MOON_GRAVITY * dt" by (simp add: MOON_GRAVITY_def dt_def)
  have all: "x (spacecraft g') = x (moonCenter g)
      \<and> velocityX (spacecraft g') = 0 \<and> 0 \<le> velocityY (spacecraft g')
      \<and> moonCenter g' = moonCenter g
      \<and> (isGameActive g \<and> \<not> isPaused g \<longrightarrow> speed g < speed g')"
  proof (cases "isGameActive g \<and> \<not> isPaused g")
    case False
    with tick have "g' = g" by (auto simp: update_pt_def)
    with False assms(2-4) show ?thesis by simp
  next
    case True
    with assms(5) have above: "y (spacecraft g) < y (moonCenter g)" by simp
    note fall = vertical_fall_integrate_pt [OF assms(1-3) above]
    from True tick have check: "checkCollision_pt (integrate_pt g) = Inr g'"
      by (simp add: update_pt_def)
    have craft: "spacecraft g' = spacecraft (integrate_pt g)"
      using check by (rule checkCollision_pt_fields(1))
    have centre: "moonCenter g' = moonCenter g"
      using checkCollision_pt_center [OF check] by simp
    have "speed g' = \<bar>velocityY (spacecraft g) + MOON_GRAVITY * dt\<bar>"
      using fall(1,2) by (simp add: speed_vertical craft)
    moreover have "speed g = \<bar>velocityY (spacecraft g)\<bar>"
      using assms(3) by (simp add: speed_vertical)
    ultimately have "speed g < speed g'" using assms(4) k by simp
    with assms(4) fall k centre show ?thesis by (simp add: craft)
  qed
  from all show "x (spacecraft g') = x (moonCenter g)"
    and "velocityX (spacecraft g') = 0" and "0 \<le> velocityY (spacecraft g')"
    and "moonCenter g' = moonCenter g"
    and "isGameActive g \<and> \<not> isPaused g \<longrightarrow> speed g < speed g'"
    by blast+
qed

text \<open>One more frame at the end of a run.\<close>

lemma run_snoc: "run (ks @ [k]) g = update ((run ks g)\<lparr>keys := k\<rparr>)"
  by (induction ks arbitrary: g) simp_all

lemma run_pt_snoc:
  "run_pt (ks @ [k]) g =
     (case run_pt ks g of Inl e \<Rightarrow> Inl e | Inr h \<Rightarrow> update_pt (h\<lparr>keys := k\<rparr>))"
  by (induction ks arbitrary: g) (simp_all split: sum.splits)

lemma run_pt_moonPoints: "run_pt ks g = Inr h \<Longrightarrow> moonPoints h = moonPoints g"
proof (induction ks arbitrary: g)
  case Nil
  then show ?case by simp
next
  case (Cons k ks)
  from Cons.prems obtain g1 where g1: "update_pt (g\<lparr>keys := k\<rparr>) = Inr g1"
    and rest: "run_pt ks g1 = Inr h"
    by (auto split: sum.splits)
  from Cons.IH [OF rest] update_pt_moonPoints [OF g1] show ?case by simp
qed

text \<open>
  The vertical fall over a run of frames in which the thrust key is never held: the craft
  stays on the vertical through the centre and never climbs, as long as it has been above
  the centre in every frame in which the session was active and unpaused.
\<close>

lemma vertical_fall_run:
  assumes "\<forall>k\<in>set ks. \<not> ArrowUp k" and "x (spacecraft g) = x (moonCenter g)"
    and "velocityX (spacecraft g) = 0" and "0 \<le> velocityY (spacecraft g)"
    and "\<forall>m<length ks. isGameActive (run (take m ks) g) \<and> \<not> isPaused (run (take m ks) g)
           \<longrightarrow> y (spacecraft (run (take m ks) g)) < y (moonCenter g)"
  shows "x (spacecraft (run ks g)) = x (moonCenter g)
    \<and> velocityX (spacecraft (run ks g)) = 0
    \<and> 0 \<le> velocityY (spacecraft (run ks g))
    \<and> moonCenter (run ks g) = moonCenter g"
  using assms(1,5)
proof (induction ks rule: rev_induct)
  case Nil
  with assms(2-4) show ?case by simp
next
  case (snoc k ks)
  let ?h = "run ks g"
  from snoc.prems(1) have coast: "\<forall>k\<in>set ks. \<not> ArrowUp k" and last: "\<not> ArrowUp k" by simp_all
  have earlier: "\<forall>m<length ks. isGameActive (run (take m ks) g) \<and> \<not> isPaused (run (take m ks) g)
           \<longrightarrow> y (spacecraft (run (take m ks) g)) < y (moonCenter g)"
  proof (intro allI impI)
    fix m assume m: "m < length ks"
      and on: "isGameActive (run (take m ks) g) \<and> \<not> isPaused (run (take m ks) g)"
    from m have "take m (ks @ [k]) = take m ks" by simp
    with snoc.prems(2) m on show "y (spacecraft (run (take m ks) g)) < y (moonCenter g)"
      by (metis length_append_singleton less_Suc_eq)
  qed
  from snoc.IH [OF coast earlier] have inv: "x (spacecraft ?h) = x (moonCenter ?h)"
    "velocityX (spacecraft ?h) = 0" "0 \<le> velocityY (spacecraft ?h)"
    and centre: "moonCenter ?h = moonCenter g"
    by simp_all
  from snoc.prems(2) have "isGameActive ?h \<and> \<not> isPaused ?h
      \<longrightarrow> y (spacecraft ?h) < y (moonCenter g)"
    by (metis append_eq_conv_conj length_append_singleton lessI)
  with centre have above: "isGameActive (?h\<lparr>keys := k\<rparr>) \<and> \<not> isPaused (?h\<lparr>keys := k\<rparr>)
      \<longrightarrow> y (spacecraft (?h\<lparr>keys := k\<rparr>)) < y (moonCenter (?h\<lparr>keys := k\<rparr>))"
    by simp
  from vertical_fall_update(2-5) [of "?h\<lparr>keys := k\<rparr>"] last inv above centre
  show ?case by (simp add: run_snoc)
qed

lemma vertical_fall_run_pt:
  assumes "\<forall>k\<in>set ks. \<not> ArrowUp k" and "x (spacecraft g) = x (moonCenter g)"
    and "velocityX (spacecraft g) = 0" and "0 \<le> velocityY (spacecraft g)"
    and "\<forall>m<length ks. \<forall>h. run_pt (take m ks) g = Inr h \<and> isGameActive h \<and> \<not> isPaused h
           \<longrightarrow> y (spacecraft h) < y (moonCenter g)"
    and "run_pt ks g = Inr h"
  shows "x (spacecraft h) = x (moonCenter g)
    \<and> velocityX (spacecraft h) = 0
    \<and> 0 \<le> velocityY (spacecraft h)
    \<and> moonCenter h = moonCenter g"
  using assms(1,5,6)
proof (induction ks arbitrary: h rule: rev_induct)
  case Nil
  with assms(2-4) show ?case by simp
next
  case (snoc k ks)
  from snoc.prems(1) have coast: "\<forall>k\<in>set ks. \<not> ArrowUp k" and last: "\<not> ArrowUp k" by simp_all
  from snoc.prems(3) obtain h0 where h0: "run_pt ks g = Inr h0"
    and tick: "update_pt (h0\<lparr>keys := k\<rparr>) = Inr h"
    by (auto simp: run_pt_snoc split: sum.splits)
  have earlier: "\<forall>m<length ks. \<forall>h. run_pt (take m ks) g = Inr h \<and> isGameActive h \<and> \<not> isPaused h
           \<longrightarrow> y (spacecraft h) < y (moonCenter g)"
  proof (intro allI impI)
    fix m h' assume m: "m < length ks"
      and on: "run_pt (take m ks) g = Inr h' \<and> isGameActive h' \<and> \<not> isPaused h'"
    from m have "take m (ks @ [k]) = take m ks" by simp
    with snoc.prems(2) m on show "y (spacecraft h') < y (moonCenter g)"
      by (metis length_append_singleton less_Suc_eq)
  qed
  from snoc.IH [OF coast earlier h0] have inv: "x (spacecraft h0) = x (moonCenter h0)"
    "velocityX (spacecraft h0) = 0" "0 \<le> velocityY (spacecraft h0)"
    and centre: "moonCenter h0 = moonCenter g"
    by simp_all
  have "take (length ks) (ks @ [k]) = ks" by simp
  with snoc.prems(2) h0 have "isGameActive h0 \<and> \<not> isPaused h0
      \<longrightarrow> y (spacecraft h0) < y (moonCenter g)"
    by (metis length_append_singleton lessI)
  with centre have above: "isGameActive (h0\<lparr>keys := k\<rparr>) \<and> \<not> isPaused (h0\<lparr>keys := k\<rparr>)
      \<longrightarrow> y (spacecraft (h0\<lparr>keys := k\<rparr>)) < y (moonCenter (h0\<lparr>keys := k\<rparr>))"
    by simp
  from vertical_fall_update_pt(1-4) [of "h0\<lparr>keys := k\<rparr>" h] last inv above centre tick
  show ?case by simp
qed

text \<open>The surface that \<^verbatim>\<open>generateMoon\<close> stores has one point for every pass of the loop.\<close>

lemma moonLoop_length:
  "i \<le> segments \<Longrightarrow>
     length (moonLoop rand segments bumpiness radius centerX centerY zone i k acc)
       = length acc + (segments - i)"
proof (induction rand segments bumpiness radius centerX centerY zone i k acc rule: moonLoop.induct)
  case (1 rand segments bumpiness radius centerX centerY zone i k acc)
  show ?case
  proof (cases "i < segments")
    case False
    with "1.prems" show ?thesis by (subst moonLoop.simps) simp
  next
    case True
    then have "Suc i \<le> segments" by simp
    from "1.IH" [OF True refl refl refl refl refl this] True show ?thesis
      by (subst moonLoop.simps) (simp add: Let_def)
  qed
qed

lemma reset_surface:
  "length (moonPoints (reset rand g)) = MOON_SEGMENTS"
  "length (moonPoints (reset_pt rand g)) = MOON_SEGMENTS_pt"
  by (simp_all add: reset_def reset_pt_def generateMoon_def generateMoon_pt_def Let_def
      moonLoop_length)
subsection \<open>The remainder and the normalised angle\<close>

lemma js_rem_bounds:
  assumes "0 < b"
  shows "- b < js_rem a b" and "js_rem a b < b"
proof -
  let ?q = "a / b"
  have a: "a = b * ?q" using assms by simp
  show "- b < js_rem a b"
  proof (cases "0 \<le> ?q")
    case True
    have "b * of_int \<lfloor>?q\<rfloor> \<le> b * ?q"
      using assms by (intro mult_left_mono) simp_all
    with True a assms show ?thesis by (simp add: js_rem_def trunc_def)
  next
    case False
    have "of_int \<lceil>?q\<rceil> < ?q + 1" using ceiling_correct [of ?q] by simp
    then have "b * of_int \<lceil>?q\<rceil> < b * (?q + 1)"
      using assms by (intro mult_strict_left_mono)
    with False a assms show ?thesis by (simp add: js_rem_def trunc_def algebra_simps)
  qed
  show "js_rem a b < b"
  proof (cases "0 \<le> ?q")
    case True
    have "?q < of_int \<lfloor>?q\<rfloor> + 1" by simp
    then have "b * ?q < b * (of_int \<lfloor>?q\<rfloor> + 1)"
      using assms by (intro mult_strict_left_mono)
    with True a assms show ?thesis by (simp add: js_rem_def trunc_def algebra_simps)
  next
    case False
    have "b * ?q \<le> b * of_int \<lceil>?q\<rceil>"
      using assms by (intro mult_left_mono) simp_all
    with False a assms show ?thesis by (simp add: js_rem_def trunc_def)
  qed
qed

lemma normalizedRotation_range:
  "- 180 \<le> normalizedRotation g" "normalizedRotation g \<le> 180"
  using js_rem_bounds [of 360 "rotation (spacecraft g) + 90 - angleToCenter g"]
  by (auto simp: normalizedRotation_def relativeRotation_def)

lemma normalizedRotation_turns:
  "\<exists>k::int. normalizedRotation g
     = rotation (spacecraft g) + 90 - angleToCenter g + 360 * of_int k"
proof -
  let ?a = "rotation (spacecraft g) + 90 - angleToCenter g"
  let ?t = "trunc (?a / 360)"
  have rel: "relativeRotation g = ?a + 360 * of_int (- ?t)"
    by (simp add: relativeRotation_def js_rem_def)
  have "normalizedRotation g = ?a + 360 * of_int (- ?t - 1)
        \<or> normalizedRotation g = ?a + 360 * of_int (- ?t + 1)
        \<or> normalizedRotation g = ?a + 360 * of_int (- ?t)"
    unfolding normalizedRotation_def rel by simp
  then show ?thesis by blast
qed

lemma cos_whole_turns:
  "cos ((a + 360 * of_int k) * pi / 180) = cos (a * pi / 180)"
proof -
  have turns: "(a + 360 * of_int k) * pi / 180 = a * pi / 180 + (2 * pi) * of_int k"
    by (simp add: algebra_simps)
  have "cos (a * pi / 180 + (2 * pi) * of_int k) = cos (a * pi / 180)"
    by (simp add: cos_add)
  then show ?thesis unfolding turns .
qed

text \<open>
  The cosine of the normalised angle is the cosine of the angle between the nose of the
  craft and the outward radial direction.
\<close>

lemma cos_normalizedRotation:
  assumes "distance g \<noteq> 0"
  shows "cos (normalizedRotation g * pi / 180) = radialAlignment g / distance g"
proof -
  let ?a = "x (moonCenter g) - x (spacecraft g)" and ?b = "y (moonCenter g) - y (spacecraft g)"
  let ?t = "atan2 ?b ?a"
  let ?r = "(rotation (spacecraft g) * pi) / 180"
  from assms have nz: "?a \<noteq> 0 \<or> ?b \<noteq> 0" by (auto simp: distance_def)
  have d: "distance g = sqrt (?a\<^sup>2 + ?b\<^sup>2)" by (simp add: distance_def power2_eq_square)
  have common: "- s * (a / d) + c * (b / d) = (- s * a + c * b) / d" for s c a b d :: real
    by (simp add: diff_divide_distrib)
  from normalizedRotation_turns obtain k :: int
    where k: "normalizedRotation g
                = rotation (spacecraft g) + 90 - angleToCenter g + 360 * of_int k" ..
  have "cos (normalizedRotation g * pi / 180)
        = cos ((rotation (spacecraft g) + 90 - angleToCenter g) * pi / 180)"
    unfolding k by (rule cos_whole_turns)
  also have "(rotation (spacecraft g) + 90 - angleToCenter g) * pi / 180 = (?r + pi / 2) - ?t"
    by (simp add: angleToCenter_def field_simps)
  also have "cos ((?r + pi / 2) - ?t) = - sin ?r * cos ?t + cos ?r * sin ?t"
    by (simp add: cos_diff cos_add sin_add)
  also have "\<dots> = (- sin ?r * ?a + cos ?r * ?b) / distance g"
    unfolding cos_atan2 [OF nz] sin_atan2 [OF nz] d by (rule common)
  also have "- sin ?r * ?a + cos ?r * ?b = radialAlignment g"
    by (simp add: radialAlignment_def algebra_simps)
  finally show ?thesis .
qed

lemma isUprightLanding_radial:
  assumes "distance g \<noteq> 0"
  shows "isUprightLanding g
         \<longleftrightarrow> cos (ACCEPTABLE_LANDING_ANGLE * pi / 180) * distance g \<le> radialAlignment g"
proof -
  let ?n = "normalizedRotation g"
  have pos: "0 < distance g"
    using assms by (simp add: distance_def less_le)
  have range: "0 \<le> \<bar>?n\<bar> * pi / 180" "\<bar>?n\<bar> * pi / 180 \<le> pi"
    using normalizedRotation_range [of g] by (simp_all add: abs_le_iff)
  have limit: "0 \<le> ACCEPTABLE_LANDING_ANGLE * pi / 180" "ACCEPTABLE_LANDING_ANGLE * pi / 180 \<le> pi"
    by (simp_all add: ACCEPTABLE_LANDING_ANGLE_def)
  have even: "cos (\<bar>?n\<bar> * pi / 180) = cos (?n * pi / 180)"
  proof -
    have "\<bar>?n\<bar> * pi / 180 = \<bar>?n * pi / 180\<bar>" by (simp add: abs_mult)
    then have "cos (\<bar>?n\<bar> * pi / 180) = cos \<bar>?n * pi / 180\<bar>" by (rule arg_cong)
    also have "\<dots> = cos (?n * pi / 180)" by (rule cos_abs_real)
    finally show ?thesis .
  qed
  have "isUprightLanding g \<longleftrightarrow> \<bar>?n\<bar> * pi / 180 \<le> ACCEPTABLE_LANDING_ANGLE * pi / 180"
    by (simp add: isUprightLanding_def)
  also have "\<dots> \<longleftrightarrow> cos (ACCEPTABLE_LANDING_ANGLE * pi / 180) \<le> cos (\<bar>?n\<bar> * pi / 180)"
    using cos_mono_le_eq [OF limit range] by simp
  also have "cos (\<bar>?n\<bar> * pi / 180) = cos (?n * pi / 180)"
    by (rule even)
  also have "\<dots> = radialAlignment g / distance g"
    by (rule cos_normalizedRotation [OF assms])
  also have "cos (ACCEPTABLE_LANDING_ANGLE * pi / 180) \<le> radialAlignment g / distance g
             \<longleftrightarrow> cos (ACCEPTABLE_LANDING_ANGLE * pi / 180) * distance g \<le> radialAlignment g"
    using pos by (simp add: pos_le_divide_eq)
  finally show ?thesis .
qed

subsection \<open>The generated surface\<close>

lemma offset_bound:
  fixes r radius bumpiness :: real
  assumes "0 \<le> r" "r < 1" "0 \<le> radius" "0 \<le> bumpiness"
  shows "\<bar>(r - 5 / 10) * radius * bumpiness\<bar> \<le> radius * bumpiness / 2"
proof -
  have "\<bar>r - 5 / 10\<bar> \<le> 1 / 2" using assms(1,2) by linarith
  moreover have "0 \<le> radius * bumpiness" using assms(3,4) by simp
  ultimately have "\<bar>r - 5 / 10\<bar> * (radius * bumpiness) \<le> (1 / 2) * (radius * bumpiness)"
    by (rule mult_right_mono)
  moreover have "\<bar>(r - 5 / 10) * radius * bumpiness\<bar> = \<bar>r - 5 / 10\<bar> * (radius * bumpiness)"
    using assms(3,4) by (simp add: abs_mult mult.assoc)
  ultimately show ?thesis by simp
qed

lemma moonLoop_points:
  assumes rand: "\<forall>k. 0 \<le> rand k \<and> rand k < 1"
    and nonneg: "0 \<le> radius" "0 \<le> bumpiness"
    and acc: "length acc = i" "i \<le> segments"
      "\<forall>j<i. \<exists>offset. acc ! j = offsetPoint centerX centerY radius segments j offset
                \<and> (zone \<le> int j \<and> int j \<le> zone + 1 \<longrightarrow> offset = 0)
                \<and> \<bar>offset\<bar> \<le> radius * bumpiness / 2"
  shows "length (moonLoop rand segments bumpiness radius centerX centerY zone i k acc) = segments
    \<and> (\<forall>j<segments. \<exists>offset.
          moonLoop rand segments bumpiness radius centerX centerY zone i k acc ! j
            = offsetPoint centerX centerY radius segments j offset
          \<and> (zone \<le> int j \<and> int j \<le> zone + 1 \<longrightarrow> offset = 0)
          \<and> \<bar>offset\<bar> \<le> radius * bumpiness / 2)"
  using rand nonneg acc
proof (induction rand segments bumpiness radius centerX centerY zone i k acc
    rule: moonLoop.induct)
  case (1 rand segments bumpiness radius centerX centerY zone i k acc)
  note rand = "1.prems"(1) and nonneg = "1.prems"(2,3) and acc = "1.prems"(4-6)
  show ?case
  proof (cases "i < segments")
    case False
    with acc have "i = segments" by simp
    with acc False show ?thesis by (subst moonLoop.simps, subst (2) moonLoop.simps) simp
  next
    case True
    let ?inZone = "zone \<le> int i \<and> int i \<le> zone + 1"
    let ?off = "if ?inZone then 0 else (rand k - 5 / 10) * radius * bumpiness"
    let ?p = "offsetPoint centerX centerY radius segments i ?off"
    let ?k = "if ?inZone then k else Suc k"
    have unfold: "moonLoop rand segments bumpiness radius centerX centerY zone i k acc
        = moonLoop rand segments bumpiness radius centerX centerY zone (Suc i) ?k (acc @ [?p])"
      using True by (subst moonLoop.simps) (simp add: Let_def offsetPoint_def)
    from rand have "0 \<le> rand k" "rand k < 1" by simp_all
    from offset_bound [OF this nonneg] nonneg
    have small: "\<bar>?off\<bar> \<le> radius * bumpiness / 2"
      by (cases ?inZone) simp_all
    have new: "\<forall>j<Suc i. \<exists>offset. (acc @ [?p]) ! j = offsetPoint centerX centerY radius segments j offset
                \<and> (zone \<le> int j \<and> int j \<le> zone + 1 \<longrightarrow> offset = 0)
                \<and> \<bar>offset\<bar> \<le> radius * bumpiness / 2"
    proof (intro allI impI)
      fix j assume j: "j < Suc i"
      show "\<exists>offset. (acc @ [?p]) ! j = offsetPoint centerX centerY radius segments j offset
                \<and> (zone \<le> int j \<and> int j \<le> zone + 1 \<longrightarrow> offset = 0)
                \<and> \<bar>offset\<bar> \<le> radius * bumpiness / 2"
      proof (cases "j = i")
        case True
        with acc(1) have "(acc @ [?p]) ! j = ?p" by (simp add: nth_append)
        with True small show ?thesis by auto
      next
        case False
        with j have "j < i" by simp
        with acc(1,3) show ?thesis by (simp add: nth_append)
      qed
    qed
    have lens: "length (acc @ [?p]) = Suc i" "Suc i \<le> segments"
      using acc(1) True by simp_all
    note IH = "1.IH" [OF True refl refl refl refl refl rand nonneg]
    from IH [folded offsetPoint_def, OF lens new]
    show ?thesis unfolding unfold .
  qed
qed

lemma spread_range:
  fixes r :: real
  assumes "0 \<le> r" "r < 1"
  shows "- 5 \<le> \<lfloor>r * of_int (LANDING_ZONE_SPREAD * 2 + 1)\<rfloor> - LANDING_ZONE_SPREAD"
    and "\<lfloor>r * of_int (LANDING_ZONE_SPREAD * 2 + 1)\<rfloor> - LANDING_ZONE_SPREAD \<le> 5"
proof -
  have "0 \<le> r * 11" "r * 11 < 11" using assms by simp_all
  then have "0 \<le> \<lfloor>r * 11\<rfloor>" "\<lfloor>r * 11\<rfloor> < 11" by (simp_all add: floor_less_iff)
  then show "- 5 \<le> \<lfloor>r * of_int (LANDING_ZONE_SPREAD * 2 + 1)\<rfloor> - LANDING_ZONE_SPREAD"
    and "\<lfloor>r * of_int (LANDING_ZONE_SPREAD * 2 + 1)\<rfloor> - LANDING_ZONE_SPREAD \<le> 5"
    by (simp_all add: LANDING_ZONE_SPREAD_def)
qed

lemma on_circle:
  assumes "p = offsetPoint centerX centerY radius segments i 0"
  shows "(x p - centerX)\<^sup>2 + (y p - centerY)\<^sup>2 = radius\<^sup>2"
proof -
  let ?a = "((pi * 2) / real segments) * real i"
  have "x p - centerX = cos ?a * radius" "y p - centerY = - (sin ?a * radius)"
    unfolding assms offsetPoint_def by simp_all
  then have "(x p - centerX)\<^sup>2 + (y p - centerY)\<^sup>2 = (cos ?a * radius)\<^sup>2 + (sin ?a * radius)\<^sup>2"
    by simp
  also have "\<dots> = ((cos ?a)\<^sup>2 + (sin ?a)\<^sup>2) * radius\<^sup>2"
    by (simp only: power_mult_distrib distrib_right)
  also have "\<dots> = radius\<^sup>2" by simp
  finally show ?thesis .
qed

lemma resizeCanvas_scale:
  "0 \<le> innerWidth \<Longrightarrow> 0 \<le> innerHeight \<Longrightarrow> 0 \<le> scale (resizeCanvas innerWidth innerHeight g)"
  by (simp add: resizeCanvas_def)

subsection \<open>The closest segment of \<^verbatim>\<open>script.js\<close>\<close>

text \<open>
  The loop keeps the first index at which the distance is the least: from pass \<open>i\<close> on, with
  a minimum \<open>d\<close> found so far at index \<open>c\<close>, it either keeps both, and no later distance is
  below \<open>d\<close>, or it ends at a later index whose distance is below \<open>d\<close>, below every distance
  in between and not above any distance after pass \<open>i\<close>.
\<close>

lemma closestLoop_least:
  fixes b :: vec and rps :: "vec list"
  defines "D \<equiv> \<lambda>j. distanceToLineSegment (x b) (y b) (x (rps ! j)) (y (rps ! j))
                      (x (rps ! Suc j)) (y (rps ! Suc j))"
  shows "closestLoop b rps i (Some d) c = (Some d, c)
           \<and> (\<forall>j. i \<le> j \<and> int j < int (length rps) - 1 \<longrightarrow> d \<le> D j)
         \<or> (\<exists>k. closestLoop b rps i (Some d) c = (Some (D k), int k)
              \<and> i \<le> k \<and> int k < int (length rps) - 1 \<and> D k < d
              \<and> (\<forall>j. i \<le> j \<and> j < k \<longrightarrow> D k < D j)
              \<and> (\<forall>j. i \<le> j \<and> int j < int (length rps) - 1 \<longrightarrow> D k \<le> D j))"
  unfolding D_def
proof (induction b rps i "Some d" c arbitrary: d rule: closestLoop.induct)
  case (1 b rps i c)
  show ?case
  proof (cases "int i < int (length rps) - 1")
    case False
    then have "closestLoop b rps i (Some d) c = (Some d, c)"
      by (subst closestLoop.simps) simp
    with False show ?thesis by auto
  next
    case True
    let ?D = "\<lambda>j. distanceToLineSegment (x b) (y b) (x (rps ! j)) (y (rps ! j))
                      (x (rps ! Suc j)) (y (rps ! Suc j))"
    have from_i: "i \<le> j \<longleftrightarrow> j = i \<or> Suc i \<le> j" for j by auto
    show ?thesis
    proof (cases "?D i < d")
      case closer: True
      with True have eq: "closestLoop b rps i (Some d) c
          = closestLoop b rps (Suc i) (Some (?D i)) (int i)"
        by (subst closestLoop.simps) (simp add: Let_def)
      from closer have test: "case Some d of None \<Rightarrow> True | Some m \<Rightarrow> ?D i < m" by simp
      from "1.hyps"(1) [OF True refl refl refl test]
      consider (keep) "closestLoop b rps (Suc i) (Some (?D i)) (int i) = (Some (?D i), int i)"
          "\<forall>j. Suc i \<le> j \<and> int j < int (length rps) - 1 \<longrightarrow> ?D i \<le> ?D j"
        | (later) k where "closestLoop b rps (Suc i) (Some (?D i)) (int i) = (Some (?D k), int k)"
          "Suc i \<le> k" "int k < int (length rps) - 1" "?D k < ?D i"
          "\<forall>j. Suc i \<le> j \<and> j < k \<longrightarrow> ?D k < ?D j"
          "\<forall>j. Suc i \<le> j \<and> int j < int (length rps) - 1 \<longrightarrow> ?D k \<le> ?D j"
        by blast
      then show ?thesis
      proof cases
        case keep
        have "closestLoop b rps i (Some d) c = (Some (?D i), int i)
              \<and> i \<le> i \<and> int i < int (length rps) - 1 \<and> ?D i < d
              \<and> (\<forall>j. i \<le> j \<and> j < i \<longrightarrow> ?D i < ?D j)
              \<and> (\<forall>j. i \<le> j \<and> int j < int (length rps) - 1 \<longrightarrow> ?D i \<le> ?D j)"
          using keep True closer unfolding eq from_i by auto
        then show ?thesis by blast
      next
        case later
        have "closestLoop b rps i (Some d) c = (Some (?D k), int k)
              \<and> i \<le> k \<and> int k < int (length rps) - 1 \<and> ?D k < d
              \<and> (\<forall>j. i \<le> j \<and> j < k \<longrightarrow> ?D k < ?D j)
              \<and> (\<forall>j. i \<le> j \<and> int j < int (length rps) - 1 \<longrightarrow> ?D k \<le> ?D j)"
          using later closer unfolding eq from_i by auto
        then show ?thesis by blast
      qed
    next
      case farther: False
      with True have eq: "closestLoop b rps i (Some d) c = closestLoop b rps (Suc i) (Some d) c"
        by (subst closestLoop.simps) (simp add: Let_def)
      from farther have test: "\<not> (case Some d of None \<Rightarrow> True | Some m \<Rightarrow> ?D i < m)" by simp
      from "1.hyps"(2) [OF True refl refl refl test]
      consider (keep) "closestLoop b rps (Suc i) (Some d) c = (Some d, c)"
          "\<forall>j. Suc i \<le> j \<and> int j < int (length rps) - 1 \<longrightarrow> d \<le> ?D j"
        | (later) k where "closestLoop b rps (Suc i) (Some d) c = (Some (?D k), int k)"
          "Suc i \<le> k" "int k < int (length rps) - 1" "?D k < d"
          "\<forall>j. Suc i \<le> j \<and> j < k \<longrightarrow> ?D k < ?D j"
          "\<forall>j. Suc i \<le> j \<and> int j < int (length rps) - 1 \<longrightarrow> ?D k \<le> ?D j"
        by blast
      then show ?thesis
      proof cases
        case keep
        have "closestLoop b rps i (Some d) c = (Some d, c)
           \<and> (\<forall>j. i \<le> j \<and> int j < int (length rps) - 1 \<longrightarrow> d \<le> ?D j)"
          using keep farther unfolding eq from_i by auto
        then show ?thesis by blast
      next
        case later
        have "closestLoop b rps i (Some d) c = (Some (?D k), int k)
              \<and> i \<le> k \<and> int k < int (length rps) - 1 \<and> ?D k < d
              \<and> (\<forall>j. i \<le> j \<and> j < k \<longrightarrow> ?D k < ?D j)
              \<and> (\<forall>j. i \<le> j \<and> int j < int (length rps) - 1 \<longrightarrow> ?D k \<le> ?D j)"
          using later farther unfolding eq from_i by auto
        then show ?thesis by blast
      qed
    qed
  qed
qed

lemma closestSegmentIndex_pt_least:
  assumes two: "2 \<le> length (moonPoints g)"
  shows "0 \<le> closestSegmentIndex_pt g"
    and "closestSegmentIndex_pt g < int (length (moonPoints g)) - 1"
    and "\<forall>j. int j < int (length (moonPoints g)) - 1
           \<longrightarrow> segmentDistance g (nat (closestSegmentIndex_pt g)) \<le> segmentDistance g j"
    and "\<forall>j. int j < closestSegmentIndex_pt g
           \<longrightarrow> segmentDistance g (nat (closestSegmentIndex_pt g)) < segmentDistance g j"
proof -
  let ?b = "spacecraftBottom g" and ?rps = "rotatedPoints g"
  have len: "length ?rps = length (moonPoints g)" by (simp add: rotatedPoints_def)
  from two have lt: "int 0 < int (length ?rps) - 1" by (simp add: len)
  have start: "closestLoop ?b ?rps 0 None (- 1)
      = closestLoop ?b ?rps (Suc 0) (Some (segmentDistance g 0)) (int 0)"
    using lt by (subst closestLoop.simps) (simp add: Let_def segmentDistance_def)
  have first: "j = 0 \<or> Suc 0 \<le> j" for j :: nat by auto
  from closestLoop_least [of ?b ?rps "Suc 0" "segmentDistance g 0" "int 0",
      folded segmentDistance_def]
  consider (keep) "closestLoop ?b ?rps (Suc 0) (Some (segmentDistance g 0)) (int 0)
          = (Some (segmentDistance g 0), int 0)"
      "\<forall>j. Suc 0 \<le> j \<and> int j < int (length ?rps) - 1
         \<longrightarrow> segmentDistance g 0 \<le> segmentDistance g j"
    | (later) k where "closestLoop ?b ?rps (Suc 0) (Some (segmentDistance g 0)) (int 0)
          = (Some (segmentDistance g k), int k)"
      "Suc 0 \<le> k" "int k < int (length ?rps) - 1" "segmentDistance g k < segmentDistance g 0"
      "\<forall>j. Suc 0 \<le> j \<and> j < k \<longrightarrow> segmentDistance g k < segmentDistance g j"
      "\<forall>j. Suc 0 \<le> j \<and> int j < int (length ?rps) - 1
         \<longrightarrow> segmentDistance g k \<le> segmentDistance g j"
    by blast
  then have all: "0 \<le> closestSegmentIndex_pt g
    \<and> closestSegmentIndex_pt g < int (length (moonPoints g)) - 1
    \<and> (\<forall>j. int j < int (length (moonPoints g)) - 1
           \<longrightarrow> segmentDistance g (nat (closestSegmentIndex_pt g)) \<le> segmentDistance g j)
    \<and> (\<forall>j. int j < closestSegmentIndex_pt g
           \<longrightarrow> segmentDistance g (nat (closestSegmentIndex_pt g)) < segmentDistance g j)"
  proof cases
    case keep
    have index: "closestSegmentIndex_pt g = 0"
      using keep(1) by (simp add: closestSegmentIndex_pt_def start)
    have "segmentDistance g 0 \<le> segmentDistance g j"
      if "int j < int (length (moonPoints g)) - 1" for j
      using first [of j] keep(2) that by (auto simp: len)
    with two show ?thesis by (simp add: index)
  next
    case later
    have index: "closestSegmentIndex_pt g = int k"
      using later(1) by (simp add: closestSegmentIndex_pt_def start)
    have least: "segmentDistance g k \<le> segmentDistance g j"
      if "int j < int (length (moonPoints g)) - 1" for j
      using first [of j] later(4,6) that by (auto simp: len)
    have before: "segmentDistance g k < segmentDistance g j" if "j < k" for j
      using first [of j] later(4,5) that by auto
    from later(3) least before show ?thesis by (simp add: index len)
  qed
  from all show "0 \<le> closestSegmentIndex_pt g"
    and "closestSegmentIndex_pt g < int (length (moonPoints g)) - 1"
    and "\<forall>j. int j < int (length (moonPoints g)) - 1
           \<longrightarrow> segmentDistance g (nat (closestSegmentIndex_pt g)) \<le> segmentDistance g j"
    and "\<forall>j. int j < closestSegmentIndex_pt g
           \<longrightarrow> segmentDistance g (nat (closestSegmentIndex_pt g)) < segmentDistance g j"
    by blast+
qed

text \<open>
  \<^verbatim>\<open>rotatePoint\<close> about the centre of the moon keeps the distance to the centre, so that the
  surface distance of a rotated point is that of the stored one.
\<close>

lemma rotation_keeps_length:
  fixes u v c s :: real
  shows "(c * u - s * v)\<^sup>2 + (s * u + c * v)\<^sup>2 = (s\<^sup>2 + c\<^sup>2) * (u\<^sup>2 + v\<^sup>2)"
  by (simp add: power2_eq_square algebra_simps)

lemma surfaceDistance_rotatePoint:
  "surfaceDistance g (rotatePoint p (moonCenter g) a) = surfaceDistance g p"
proof -
  let ?u = "x p - x (moonCenter g)" and ?v = "y p - y (moonCenter g)"
  have "(cos a * ?u - sin a * ?v)\<^sup>2 + (sin a * ?u + cos a * ?v)\<^sup>2
        = ((sin a)\<^sup>2 + (cos a)\<^sup>2) * (?u\<^sup>2 + ?v\<^sup>2)"
    by (rule rotation_keeps_length)
  also have "\<dots> = ?u\<^sup>2 + ?v\<^sup>2" by simp
  finally show ?thesis
    by (simp add: surfaceDistance_def rotatePoint_def Let_def)
qed

text \<open>
  A bottom point that is at least as far from the centre as every surface point is never
  taken for a collision by \<^verbatim>\<open>script.js\<close>.
\<close>

lemma outside_every_point:
  assumes two: "2 \<le> length (moonPoints g)"
    and far: "\<forall>p\<in>set (moonPoints g). surfaceDistance g p \<le> distanceToCenter g"
  shows "\<not> collision_pt g"
proof -
  let ?k = "nat (closestSegmentIndex_pt g)"
  from closestSegmentIndex_pt_least(1,2) [OF two] have k: "?k < length (moonPoints g)" by simp
  then have "rotatedPoints g ! ?k = rotatePoint (moonPoints g ! ?k) (moonCenter g) (moonRotation g)"
    by (simp add: rotatedPoints_def)
  then have "surfaceDistance g (rotatedPoints g ! ?k) = surfaceDistance g (moonPoints g ! ?k)"
    by (simp add: surfaceDistance_rotatePoint)
  also from k far have "\<dots> \<le> distanceToCenter g" by simp
  finally show ?thesis by (simp add: collision_pt_def)
qed

subsection \<open>The craft that hovers outside the example surface\<close>

lemma sqrt_less_iff_square:
  fixes c r :: real
  assumes "0 \<le> c"
  shows "sqrt r < c \<longleftrightarrow> r < c\<^sup>2" and "c < sqrt r \<longleftrightarrow> c\<^sup>2 < r"
proof -
  from assms have c: "sqrt (c\<^sup>2) = c" by simp
  have "sqrt r < sqrt (c\<^sup>2) \<longleftrightarrow> r < c\<^sup>2" by (rule real_sqrt_less_iff)
  then show "sqrt r < c \<longleftrightarrow> r < c\<^sup>2" by (simp only: c)
  have "sqrt (c\<^sup>2) < sqrt r \<longleftrightarrow> c\<^sup>2 < r" by (rule real_sqrt_less_iff)
  then show "c < sqrt r \<longleftrightarrow> c\<^sup>2 < r" by (simp only: c)
qed

lemma hovering_moved: "integrate_pt hovering = hovered" "integrate hovering = hovered"
proof -
  have nz: "(100 - 280 :: real) \<noteq> 0 \<or> (520 - 280 :: real) \<noteq> 0" by simp
  have hyp: "sqrt 90000 = (300::real)" by (rule real_sqrt_unique) simp_all
  have dir: "cos (atan2 (520 - 280) (100 - 280)) = - (3 / 5)"
    "sin (atan2 (520 - 280) (100 - 280)) = 4 / 5"
    unfolding cos_atan2 [OF nz] sin_atan2 [OF nz] by (simp_all add: hyp)
  show "integrate_pt hovering = hovered"
    using dir
    by (simp add: integrate_pt_def hovering_def hovered_def demo_def noKeys_def
        beforeFullTurn_def MOON_GRAVITY_def dt_def Let_def)
  show "integrate hovering = hovered"
    using dir
    by (simp add: integrate_def hovering_def hovered_def demo_def noKeys_def
        beforeFullTurn_def MOON_GRAVITY_def dt_def Let_def)
qed

lemma hovered_index: "closestSegmentIndex_pt hovered = 0"
  by (simp add: closestSegmentIndex_pt_def closestLoop.simps distanceToLineSegment_def
        spacecraftBottom_def SPACECRAFT_HEIGHT_pt_def hovered_def demo_simps)

lemma hovered_collision_pt: "collision_pt hovered"
  unfolding collision_pt_def hovered_index
  by (simp add: distanceToCenter_def surfaceDistance_def spacecraftBottom_def
        SPACECRAFT_HEIGHT_pt_def sqrt_less_iff_square power2_eq_square hovered_def demo_simps)

lemma hovered_landed: "checkCollision_pt hovered = Inr (endGame True [] hovered)"
proof -
  have zone: "isInLandingZone hovered (closestSegmentIndex_pt hovered)"
    unfolding hovered_index by (simp add: isInLandingZone_def hovered_def demo_def)
  have upright: "isUprightLanding_pt hovered"
    by (simp add: isUprightLanding_pt_def ACCEPTABLE_LANDING_ANGLE_def hovered_def demo_def)
  have soft: "isSoftLanding hovered"
    by (simp add: isSoftLanding_def speed_acceptable_iff hovered_def demo_def)
  from hovered_collision_pt have "\<not> surfaceDistance hovered
      (rotatedPoints hovered ! nat (closestSegmentIndex_pt hovered)) \<le> distanceToCenter hovered"
    by (simp add: collision_pt_def)
  with zone upright soft show ?thesis
    by (simp add: checkCollision_pt_def hovered_index Let_def)
qed

lemma hovered_box: "\<not> collision hovered"
  by (simp add: hovered_def demo_simps)

lemma hovered_sides:
  "\<not> silhouetteIntersects hovered 0" "\<not> silhouetteIntersects hovered 1"
  "\<not> silhouetteIntersects hovered 2" "\<not> closingSegmentIntersects hovered"
  by (simp_all add: silhouetteIntersects_def closingSegmentIntersects_def four_sides
      hovered_def demo_simps)

lemma hovered_clearance:
  "10 < clearance hovered 0" "10 < clearance hovered 1"
  "10 < clearance hovered 2" "10 < clearance hovered 3"
  by (simp_all add: clearance_def distanceToLineSegment_def sqrt_less_iff_square
      power2_eq_square hovered_def demo_simps)

text \<open>
  C1. When \<^verbatim>\<open>checkCollision\<close> has found a collision at segment
  \<open>s = closestSegmentIndex\<close>, it ends the session, and it reports success (the outcome
  "landed") exactly when the three tests pass: \<open>\<bar>s - landingZoneIndex\<bar> \<le> 1\<close>, upright, and
  \<open>speed \<le> ACCEPTABLE_LANDING_SPEED\<close>. Otherwise it reports a failure with one reason, that
  of the first failing test in the order zone, upright, speed. In \<^verbatim>\<open>part_001\<close> the reasons
  are the keys \<^verbatim>\<open>missedZone\<close>, \<^verbatim>\<open>notUpright\<close>, \<^verbatim>\<open>tooFast\<close> and success carries the key
  \<^verbatim>\<open>success\<close>; in \<^verbatim>\<open>script.js\<close> they are the three texts and success carries no text.
  Each revision uses its own upright test.
\<close>

theorem classification_first_failing_check:
  "(collision g \<longrightarrow>
      \<not> isGameActive (checkCollision g)
      \<and> (modal (checkCollision g) = Some (True, ''success'')
           \<longleftrightarrow> \<bar>closestSegmentIndex g - landingZoneIndex g\<bar> \<le> 1 \<and> isUprightLanding g
               \<and> speed g \<le> ACCEPTABLE_LANDING_SPEED)
      \<and> (\<not> \<bar>closestSegmentIndex g - landingZoneIndex g\<bar> \<le> 1
           \<longrightarrow> modal (checkCollision g) = Some (False, ''missedZone''))
      \<and> (\<bar>closestSegmentIndex g - landingZoneIndex g\<bar> \<le> 1 \<and> \<not> isUprightLanding g
           \<longrightarrow> modal (checkCollision g) = Some (False, ''notUpright''))
      \<and> (\<bar>closestSegmentIndex g - landingZoneIndex g\<bar> \<le> 1 \<and> isUprightLanding g
           \<and> \<not> speed g \<le> ACCEPTABLE_LANDING_SPEED
           \<longrightarrow> modal (checkCollision g) = Some (False, ''tooFast'')))
   \<and> (0 \<le> closestSegmentIndex_pt g \<and> collision_pt g \<longrightarrow>
        (\<exists>g'. checkCollision_pt g = Inr g' \<and> \<not> isGameActive g'
           \<and> (modal g' = Some (True, [])
                \<longleftrightarrow> \<bar>closestSegmentIndex_pt g - landingZoneIndex g\<bar> \<le> 1 \<and> isUprightLanding_pt g
                    \<and> speed g \<le> ACCEPTABLE_LANDING_SPEED)
           \<and> (\<not> \<bar>closestSegmentIndex_pt g - landingZoneIndex g\<bar> \<le> 1
                \<longrightarrow> modal g' = Some (False, ''Missed the landing zone!''))
           \<and> (\<bar>closestSegmentIndex_pt g - landingZoneIndex g\<bar> \<le> 1 \<and> \<not> isUprightLanding_pt g
                \<longrightarrow> modal g' = Some (False, ''Not upright!''))
           \<and> (\<bar>closestSegmentIndex_pt g - landingZoneIndex g\<bar> \<le> 1 \<and> isUprightLanding_pt g
                \<and> \<not> speed g \<le> ACCEPTABLE_LANDING_SPEED
                \<longrightarrow> modal g' = Some (False, ''Too fast!''))))"
  by (simp add: checkCollision_def checkCollision_pt_def collision_pt_def isInLandingZone_def
      isSoftLanding_def Let_def)

theorem classification_first_failing_check_witness:
  "modal (checkCollision
      (demo 0 \<lparr>x = 100, y = 118, rotation = 0, velocityX = 0, velocityY = 1, fuel = 50\<rparr> noKeys))
     = Some (True, ''success'')
   \<and> modal (checkCollision
      (demo 0 \<lparr>x = 100, y = 118, rotation = 0, velocityX = 3, velocityY = 4, fuel = 50\<rparr> noKeys))
     = Some (False, ''tooFast'')
   \<and> (\<exists>g'. checkCollision_pt
      (demo 0 \<lparr>x = 100, y = 118, rotation = 0, velocityX = 0, velocityY = 1, fuel = 50\<rparr> noKeys)
        = Inr g' \<and> modal g' = Some (True, []))
   \<and> (\<exists>g'. checkCollision_pt
      (demo 0 \<lparr>x = 100, y = 118, rotation = 5, velocityX = 3, velocityY = 4, fuel = 50\<rparr> noKeys)
        = Inr g' \<and> modal g' = Some (False, ''Not upright!''))"
proof -
  let ?slow = "demo 0 \<lparr>x = 100, y = 118, rotation = 0, velocityX = 0, velocityY = 1, fuel = 50\<rparr> noKeys"
  let ?fast = "demo 0 \<lparr>x = 100, y = 118, rotation = 0, velocityX = 3, velocityY = 4, fuel = 50\<rparr> noKeys"
  let ?tilt = "demo 0 \<lparr>x = 100, y = 118, rotation = 5, velocityX = 3, velocityY = 4, fuel = 50\<rparr> noKeys"
  have hit: "collision ?slow" "collision ?fast"
    by (simp_all add: demo_simps)
  have zone: "\<bar>closestSegmentIndex ?slow - landingZoneIndex ?slow\<bar> \<le> 1"
    "\<bar>closestSegmentIndex ?fast - landingZoneIndex ?fast\<bar> \<le> 1"
    by (simp_all add: demo_simps)
  have upright: "isUprightLanding ?slow" "isUprightLanding ?fast"
    by (simp_all add: isUprightLanding_def normalizedRotation_def relativeRotation_def
        angleToCenter_def atan2_def js_rem_def trunc_small ACCEPTABLE_LANDING_ANGLE_def demo_def)
  have soft: "speed ?slow \<le> ACCEPTABLE_LANDING_SPEED"
    "\<not> speed ?fast \<le> ACCEPTABLE_LANDING_SPEED" "\<not> speed ?tilt \<le> ACCEPTABLE_LANDING_SPEED"
    by (simp_all add: speed_acceptable_iff demo_def)
  have index_pt: "closestSegmentIndex_pt ?slow = 0" "closestSegmentIndex_pt ?tilt = 0"
    by (simp_all add: closestSegmentIndex_pt_def closestLoop.simps distanceToLineSegment_def
        spacecraftBottom_def SPACECRAFT_HEIGHT_pt_def demo_simps)
  have hit_pt: "collision_pt ?slow" "collision_pt ?tilt"
    unfolding collision_pt_def index_pt
    by (simp_all add: distanceToCenter_def surfaceDistance_def spacecraftBottom_def
        SPACECRAFT_HEIGHT_pt_def demo_simps)
  have zone_pt: "\<bar>closestSegmentIndex_pt ?slow - landingZoneIndex ?slow\<bar> \<le> 1"
    "\<bar>closestSegmentIndex_pt ?tilt - landingZoneIndex ?tilt\<bar> \<le> 1"
    unfolding index_pt by (simp_all add: demo_def)
  have upright_pt: "isUprightLanding_pt ?slow" "\<not> isUprightLanding_pt ?tilt"
    by (simp_all add: isUprightLanding_pt_def ACCEPTABLE_LANDING_ANGLE_def demo_def)
  from classification_first_failing_check [of ?slow] hit(1) zone(1) upright(1) soft(1)
  have landed: "modal (checkCollision ?slow) = Some (True, ''success'')" by blast
  from classification_first_failing_check [of ?fast] hit(2) zone(2) upright(2) soft(2)
  have crashed: "modal (checkCollision ?fast) = Some (False, ''tooFast'')" by blast
  from classification_first_failing_check [of ?slow] hit_pt(1) zone_pt(1) upright_pt(1) soft(1)
    index_pt(1)
  have landed_pt: "\<exists>g'. checkCollision_pt ?slow = Inr g' \<and> modal g' = Some (True, [])"
    by (simp only: order_refl simp_thms) blast
  from classification_first_failing_check [of ?tilt] hit_pt(2) zone_pt(2) upright_pt(2) index_pt(2)
  have crashed_pt: "\<exists>g'. checkCollision_pt ?tilt = Inr g' \<and> modal g' = Some (False, ''Not upright!'')"
    by (simp only: order_refl simp_thms) blast
  from landed crashed landed_pt crashed_pt show ?thesis by blast
qed

text \<open>
  C2, as stated, fails in two places. In \<^verbatim>\<open>part_001\<close> the normalisation keeps an angle of
  exactly -180 degrees, which lies outside \<open>(-180, 180]\<close>: the craft of \<open>noseDown\<close>, to the
  left of the moon with its nose at the centre, has the relative angle
  \<open>(-630 + 90 - 0) % 360 = -180\<close>, neither above 180 nor below -180. In \<^verbatim>\<open>script.js\<close> the
  upright test reads the rotation in the world frame: the craft of \<open>sideways\<close>, to the right
  of the moon and never turned, passes it, although its nose is at a right angle to the
  radial direction (the test of \<^verbatim>\<open>part_001\<close> rejects it).
\<close>

theorem upright_test_counterexample:
  "relativeRotation noseDown = - 180 \<and> normalizedRotation noseDown = - 180
   \<and> isUprightLanding_pt sideways \<and> radialAlignment sideways = 0
   \<and> normalizedRotation sideways = - 90 \<and> \<not> isUprightLanding sideways"
proof -
  have left: "angleToCenter noseDown = 0"
    by (simp add: angleToCenter_def atan2_def noseDown_def demo_def)
  then have rel: "relativeRotation noseDown = - 180"
    by (simp add: relativeRotation_def js_rem_def trunc_def noseDown_def demo_def)
  then have norm: "normalizedRotation noseDown = - 180"
    by (simp add: normalizedRotation_def)
  have right: "angleToCenter sideways = 180"
    by (simp add: angleToCenter_def atan2_def sideways_def demo_def)
  then have "relativeRotation sideways = - 90"
    by (simp add: relativeRotation_def js_rem_def trunc_small sideways_def demo_def)
  then have quarter: "normalizedRotation sideways = - 90"
    by (simp add: normalizedRotation_def)
  then have tilted: "\<not> isUprightLanding sideways"
    by (simp add: isUprightLanding_def ACCEPTABLE_LANDING_ANGLE_def)
  have world: "isUprightLanding_pt sideways" "radialAlignment sideways = 0"
    by (simp_all add: isUprightLanding_pt_def radialAlignment_def ACCEPTABLE_LANDING_ANGLE_def
        sideways_def demo_def)
  from rel norm world quarter tilted show ?thesis by blast
qed

text \<open>
  C2, amended. The upright test of \<^verbatim>\<open>part_001\<close> evaluates the orientation of the craft
  relative to the radial direction from the centre of the moon through the craft: the
  normalised angle differs from \<open>rotation + 90 - angleToCenter\<close> by whole turns, lies in the
  closed range \<open>[-180, 180]\<close>, and the test passes exactly when its absolute value is at most
  \<open>ACCEPTABLE_LANDING_ANGLE\<close>; for a craft that is not at the centre this is exactly when the
  angle between its nose and the outward radial direction is at most that many degrees
  (their scalar product is at least the cosine of the limit times the distance). The
  upright test of \<^verbatim>\<open>script.js\<close> compares the absolute value of the rotation in the world
  frame with the same limit, without normalisation.
\<close>

theorem upright_test_is_radial:
  "- 180 \<le> normalizedRotation g \<and> normalizedRotation g \<le> 180
   \<and> (\<exists>k::int. normalizedRotation g
          = rotation (spacecraft g) + 90 - angleToCenter g + 360 * of_int k)
   \<and> (isUprightLanding g \<longleftrightarrow> \<bar>normalizedRotation g\<bar> \<le> ACCEPTABLE_LANDING_ANGLE)
   \<and> (distance g \<noteq> 0 \<longrightarrow>
        (isUprightLanding g
         \<longleftrightarrow> cos (ACCEPTABLE_LANDING_ANGLE * pi / 180) * distance g \<le> radialAlignment g))
   \<and> (isUprightLanding_pt g \<longleftrightarrow> \<bar>rotation (spacecraft g)\<bar> \<le> ACCEPTABLE_LANDING_ANGLE)"
  using normalizedRotation_range [of g] normalizedRotation_turns [of g]
    isUprightLanding_radial [of g]
  by (simp add: isUprightLanding_def isUprightLanding_pt_def)

theorem upright_test_is_radial_witness:
  "distance (demo 0 \<lparr>x = 100, y = 118, rotation = 0, velocityX = 0, velocityY = 1, fuel = 50\<rparr> noKeys)
     = 402
   \<and> radialAlignment
       (demo 0 \<lparr>x = 100, y = 118, rotation = 0, velocityX = 0, velocityY = 1, fuel = 50\<rparr> noKeys)
     = 402
   \<and> isUprightLanding
       (demo 0 \<lparr>x = 100, y = 118, rotation = 0, velocityX = 0, velocityY = 1, fuel = 50\<rparr> noKeys)
   \<and> distance sideways = 500 \<and> radialAlignment sideways = 0 \<and> \<not> isUprightLanding sideways"
proof -
  let ?g = "demo 0 \<lparr>x = 100, y = 118, rotation = 0, velocityX = 0, velocityY = 1, fuel = 50\<rparr> noKeys"
  have above: "distance ?g = 402" "radialAlignment ?g = 402"
    by (simp_all add: distance_def radialAlignment_def demo_def)
  from upright_test_is_radial [of ?g]
  have "distance ?g \<noteq> 0 \<longrightarrow>
        (isUprightLanding ?g
         \<longleftrightarrow> cos (ACCEPTABLE_LANDING_ANGLE * pi / 180) * distance ?g \<le> radialAlignment ?g)"
    by blast
  then have radial: "isUprightLanding ?g \<longleftrightarrow> cos (ACCEPTABLE_LANDING_ANGLE * pi / 180) * 402 \<le> 402"
    unfolding above by simp
  have "cos (ACCEPTABLE_LANDING_ANGLE * pi / 180) * 402 \<le> 1 * 402"
    by (intro mult_right_mono) simp_all
  with radial have up: "isUprightLanding ?g" by simp
  have beside: "distance sideways = 500" "radialAlignment sideways = 0"
    by (simp_all add: distance_def radialAlignment_def sideways_def demo_def)
  from upright_test_is_radial [of sideways]
  have "distance sideways \<noteq> 0 \<longrightarrow>
        (isUprightLanding sideways
         \<longleftrightarrow> cos (ACCEPTABLE_LANDING_ANGLE * pi / 180) * distance sideways
               \<le> radialAlignment sideways)"
    by blast
  then have across: "isUprightLanding sideways \<longleftrightarrow> cos (ACCEPTABLE_LANDING_ANGLE * pi / 180) * 500 \<le> 0"
    unfolding beside by simp
  have "- (pi / 2) < ACCEPTABLE_LANDING_ANGLE * pi / 180"
    "ACCEPTABLE_LANDING_ANGLE * pi / 180 < pi / 2"
    unfolding ACCEPTABLE_LANDING_ANGLE_def using pi_gt_zero by linarith+
  then have "0 < cos (ACCEPTABLE_LANDING_ANGLE * pi / 180)"
    by (rule cos_gt_zero_pi)
  with across have "\<not> isUprightLanding sideways" by simp
  with above up beside show ?thesis by blast
qed

text \<open>
  C3, as stated, fails: gravity alone does not make every coasting craft faster. The craft
  of \<open>climbing\<close> is above the surface, no key is held, and it moves away from the moon at
  10 m/s (as after a burn); the tick slows it down to 9.973 m/s, in both revisions.
\<close>

theorem freefall_speed_counterexample:
  "isGameActive climbing \<and> \<not> isPaused climbing \<and> keys climbing = noKeys
   \<and> moonRadius climbing < distance climbing
   \<and> speed climbing = 10
   \<and> speed (update climbing) = 9973 / 1000
   \<and> update_pt climbing = Inr (integrate_pt climbing)
   \<and> speed (integrate_pt climbing) = 9973 / 1000"
proof -
  let ?g' = "demo (2 * pi)
       \<lparr>x = 100, y = 3590027 / 60000, rotation = 0, velocityX = 0, velocityY = - (9973 / 1000),
        fuel = 50\<rparr> noKeys"
  have moved: "integrate climbing = ?g'" "integrate_pt climbing = ?g'"
    by (simp_all add: integrate_def integrate_pt_def climbing_def demo_def noKeys_def
        beforeFullTurn_def atan2_def MOON_GRAVITY_def dt_def Let_def)
  have start: "isGameActive climbing" "\<not> isPaused climbing" "keys climbing = noKeys"
    "moonRadius climbing < distance climbing"
    by (simp_all add: climbing_def demo_def distance_def)
  have before: "speed climbing = 10"
    by (simp add: speed_def climbing_def demo_def)
  have after: "speed ?g' = 9973 / 1000"
    by (simp add: speed_vertical demo_def)
  have box: "speed (update climbing) = 9973 / 1000"
    using start after by (simp add: update_def moved)
  have index_pt: "closestSegmentIndex_pt ?g' = 0"
    by (simp add: closestSegmentIndex_pt_def closestLoop.simps distanceToLineSegment_def
        spacecraftBottom_def SPACECRAFT_HEIGHT_pt_def demo_simps)
  have "\<not> collision_pt ?g'"
    unfolding collision_pt_def index_pt
    by (simp add: distanceToCenter_def surfaceDistance_def spacecraftBottom_def
        SPACECRAFT_HEIGHT_pt_def demo_simps)
  with checkCollision_pt_cases [of ?g'] index_pt
  have "checkCollision_pt ?g' = Inr ?g'" by auto
  with start have point: "update_pt climbing = Inr (integrate_pt climbing)"
    by (simp add: update_pt_def moved)
  from start before box point after show ?thesis
    unfolding moved by blast
qed

text \<open>
  C3, amended. In an active, unpaused tick without thrust key, for a craft whose distance
  to the centre of the moon exceeds the radius of the moon, the speed grows strictly over
  the tick exactly when \<open>2 v \<cdot> (c - p) + MOON_GRAVITY dt \<bar>c - p\<bar> > 0\<close>, where \<open>v\<close> is the velocity,
  \<open>p\<close> the position and \<open>c\<close> the centre; in particular it grows whenever the velocity has
  no component away from the centre (\<open>v \<cdot> (c - p) \<ge> 0\<close>), as for a craft at rest. The rotation
  keys do not matter. In \<^verbatim>\<open>script.js\<close> the tick returns normally on a surface of at least
  two points, and then the same holds.

  So the speed does grow tick over tick in the free fall of a session that has just
  started. Take a craft on the vertical through the centre that neither moves sideways
  nor climbs, and a run of frames \<open>ks\<close> followed by one more frame \<open>k\<close>, the thrust key held
  in none of them, whatever the rotation keys. If the session has been active and unpaused
  and the craft above the centre (the y axis of the canvas points down) up to the last
  frame, then that frame makes the craft strictly faster: in \<^verbatim>\<open>part_001\<close>, and in
  \<^verbatim>\<open>script.js\<close> on a surface of at least two points, where every frame of the run returns
  normally. Both \<^verbatim>\<open>reset\<close> functions start the session active with the craft at rest on that
  vertical, and the surface of \<^verbatim>\<open>script.js\<close> has \<^verbatim>\<open>MOON_SEGMENTS\<close> points.
\<close>

theorem freefall_speed_grows_iff:
  "(isGameActive g \<and> \<not> isPaused g \<and> \<not> ArrowUp (keys g)
      \<and> 0 \<le> moonRadius g \<and> moonRadius g < distance g
      \<longrightarrow> (speed g < speed (update g) \<longleftrightarrow> 0 < 2 * approach g + MOON_GRAVITY * dt * distance g)
          \<and> (0 \<le> approach g \<longrightarrow> speed g < speed (update g)))
   \<and> (isGameActive g \<and> \<not> isPaused g \<and> \<not> ArrowUp (keys g)
      \<and> 0 \<le> moonRadius g \<and> moonRadius g < distance g \<and> 2 \<le> length (moonPoints g)
      \<longrightarrow> (\<exists>g'. update_pt g = Inr g'
            \<and> (speed g < speed g' \<longleftrightarrow> 0 < 2 * approach g + MOON_GRAVITY * dt * distance g)
            \<and> (0 \<le> approach g \<longrightarrow> speed g < speed g')))
   \<and> ((\<forall>k'\<in>set ks. \<not> ArrowUp k') \<and> \<not> ArrowUp k \<and> x (spacecraft g) = x (moonCenter g)
      \<and> velocityX (spacecraft g) = 0 \<and> 0 \<le> velocityY (spacecraft g)
      \<and> (\<forall>m\<le>length ks. isGameActive (run (take m ks) g) \<and> \<not> isPaused (run (take m ks) g)
                \<and> y (spacecraft (run (take m ks) g)) < y (moonCenter g))
      \<longrightarrow> speed (run ks g) < speed (run (ks @ [k]) g))
   \<and> ((\<forall>k'\<in>set ks. \<not> ArrowUp k') \<and> \<not> ArrowUp k \<and> x (spacecraft g) = x (moonCenter g)
      \<and> velocityX (spacecraft g) = 0 \<and> 0 \<le> velocityY (spacecraft g)
      \<and> 2 \<le> length (moonPoints g)
      \<and> (\<forall>m\<le>length ks. \<forall>h. run_pt (take m ks) g = Inr h
                \<longrightarrow> isGameActive h \<and> \<not> isPaused h \<and> y (spacecraft h) < y (moonCenter g))
      \<longrightarrow> (\<exists>h h'. run_pt ks g = Inr h \<and> run_pt (ks @ [k]) g = Inr h' \<and> speed h < speed h'))
   \<and> isGameActive (reset rand g)
   \<and> x (spacecraft (reset rand g)) = x (moonCenter (reset rand g))
   \<and> velocityX (spacecraft (reset rand g)) = 0 \<and> velocityY (spacecraft (reset rand g)) = 0
   \<and> isGameActive (reset_pt rand g)
   \<and> x (spacecraft (reset_pt rand g)) = x (moonCenter (reset_pt rand g))
   \<and> velocityX (spacecraft (reset_pt rand g)) = 0 \<and> velocityY (spacecraft (reset_pt rand g)) = 0
   \<and> length (moonPoints (reset_pt rand g)) = MOON_SEGMENTS_pt \<and> 2 \<le> MOON_SEGMENTS_pt"
proof -
  have coast: "(speed g < speed (integrate g)
                 \<longleftrightarrow> 0 < 2 * approach g + MOON_GRAVITY * dt * distance g)
               \<and> (speed g < speed (integrate_pt g)
                 \<longleftrightarrow> 0 < 2 * approach g + MOON_GRAVITY * dt * distance g)
               \<and> 0 < MOON_GRAVITY * dt * distance g"
    if up: "\<not> ArrowUp (keys g)" and outside: "0 \<le> moonRadius g" "moonRadius g < distance g"
  proof -
    from outside have far: "0 < distance g" by simp
    then have off: "x (spacecraft g) \<noteq> x (moonCenter g) \<or> y (spacecraft g) \<noteq> y (moonCenter g)"
      by (auto simp: distance_def)
    have "0 < MOON_GRAVITY * dt" by (simp add: MOON_GRAVITY_def dt_def)
    with far have "0 < MOON_GRAVITY * dt * distance g" by simp
    with coasting_speed_iff [OF up off] show ?thesis
      by (simp add: approach_def distance_def power2_eq_square)
  qed
  have box: "(speed g < speed (update g) \<longleftrightarrow> 0 < 2 * approach g + MOON_GRAVITY * dt * distance g)
          \<and> (0 \<le> approach g \<longrightarrow> speed g < speed (update g))"
    if "isGameActive g" "\<not> isPaused g" "\<not> ArrowUp (keys g)" "0 \<le> moonRadius g"
      "moonRadius g < distance g"
  proof -
    from that have "speed (update g) = speed (integrate g)" by (simp add: update_def)
    with coast [OF that(3-5)] show ?thesis by auto
  qed
  have point: "\<exists>g'. update_pt g = Inr g'
            \<and> (speed g < speed g' \<longleftrightarrow> 0 < 2 * approach g + MOON_GRAVITY * dt * distance g)
            \<and> (0 \<le> approach g \<longrightarrow> speed g < speed g')"
    if "isGameActive g" "\<not> isPaused g" "\<not> ArrowUp (keys g)" "0 \<le> moonRadius g"
      "moonRadius g < distance g" "2 \<le> length (moonPoints g)"
  proof -
    from update_pt_total [OF that(6)] obtain g' where g': "update_pt g = Inr g'" ..
    with that(1,2) have "checkCollision_pt (integrate_pt g) = Inr g'"
      by (simp add: update_pt_def)
    then have "speed g' = speed (integrate_pt g)" by (rule speed_checkCollision_pt)
    with coast [OF that(3-5)] g' show ?thesis by auto
  qed
  have fall: "speed (run ks g) < speed (run (ks @ [k]) g)"
    if coasting: "\<forall>k'\<in>set ks. \<not> ArrowUp k'" "\<not> ArrowUp k"
      and start: "x (spacecraft g) = x (moonCenter g)"
      "velocityX (spacecraft g) = 0" "0 \<le> velocityY (spacecraft g)"
      and while: "\<forall>m\<le>length ks. isGameActive (run (take m ks) g)
                \<and> \<not> isPaused (run (take m ks) g)
                \<and> y (spacecraft (run (take m ks) g)) < y (moonCenter g)"
  proof -
    let ?h = "run ks g"
    from while have "\<forall>m<length ks. isGameActive (run (take m ks) g)
           \<and> \<not> isPaused (run (take m ks) g)
           \<longrightarrow> y (spacecraft (run (take m ks) g)) < y (moonCenter g)"
      by (simp add: less_imp_le)
    from vertical_fall_run [OF coasting(1) start this]
    have inv: "x (spacecraft ?h) = x (moonCenter ?h)"
      "velocityX (spacecraft ?h) = 0" "0 \<le> velocityY (spacecraft ?h)"
      and centre: "moonCenter ?h = moonCenter g"
      by simp_all
    from while [rule_format, of "length ks"]
    have now: "isGameActive ?h" "\<not> isPaused ?h" "y (spacecraft ?h) < y (moonCenter g)"
      by simp_all
    from vertical_fall_update(6) [of "?h\<lparr>keys := k\<rparr>"] coasting(2) inv centre now
    have "speed (?h\<lparr>keys := k\<rparr>) < speed (update (?h\<lparr>keys := k\<rparr>))" by simp
    then show ?thesis by (simp add: run_snoc speed_def)
  qed
  have fall_pt: "\<exists>h h'. run_pt ks g = Inr h \<and> run_pt (ks @ [k]) g = Inr h' \<and> speed h < speed h'"
    if coasting: "\<forall>k'\<in>set ks. \<not> ArrowUp k'" "\<not> ArrowUp k"
      and start: "x (spacecraft g) = x (moonCenter g)"
      "velocityX (spacecraft g) = 0" "0 \<le> velocityY (spacecraft g)"
      and two: "2 \<le> length (moonPoints g)"
      and while: "\<forall>m\<le>length ks. \<forall>h. run_pt (take m ks) g = Inr h
                \<longrightarrow> isGameActive h \<and> \<not> isPaused h \<and> y (spacecraft h) < y (moonCenter g)"
  proof -
    from run_pt_total [OF two] obtain h where h: "run_pt ks g = Inr h" ..
    from run_pt_total [OF two] obtain h' where h': "run_pt (ks @ [k]) g = Inr h'" ..
    from h h' have tick: "update_pt (h\<lparr>keys := k\<rparr>) = Inr h'" by (simp add: run_pt_snoc)
    from while have "\<forall>m<length ks. \<forall>h. run_pt (take m ks) g = Inr h
           \<and> isGameActive h \<and> \<not> isPaused h \<longrightarrow> y (spacecraft h) < y (moonCenter g)"
      using less_imp_le by blast
    from vertical_fall_run_pt [OF coasting(1) start this h]
    have inv: "x (spacecraft h) = x (moonCenter h)"
      "velocityX (spacecraft h) = 0" "0 \<le> velocityY (spacecraft h)"
      and centre: "moonCenter h = moonCenter g"
      by simp_all
    from while [rule_format, of "length ks" h] h
    have now: "isGameActive h" "\<not> isPaused h" "y (spacecraft h) < y (moonCenter g)"
      by simp_all
    from vertical_fall_update_pt(5) [of "h\<lparr>keys := k\<rparr>" h'] coasting(2) inv centre now tick
    have "speed (h\<lparr>keys := k\<rparr>) < speed h'" by simp
    then have "speed h < speed h'" by (simp add: speed_def)
    with h h' show ?thesis by blast
  qed
  have fresh: "isGameActive (reset rand g)
   \<and> x (spacecraft (reset rand g)) = x (moonCenter (reset rand g))
   \<and> velocityX (spacecraft (reset rand g)) = 0 \<and> velocityY (spacecraft (reset rand g)) = 0"
    by (simp add: reset_def generateMoon_def Let_def)
  have fresh_pt: "isGameActive (reset_pt rand g)
   \<and> x (spacecraft (reset_pt rand g)) = x (moonCenter (reset_pt rand g))
   \<and> velocityX (spacecraft (reset_pt rand g)) = 0 \<and> velocityY (spacecraft (reset_pt rand g)) = 0"
    by (simp add: reset_pt_def generateMoon_pt_def Let_def)
  have surface: "length (moonPoints (reset_pt rand g)) = MOON_SEGMENTS_pt \<and> 2 \<le> MOON_SEGMENTS_pt"
    by (simp add: reset_surface) (simp add: MOON_SEGMENTS_pt_def)
  from fall have run: "(\<forall>k'\<in>set ks. \<not> ArrowUp k') \<and> \<not> ArrowUp k
      \<and> x (spacecraft g) = x (moonCenter g)
      \<and> velocityX (spacecraft g) = 0 \<and> 0 \<le> velocityY (spacecraft g)
      \<and> (\<forall>m\<le>length ks. isGameActive (run (take m ks) g) \<and> \<not> isPaused (run (take m ks) g)
                \<and> y (spacecraft (run (take m ks) g)) < y (moonCenter g))
      \<longrightarrow> speed (run ks g) < speed (run (ks @ [k]) g)"
    by (intro impI) (elim conjE)
  from fall_pt have run_pt: "(\<forall>k'\<in>set ks. \<not> ArrowUp k') \<and> \<not> ArrowUp k
      \<and> x (spacecraft g) = x (moonCenter g)
      \<and> velocityX (spacecraft g) = 0 \<and> 0 \<le> velocityY (spacecraft g)
      \<and> 2 \<le> length (moonPoints g)
      \<and> (\<forall>m\<le>length ks. \<forall>h. run_pt (take m ks) g = Inr h
                \<longrightarrow> isGameActive h \<and> \<not> isPaused h \<and> y (spacecraft h) < y (moonCenter g))
      \<longrightarrow> (\<exists>h h'. run_pt ks g = Inr h \<and> run_pt (ks @ [k]) g = Inr h' \<and> speed h < speed h')"
    by (intro impI) (elim conjE)
  from box have tick: "isGameActive g \<and> \<not> isPaused g \<and> \<not> ArrowUp (keys g)
      \<and> 0 \<le> moonRadius g \<and> moonRadius g < distance g
      \<longrightarrow> (speed g < speed (update g) \<longleftrightarrow> 0 < 2 * approach g + MOON_GRAVITY * dt * distance g)
          \<and> (0 \<le> approach g \<longrightarrow> speed g < speed (update g))"
    by (intro impI) (elim conjE)
  from point have tick_pt: "isGameActive g \<and> \<not> isPaused g \<and> \<not> ArrowUp (keys g)
      \<and> 0 \<le> moonRadius g \<and> moonRadius g < distance g \<and> 2 \<le> length (moonPoints g)
      \<longrightarrow> (\<exists>g'. update_pt g = Inr g'
            \<and> (speed g < speed g' \<longleftrightarrow> 0 < 2 * approach g + MOON_GRAVITY * dt * distance g)
            \<and> (0 \<le> approach g \<longrightarrow> speed g < speed g'))"
    by (intro impI) (elim conjE)
  from tick tick_pt run run_pt fresh fresh_pt surface show ?thesis by (intro conjI) blast+
qed

theorem freefall_speed_grows_iff_witness:
  "speed (demo 0 \<lparr>x = 100, y = 60, rotation = 0, velocityX = 0, velocityY = 0, fuel = 50\<rparr> noKeys)
     < speed (update
         (demo 0 \<lparr>x = 100, y = 60, rotation = 0, velocityX = 0, velocityY = 0, fuel = 50\<rparr> noKeys))
   \<and> (\<exists>g'. update_pt
         (demo 0 \<lparr>x = 100, y = 60, rotation = 0, velocityX = 0, velocityY = 0, fuel = 50\<rparr> noKeys)
           = Inr g'
         \<and> speed (demo 0 \<lparr>x = 100, y = 60, rotation = 0, velocityX = 0, velocityY = 0, fuel = 50\<rparr> noKeys)
           < speed g')
   \<and> speed released = 0 \<and> speed (run [noKeys] released) = 27 / 1000
   \<and> speed (run [noKeys] released) < speed (run [noKeys, noKeys] released)
   \<and> speed (run [noKeys, noKeys] released) < speed (run [noKeys, noKeys, noKeys] released)
   \<and> (\<exists>h h'. run_pt [noKeys]
           (demo beforeFullTurn
              \<lparr>x = 100, y = 60, rotation = 0, velocityX = 0, velocityY = 0, fuel = 50\<rparr> noKeys)
           = Inr h
         \<and> speed h = 27 / 1000
         \<and> run_pt [noKeys, noKeys]
           (demo beforeFullTurn
              \<lparr>x = 100, y = 60, rotation = 0, velocityX = 0, velocityY = 0, fuel = 50\<rparr> noKeys)
           = Inr h'
         \<and> speed h < speed h')"
proof -
  let ?g = "demo 0 \<lparr>x = 100, y = 60, rotation = 0, velocityX = 0, velocityY = 0, fuel = 50\<rparr> noKeys"
  have hyps: "isGameActive ?g" "\<not> isPaused ?g" "\<not> ArrowUp (keys ?g)" "0 \<le> moonRadius ?g"
    "moonRadius ?g < distance ?g" "2 \<le> length (moonPoints ?g)" "0 \<le> approach ?g"
    by (simp_all add: demo_def demoMoon_def noKeys_def distance_def approach_def)
  from freefall_speed_grows_iff [where g = ?g] hyps
  have tick: "speed ?g < speed (update ?g)" "\<exists>g'. update_pt ?g = Inr g' \<and> speed ?g < speed g'"
    by blast+
  have coasting: "\<not> ArrowUp noKeys" "\<forall>k'\<in>set [noKeys]. \<not> ArrowUp k'"
    "\<forall>k'\<in>set [noKeys, noKeys]. \<not> ArrowUp k'"
    by (simp_all add: noKeys_def)
  have start: "x (spacecraft released) = x (moonCenter released)"
    "velocityX (spacecraft released) = 0" "0 \<le> velocityY (spacecraft released)"
    "speed released = 0" "released\<lparr>keys := noKeys\<rparr> = released"
    by (simp_all add: released_def demo_def noKeys_def speed_def)
  have empty: "checkCollision h = h" if "moonPoints h = []" for h
    using that by (simp add: checkCollision_def collision_def rotatedPoints_def segmentLoop.simps)
  let ?r1 = "released\<lparr>moonRotation := MOON_ROTATION_SPEED * dt * pi * 2,
          spacecraft := \<lparr>x = 100, y = 1200009 / 20000, rotation = 0, velocityX = 0,
                         velocityY = 27 / 1000, fuel = 100\<rparr>\<rparr>"
  let ?r2 = "released\<lparr>moonRotation := MOON_ROTATION_SPEED * dt * pi * 2 + MOON_ROTATION_SPEED * dt * pi * 2,
          spacecraft := \<lparr>x = 100, y = 1200027 / 20000, rotation = 0, velocityX = 0,
                         velocityY = 54 / 1000, fuel = 100\<rparr>\<rparr>"
  have first: "update released = ?r1"
    by (simp add: update_def empty integrate_def released_def demo_def noKeys_def atan2_def
        MOON_GRAVITY_def dt_def Let_def)
  have again: "?r1\<lparr>keys := noKeys\<rparr> = ?r1"
    by (simp add: released_def demo_def noKeys_def)
  have second: "update ?r1 = ?r2"
    by (simp add: update_def empty integrate_def released_def demo_def noKeys_def atan2_def
        MOON_GRAVITY_def dt_def Let_def)
  have one: "run [noKeys] released = ?r1"
    by (simp add: start(5) first)
  have two: "run [noKeys, noKeys] released = ?r2"
    by (simp add: start(5) first again second)
  have while: "isGameActive (run (take m [noKeys, noKeys]) released)
                \<and> \<not> isPaused (run (take m [noKeys, noKeys]) released)
                \<and> y (spacecraft (run (take m [noKeys, noKeys]) released)) < y (moonCenter released)"
    if "m \<le> 2" for m
  proof -
    from that consider "m = 0" | "m = 1" | "m = 2" by linarith
    then show ?thesis
    proof cases
      case 1
      then show ?thesis by (simp add: released_def demo_def)
    next
      case 2
      have eq: "take m [noKeys, noKeys] = [noKeys]" using 2 by simp
      show ?thesis unfolding eq one by (simp add: released_def demo_def)
    next
      case 3
      have eq: "take m [noKeys, noKeys] = [noKeys, noKeys]" using 3 by simp
      show ?thesis unfolding eq two by (simp add: released_def demo_def)
    qed
  qed
  have while1: "\<forall>m\<le>length [noKeys]. isGameActive (run (take m [noKeys]) released)
                \<and> \<not> isPaused (run (take m [noKeys]) released)
                \<and> y (spacecraft (run (take m [noKeys]) released)) < y (moonCenter released)"
  proof (intro allI impI)
    fix m :: nat assume "m \<le> length [noKeys]"
    then have m: "m \<le> 2" "take m [noKeys] = take m [noKeys, noKeys]" by (auto simp: le_Suc_eq)
    from while [OF m(1)] show "isGameActive (run (take m [noKeys]) released)
                \<and> \<not> isPaused (run (take m [noKeys]) released)
                \<and> y (spacecraft (run (take m [noKeys]) released)) < y (moonCenter released)"
      unfolding m(2) .
  qed
  have while2: "\<forall>m\<le>length [noKeys, noKeys]. isGameActive (run (take m [noKeys, noKeys]) released)
                \<and> \<not> isPaused (run (take m [noKeys, noKeys]) released)
                \<and> y (spacecraft (run (take m [noKeys, noKeys]) released)) < y (moonCenter released)"
    using while by simp
  from freefall_speed_grows_iff [where g = released and ks = "[noKeys]" and k = noKeys]
    coasting start(1-3) while1
  have faster1: "speed (run [noKeys] released) < speed (run ([noKeys] @ [noKeys]) released)"
    by blast
  from freefall_speed_grows_iff [where g = released and ks = "[noKeys, noKeys]" and k = noKeys]
    coasting start(1-3) while2
  have faster2: "speed (run [noKeys, noKeys] released)
      < speed (run ([noKeys, noKeys] @ [noKeys]) released)"
    by blast
  have after: "speed (run [noKeys] released) = 27 / 1000"
    unfolding one by (simp add: speed_vertical)
  let ?p = "demo beforeFullTurn
       \<lparr>x = 100, y = 60, rotation = 0, velocityX = 0, velocityY = 0, fuel = 50\<rparr> noKeys"
  let ?p' = "demo (2 * pi)
       \<lparr>x = 100, y = 1200009 / 20000, rotation = 0, velocityX = 0, velocityY = 27 / 1000, fuel = 50\<rparr>
       noKeys"
  have same: "?p\<lparr>keys := noKeys\<rparr> = ?p" by (simp add: demo_def)
  have active: "isGameActive ?p" "\<not> isPaused ?p" "2 \<le> length (moonPoints ?p)"
    "x (spacecraft ?p) = x (moonCenter ?p)" "velocityX (spacecraft ?p) = 0"
    "0 \<le> velocityY (spacecraft ?p)"
    by (simp_all add: demo_def demoMoon_def)
  have moved: "integrate_pt ?p = ?p'"
    by (simp add: integrate_pt_def demo_def noKeys_def beforeFullTurn_def
        atan2_def MOON_GRAVITY_def dt_def Let_def)
  have index_pt: "closestSegmentIndex_pt ?p' = 0"
    by (simp add: closestSegmentIndex_pt_def closestLoop.simps distanceToLineSegment_def
        spacecraftBottom_def SPACECRAFT_HEIGHT_pt_def demo_simps)
  have "\<not> collision_pt ?p'"
    unfolding collision_pt_def index_pt
    by (simp add: distanceToCenter_def surfaceDistance_def spacecraftBottom_def
        SPACECRAFT_HEIGHT_pt_def demo_simps)
  with checkCollision_pt_cases [of ?p'] index_pt
  have "checkCollision_pt ?p' = Inr ?p'" by auto
  with active have first_pt: "run_pt [noKeys] ?p = Inr ?p'"
    by (simp add: same update_pt_def moved)
  have while_pt: "\<forall>m\<le>length [noKeys]. \<forall>h. run_pt (take m [noKeys]) ?p = Inr h
      \<longrightarrow> isGameActive h \<and> \<not> isPaused h \<and> y (spacecraft h) < y (moonCenter ?p)"
  proof (intro allI impI)
    fix m :: nat and h assume "m \<le> length [noKeys]" and h: "run_pt (take m [noKeys]) ?p = Inr h"
    then consider "m = 0" | "m = 1" by (auto simp: le_Suc_eq)
    then show "isGameActive h \<and> \<not> isPaused h \<and> y (spacecraft h) < y (moonCenter ?p)"
    proof cases
      case 1
      with h have "h = ?p" by simp
      then show ?thesis by (simp add: demo_def)
    next
      case 2
      with h first_pt have "h = ?p'" by simp
      then show ?thesis by (simp add: demo_def)
    qed
  qed
  from freefall_speed_grows_iff [where g = ?p and ks = "[noKeys]" and k = noKeys]
    coasting(1,2) active(3-6) while_pt
  have "\<exists>h h'. run_pt [noKeys] ?p = Inr h \<and> run_pt ([noKeys] @ [noKeys]) ?p = Inr h'
      \<and> speed h < speed h'"
    by blast
  then obtain h h' where h: "run_pt [noKeys] ?p = Inr h"
    and h': "run_pt [noKeys, noKeys] ?p = Inr h'" and faster_pt: "speed h < speed h'"
    by auto
  from h first_pt have "h = ?p'" by simp
  then have "speed h = 27 / 1000" by (simp add: speed_vertical demo_def)
  with h h' faster_pt
  have pt: "\<exists>h h'. run_pt [noKeys] ?p = Inr h \<and> speed h = 27 / 1000
      \<and> run_pt [noKeys, noKeys] ?p = Inr h' \<and> speed h < speed h'"
    by blast
  from faster1 faster2 have "speed (run [noKeys] released) < speed (run [noKeys, noKeys] released)"
    "speed (run [noKeys, noKeys] released) < speed (run [noKeys, noKeys, noKeys] released)"
    by simp_all
  with tick start(4) after pt show ?thesis by blast
qed
text \<open>
  C4. A tick never raises the fuel, whatever keys are held, and a fuel that is not negative
  stays so: together, a fuel within \<open>[0, 100]\<close> stays within \<open>[0, 100]\<close>. The same holds over
  every run of frames, and \<^verbatim>\<open>reset\<close> fills the tank to the capacity 100. In \<^verbatim>\<open>script.js\<close>
  a tick returns normally as soon as the surface has two points, and then the same bounds
  hold for it.
\<close>

theorem fuel_monotone_and_bounded:
  "fuel (spacecraft (update g)) \<le> fuel (spacecraft g)
   \<and> (0 \<le> fuel (spacecraft g) \<longrightarrow> 0 \<le> fuel (spacecraft (update g)))
   \<and> fuel (spacecraft (run ks g)) \<le> fuel (spacecraft g)
   \<and> (0 \<le> fuel (spacecraft g) \<longrightarrow> 0 \<le> fuel (spacecraft (run ks g)))
   \<and> fuel (spacecraft (reset rand g)) = 100
   \<and> (2 \<le> length (moonPoints g) \<longrightarrow>
        (\<exists>g'. update_pt g = Inr g' \<and> fuel (spacecraft g') \<le> fuel (spacecraft g)
              \<and> (0 \<le> fuel (spacecraft g) \<longrightarrow> 0 \<le> fuel (spacecraft g')))
        \<and> (\<exists>g'. run_pt ks g = Inr g' \<and> fuel (spacecraft g') \<le> fuel (spacecraft g)
              \<and> (0 \<le> fuel (spacecraft g) \<longrightarrow> 0 \<le> fuel (spacecraft g'))))
   \<and> fuel (spacecraft (reset_pt rand g)) = 100"
proof -
  have pt: "\<exists>g'. update_pt g = Inr g' \<and> fuel (spacecraft g') \<le> fuel (spacecraft g)
              \<and> (0 \<le> fuel (spacecraft g) \<longrightarrow> 0 \<le> fuel (spacecraft g'))"
    if "2 \<le> length (moonPoints g)"
  proof -
    from update_pt_total [OF that] obtain g' where g': "update_pt g = Inr g'" ..
    with update_pt_fuel [OF g'] show ?thesis by blast
  qed
  have runs_pt: "\<exists>g'. run_pt ks g = Inr g' \<and> fuel (spacecraft g') \<le> fuel (spacecraft g)
              \<and> (0 \<le> fuel (spacecraft g) \<longrightarrow> 0 \<le> fuel (spacecraft g'))"
    if "2 \<le> length (moonPoints g)"
  proof -
    from run_pt_total [OF that] obtain g' where g': "run_pt ks g = Inr g'" ..
    with run_pt_fuel [OF g'] show ?thesis by blast
  qed
  from update_fuel [of g] run_fuel [of ks g] reset_fuel [of rand g] pt runs_pt
  show ?thesis by blast
qed

theorem fuel_monotone_and_bounded_witness:
  "fuel (spacecraft (update
      (demo 0 \<lparr>x = 100, y = 60, rotation = 0, velocityX = 0, velocityY = 0, fuel = 1 / 100\<rparr> thrustKey)))
     \<in> {0 .. 1 / 100}
   \<and> (\<exists>g'. update_pt
      (demo 0 \<lparr>x = 100, y = 60, rotation = 0, velocityX = 0, velocityY = 0, fuel = 1 / 100\<rparr> thrustKey)
        = Inr g' \<and> fuel (spacecraft g') \<in> {0 .. 1 / 100})"
proof -
  let ?g = "demo 0 \<lparr>x = 100, y = 60, rotation = 0, velocityX = 0, velocityY = 0, fuel = 1 / 100\<rparr> thrustKey"
  have pre: "0 \<le> fuel (spacecraft ?g)" "fuel (spacecraft ?g) = 1 / 100"
    "2 \<le> length (moonPoints ?g)"
    by (simp_all add: demo_def demoMoon_def)
  from fuel_monotone_and_bounded [of ?g] pre show ?thesis
    by (simp only: atLeastAtMost_iff) blast
qed

text \<open>
  C5. Let \<^verbatim>\<open>generateMoon\<close> run on a canvas whose scale is not negative (as \<^verbatim>\<open>resizeCanvas\<close>
  derives it from the size of a window), with random numbers in \<open>[0, 1)\<close> as \<^verbatim>\<open>Math.random\<close>
  returns them. Then the surface has \<^verbatim>\<open>MOON_SEGMENTS\<close> points,
  the landing zone starts within 5 indices of a quarter of them, and every point is the
  point of its index on the circle of radius \<^verbatim>\<open>MOON_RADIUS * scale\<close> about the centre
  of the moon, moved along the radius by an offset: the offset is exactly 0 for the two
  indices \<^verbatim>\<open>landingZoneIndex\<close> and \<^verbatim>\<open>landingZoneIndex + 1\<close>, so that these points lie exactly
  on the circle, and lies within \<open>radius * MOON_BUMPINESS / 2\<close> either way for all others.
  The same holds for \<^verbatim>\<open>script.js\<close> with its constants.
\<close>

theorem landing_zone_flat:
  assumes "\<forall>k. 0 \<le> rand k \<and> rand k < 1" and "0 \<le> scale g"
  shows "length (moonPoints (generateMoon rand g)) = MOON_SEGMENTS
    \<and> moonRadius (generateMoon rand g) = MOON_RADIUS * scale g
    \<and> 65 \<le> landingZoneIndex (generateMoon rand g) \<and> landingZoneIndex (generateMoon rand g) \<le> 75
    \<and> (\<forall>i<MOON_SEGMENTS. \<exists>offset.
          moonPoints (generateMoon rand g) ! i
            = offsetPoint (x (moonCenter (generateMoon rand g))) (y (moonCenter (generateMoon rand g)))
                (moonRadius (generateMoon rand g)) MOON_SEGMENTS i offset
          \<and> (inZone (generateMoon rand g) i \<longrightarrow> offset = 0)
          \<and> - (moonRadius (generateMoon rand g) * MOON_BUMPINESS / 2) \<le> offset
          \<and> offset \<le> moonRadius (generateMoon rand g) * MOON_BUMPINESS / 2)
    \<and> (\<forall>i<MOON_SEGMENTS. inZone (generateMoon rand g) i \<longrightarrow>
          (x (moonPoints (generateMoon rand g) ! i) - x (moonCenter (generateMoon rand g)))\<^sup>2
          + (y (moonPoints (generateMoon rand g) ! i) - y (moonCenter (generateMoon rand g)))\<^sup>2
          = (moonRadius (generateMoon rand g))\<^sup>2)
    \<and> length (moonPoints (generateMoon_pt rand g)) = MOON_SEGMENTS_pt
    \<and> moonRadius (generateMoon_pt rand g) = MOON_RADIUS * scale g
    \<and> 57 \<le> landingZoneIndex (generateMoon_pt rand g)
    \<and> landingZoneIndex (generateMoon_pt rand g) \<le> 67
    \<and> (\<forall>i<MOON_SEGMENTS_pt. \<exists>offset.
          moonPoints (generateMoon_pt rand g) ! i
            = offsetPoint (x (moonCenter (generateMoon_pt rand g)))
                (y (moonCenter (generateMoon_pt rand g)))
                (moonRadius (generateMoon_pt rand g)) MOON_SEGMENTS_pt i offset
          \<and> (inZone (generateMoon_pt rand g) i \<longrightarrow> offset = 0)
          \<and> - (moonRadius (generateMoon_pt rand g) * MOON_BUMPINESS_pt / 2) \<le> offset
          \<and> offset \<le> moonRadius (generateMoon_pt rand g) * MOON_BUMPINESS_pt / 2)
    \<and> (\<forall>i<MOON_SEGMENTS_pt. inZone (generateMoon_pt rand g) i \<longrightarrow>
          (x (moonPoints (generateMoon_pt rand g) ! i) - x (moonCenter (generateMoon_pt rand g)))\<^sup>2
          + (y (moonPoints (generateMoon_pt rand g) ! i) - y (moonCenter (generateMoon_pt rand g)))\<^sup>2
          = (moonRadius (generateMoon_pt rand g))\<^sup>2)"
proof -
  let ?radius = "MOON_RADIUS * scale g"
  let ?cx = "canvas_width g * (5 / 10)" and ?cy = "canvas_height g + ?radius * (8 / 10)"
  let ?spread = "\<lfloor>rand 0 * of_int (LANDING_ZONE_SPREAD * 2 + 1)\<rfloor> - LANDING_ZONE_SPREAD"
  from assms(1) have r0: "0 \<le> rand 0" "rand 0 < 1" by simp_all
  note spread = spread_range [OF r0]
  have radius: "0 \<le> ?radius" using assms(2) by (simp add: MOON_RADIUS_def)
  have two_sided: "\<bar>a\<bar> \<le> c \<longleftrightarrow> - c \<le> a \<and> a \<le> c" for a c :: real by auto
  have surface: "length (moonLoop rand n b ?radius ?cx ?cy zone 0 1 []) = n
    \<and> (\<forall>j<n. \<exists>offset.
          moonLoop rand n b ?radius ?cx ?cy zone 0 1 [] ! j = offsetPoint ?cx ?cy ?radius n j offset
          \<and> (zone \<le> int j \<and> int j \<le> zone + 1 \<longrightarrow> offset = 0)
          \<and> - (?radius * b / 2) \<le> offset \<and> offset \<le> ?radius * b / 2)" if "0 \<le> b" for n b zone
  proof -
    have "length [] = (0::nat)" "0 \<le> n"
      "\<forall>j<0. \<exists>offset. [] ! j = offsetPoint ?cx ?cy ?radius n j offset
                \<and> (zone \<le> int j \<and> int j \<le> zone + 1 \<longrightarrow> offset = 0)
                \<and> \<bar>offset\<bar> \<le> ?radius * b / 2"
      by simp_all
    from moonLoop_points [OF assms(1) radius that this, of 1]
    show ?thesis unfolding two_sided .
  qed
  have circle: "(x p - ?cx)\<^sup>2 + (y p - ?cy)\<^sup>2 = ?radius\<^sup>2"
    if "\<exists>offset. p = offsetPoint ?cx ?cy ?radius n j offset
          \<and> (zone \<le> int j \<and> int j \<le> zone + 1 \<longrightarrow> offset = 0)
          \<and> - (?radius * b / 2) \<le> offset \<and> offset \<le> ?radius * b / 2"
      and "zone \<le> int j \<and> int j \<le> zone + 1" for p n j zone b
  proof -
    from that have "p = offsetPoint ?cx ?cy ?radius n j 0" by blast
    then show ?thesis by (rule on_circle)
  qed
  let ?zone = "\<lfloor>real MOON_SEGMENTS / 4\<rfloor> + ?spread"
  have box: "moonPoints (generateMoon rand g)
      = moonLoop rand MOON_SEGMENTS MOON_BUMPINESS ?radius ?cx ?cy ?zone 0 1 []"
    "moonRadius (generateMoon rand g) = ?radius"
    "x (moonCenter (generateMoon rand g)) = ?cx" "y (moonCenter (generateMoon rand g)) = ?cy"
    "landingZoneIndex (generateMoon rand g) = ?zone"
    by (simp_all add: generateMoon_def Let_def)
  have quarter: "\<lfloor>real MOON_SEGMENTS / 4\<rfloor> = 70" by (simp add: MOON_SEGMENTS_def)
  have b: "0 \<le> MOON_BUMPINESS" by (simp add: MOON_BUMPINESS_def)
  note s = surface [OF b, of MOON_SEGMENTS ?zone]
  have zone: "65 \<le> landingZoneIndex (generateMoon rand g)"
    "landingZoneIndex (generateMoon rand g) \<le> 75"
    unfolding box quarter using spread by linarith+
  have part1: "length (moonPoints (generateMoon rand g)) = MOON_SEGMENTS
    \<and> moonRadius (generateMoon rand g) = MOON_RADIUS * scale g
    \<and> 65 \<le> landingZoneIndex (generateMoon rand g) \<and> landingZoneIndex (generateMoon rand g) \<le> 75"
    using s zone box(1,2) by presburger
  have part2: "\<forall>i<MOON_SEGMENTS. \<exists>offset.
          moonPoints (generateMoon rand g) ! i
            = offsetPoint (x (moonCenter (generateMoon rand g))) (y (moonCenter (generateMoon rand g)))
                (moonRadius (generateMoon rand g)) MOON_SEGMENTS i offset
          \<and> (inZone (generateMoon rand g) i \<longrightarrow> offset = 0)
          \<and> - (moonRadius (generateMoon rand g) * MOON_BUMPINESS / 2) \<le> offset
          \<and> offset \<le> moonRadius (generateMoon rand g) * MOON_BUMPINESS / 2"
    unfolding box inZone_def using s by blast
  have part3: "\<forall>i<MOON_SEGMENTS. inZone (generateMoon rand g) i \<longrightarrow>
          (x (moonPoints (generateMoon rand g) ! i) - x (moonCenter (generateMoon rand g)))\<^sup>2
          + (y (moonPoints (generateMoon rand g) ! i) - y (moonCenter (generateMoon rand g)))\<^sup>2
          = (moonRadius (generateMoon rand g))\<^sup>2"
    unfolding box inZone_def using s circle by blast
  let ?zone' = "\<lfloor>real MOON_SEGMENTS_pt / 4\<rfloor> + ?spread"
  have point: "moonPoints (generateMoon_pt rand g)
      = moonLoop rand MOON_SEGMENTS_pt MOON_BUMPINESS_pt ?radius ?cx ?cy ?zone' 0 1 []"
    "moonRadius (generateMoon_pt rand g) = ?radius"
    "x (moonCenter (generateMoon_pt rand g)) = ?cx" "y (moonCenter (generateMoon_pt rand g)) = ?cy"
    "landingZoneIndex (generateMoon_pt rand g) = ?zone'"
    by (simp_all add: generateMoon_pt_def Let_def)
  have quarter': "\<lfloor>real MOON_SEGMENTS_pt / 4\<rfloor> = 62" by (simp add: MOON_SEGMENTS_pt_def)
  have b': "0 \<le> MOON_BUMPINESS_pt" by (simp add: MOON_BUMPINESS_pt_def)
  note s' = surface [OF b', of MOON_SEGMENTS_pt ?zone']
  have zone': "57 \<le> landingZoneIndex (generateMoon_pt rand g)"
    "landingZoneIndex (generateMoon_pt rand g) \<le> 67"
    unfolding point quarter' using spread by linarith+
  have part4: "length (moonPoints (generateMoon_pt rand g)) = MOON_SEGMENTS_pt
    \<and> moonRadius (generateMoon_pt rand g) = MOON_RADIUS * scale g
    \<and> 57 \<le> landingZoneIndex (generateMoon_pt rand g)
    \<and> landingZoneIndex (generateMoon_pt rand g) \<le> 67"
    using s' zone' point(1,2) by presburger
  have part5: "\<forall>i<MOON_SEGMENTS_pt. \<exists>offset.
          moonPoints (generateMoon_pt rand g) ! i
            = offsetPoint (x (moonCenter (generateMoon_pt rand g)))
                (y (moonCenter (generateMoon_pt rand g)))
                (moonRadius (generateMoon_pt rand g)) MOON_SEGMENTS_pt i offset
          \<and> (inZone (generateMoon_pt rand g) i \<longrightarrow> offset = 0)
          \<and> - (moonRadius (generateMoon_pt rand g) * MOON_BUMPINESS_pt / 2) \<le> offset
          \<and> offset \<le> moonRadius (generateMoon_pt rand g) * MOON_BUMPINESS_pt / 2"
    unfolding point inZone_def using s' by blast
  have part6: "\<forall>i<MOON_SEGMENTS_pt. inZone (generateMoon_pt rand g) i \<longrightarrow>
          (x (moonPoints (generateMoon_pt rand g) ! i) - x (moonCenter (generateMoon_pt rand g)))\<^sup>2
          + (y (moonPoints (generateMoon_pt rand g) ! i) - y (moonCenter (generateMoon_pt rand g)))\<^sup>2
          = (moonRadius (generateMoon_pt rand g))\<^sup>2"
    unfolding point inZone_def using s' circle by blast
  from part1 part2 part3 part4 part5 part6 show ?thesis by blast
qed

theorem landing_zone_flat_witness:
  "length (moonPoints (generateMoon (\<lambda>k. 1 / 2) atCenter)) = 280
   \<and> landingZoneIndex (generateMoon (\<lambda>k. 1 / 2) atCenter) = 70
   \<and> (x (moonPoints (generateMoon (\<lambda>k. 1 / 2) atCenter) ! 70) - 100)\<^sup>2
      + (y (moonPoints (generateMoon (\<lambda>k. 1 / 2) atCenter) ! 70) - 520)\<^sup>2 = 400\<^sup>2
   \<and> (x (moonPoints (generateMoon (\<lambda>k. 1 / 2) atCenter) ! 71) - 100)\<^sup>2
      + (y (moonPoints (generateMoon (\<lambda>k. 1 / 2) atCenter) ! 71) - 520)\<^sup>2 = 400\<^sup>2
   \<and> length (moonPoints (generateMoon_pt (\<lambda>k. 1 / 2) atCenter)) = 250
   \<and> landingZoneIndex (generateMoon_pt (\<lambda>k. 1 / 2) atCenter) = 62
   \<and> (x (moonPoints (generateMoon_pt (\<lambda>k. 1 / 2) atCenter) ! 62) - 100)\<^sup>2
      + (y (moonPoints (generateMoon_pt (\<lambda>k. 1 / 2) atCenter) ! 62) - 520)\<^sup>2 = 400\<^sup>2"
proof -
  let ?G = "generateMoon (\<lambda>k. 1 / 2) atCenter" and ?P = "generateMoon_pt (\<lambda>k. 1 / 2) atCenter"
  have random: "\<forall>k::nat. (0::real) \<le> 1 / 2 \<and> (1 / 2 :: real) < 1" by simp
  have canvas: "0 \<le> scale atCenter" by (simp add: atCenter_def demo_def)
  note flat = landing_zone_flat [of "\<lambda>k. 1 / 2" atCenter, OF random canvas]
  have box: "landingZoneIndex ?G = 70" "x (moonCenter ?G) = 100" "y (moonCenter ?G) = 520"
    "moonRadius ?G = 400"
    by (simp_all add: generateMoon_def Let_def atCenter_def demo_def MOON_SEGMENTS_def
        MOON_RADIUS_def LANDING_ZONE_SPREAD_def)
  have point: "landingZoneIndex ?P = 62" "x (moonCenter ?P) = 100" "y (moonCenter ?P) = 520"
    "moonRadius ?P = 400"
    by (simp_all add: generateMoon_pt_def Let_def atCenter_def demo_def MOON_SEGMENTS_pt_def
        MOON_RADIUS_def LANDING_ZONE_SPREAD_def)
  have zone: "inZone ?G 70" "inZone ?G 71" "inZone ?P 62"
    by (simp_all add: inZone_def box point)
  have index: "(70::nat) < MOON_SEGMENTS" "(71::nat) < MOON_SEGMENTS" "(62::nat) < MOON_SEGMENTS_pt"
    by (simp_all add: MOON_SEGMENTS_def MOON_SEGMENTS_pt_def)
  from flat have "length (moonPoints ?G) = MOON_SEGMENTS" "length (moonPoints ?P) = MOON_SEGMENTS_pt"
    by blast+
  then have lengths: "length (moonPoints ?G) = 280" "length (moonPoints ?P) = 250"
    by (simp_all add: MOON_SEGMENTS_def MOON_SEGMENTS_pt_def)
  from flat have on: "\<forall>i<MOON_SEGMENTS. inZone ?G i \<longrightarrow>
          (x (moonPoints ?G ! i) - x (moonCenter ?G))\<^sup>2
          + (y (moonPoints ?G ! i) - y (moonCenter ?G))\<^sup>2 = (moonRadius ?G)\<^sup>2"
    and on_pt: "\<forall>i<MOON_SEGMENTS_pt. inZone ?P i \<longrightarrow>
          (x (moonPoints ?P ! i) - x (moonCenter ?P))\<^sup>2
          + (y (moonPoints ?P ! i) - y (moonCenter ?P))\<^sup>2 = (moonRadius ?P)\<^sup>2"
    by blast+
  from on index(1) zone(1) have first: "(x (moonPoints ?G ! 70) - x (moonCenter ?G))\<^sup>2
          + (y (moonPoints ?G ! 70) - y (moonCenter ?G))\<^sup>2 = (moonRadius ?G)\<^sup>2"
    by blast
  from on index(2) zone(2) have second: "(x (moonPoints ?G ! 71) - x (moonCenter ?G))\<^sup>2
          + (y (moonPoints ?G ! 71) - y (moonCenter ?G))\<^sup>2 = (moonRadius ?G)\<^sup>2"
    by blast
  from on_pt index(3) zone(3) have third: "(x (moonPoints ?P ! 62) - x (moonCenter ?P))\<^sup>2
          + (y (moonPoints ?P ! 62) - y (moonCenter ?P))\<^sup>2 = (moonRadius ?P)\<^sup>2"
    by blast
  from lengths box(1) point(1) first second third show ?thesis
    unfolding box point by blast
qed

text \<open>
  C6. The segment-intersection test answers "no intersection" whenever the two segments
  are parallel (the determinant \<open>dx1 * dy2 - dy1 * dx2\<close> of the 2\<times>2 system is zero) and
  whenever one of the two segments has zero length. The function is total: it always
  returns a Boolean, and the division is only reached with a non-zero determinant.
\<close>

theorem lineSegmentsIntersect_degenerate:
  "((x2 - x1) * (y4 - y3) - (y2 - y1) * (x4 - x3) = 0
      \<longrightarrow> \<not> lineSegmentsIntersect x1 y1 x2 y2 x3 y3 x4 y4)
   \<and> ((x1 = x2 \<and> y1 = y2) \<or> (x3 = x4 \<and> y3 = y4)
      \<longrightarrow> \<not> lineSegmentsIntersect x1 y1 x2 y2 x3 y3 x4 y4)"
  by (auto simp: lineSegmentsIntersect_def Let_def)

theorem lineSegmentsIntersect_degenerate_witness:
  "\<not> lineSegmentsIntersect 0 0 2 2 1 0 3 2 \<and> \<not> lineSegmentsIntersect 1 1 1 1 0 0 2 2
   \<and> \<not> lineSegmentsIntersect 0 0 2 2 1 1 1 1"
proof -
  have parallel: "\<not> lineSegmentsIntersect 0 0 2 2 1 0 3 2"
    using lineSegmentsIntersect_degenerate [of 2 0 2 0 2 0 3 1] by simp
  have point_first: "\<not> lineSegmentsIntersect 1 1 1 1 0 0 2 2"
    using lineSegmentsIntersect_degenerate [of 1 1 2 0 1 1 2 0] by simp
  have point_second: "\<not> lineSegmentsIntersect 0 0 2 2 1 1 1 1"
    using lineSegmentsIntersect_degenerate [of 2 0 1 1 2 0 1 1] by simp
  from parallel point_first point_second show ?thesis by simp
qed


text \<open>
  C7, as stated, fails: the gravity update does not clamp the distance. For the craft of
  \<open>atCenter\<close>, at rest exactly at the centre of the moon, a normalisation with a clamped
  distance leaves the velocity at \<open>(0, 0)\<close> whatever the minimum is, since the vector from
  the craft to the centre is zero; the tick of the code gives it the velocity
  \<open>(MOON_GRAVITY * dt, 0) = (0.027, 0)\<close>, because \<^verbatim>\<open>Math.atan2(0, 0)\<close> is 0.
\<close>

theorem gravity_clamp_counterexample:
  "(\<forall>eps. gravity_clamped eps atCenter = (0, 0))
   \<and> isGameActive atCenter \<and> \<not> isPaused atCenter \<and> distance atCenter = 0
   \<and> velocityX (spacecraft (update atCenter)) = 27 / 1000
   \<and> velocityY (spacecraft (update atCenter)) = 0"
  by (simp add: gravity_clamped_def atCenter_def demo_def noKeys_def distance_def update_def
      integrate_velocity MOON_GRAVITY_def dt_def Let_def)

text \<open>
  C7, amended. The gravity update of a tick takes the direction as the cosine and sine of
  \<^verbatim>\<open>Math.atan2(dy, dx)\<close>, without a clamp and without a division. For every position of the
  craft, the centre of the moon included, each velocity component changes over the tick by
  at most \<open>(THRUST_FORCE + MOON_GRAVITY) * dt\<close>, and without thrust the velocity changes by a
  vector of length exactly \<open>MOON_GRAVITY * dt\<close>: towards the centre when the craft is not
  there, and along the positive x axis when it is. Both revisions agree on a tick without
  thrust, and a tick that is applied ends with the craft that \<open>integrate\<close> computes.
\<close>

theorem gravity_step_is_unit_pull:
  "\<bar>velocityX (spacecraft (integrate g)) - velocityX (spacecraft g)\<bar>
      \<le> (THRUST_FORCE + MOON_GRAVITY) * dt
   \<and> \<bar>velocityY (spacecraft (integrate g)) - velocityY (spacecraft g)\<bar>
      \<le> (THRUST_FORCE + MOON_GRAVITY) * dt
   \<and> (\<not> thrusting g \<longrightarrow>
        (velocityX (spacecraft (integrate g)) - velocityX (spacecraft g))\<^sup>2
        + (velocityY (spacecraft (integrate g)) - velocityY (spacecraft g))\<^sup>2
        = (MOON_GRAVITY * dt)\<^sup>2)
   \<and> (\<not> thrusting g \<and> distance g \<noteq> 0 \<longrightarrow>
        velocityX (spacecraft (integrate g))
          = velocityX (spacecraft g)
            + (x (moonCenter g) - x (spacecraft g)) / distance g * MOON_GRAVITY * dt
        \<and> velocityY (spacecraft (integrate g))
          = velocityY (spacecraft g)
            + (y (moonCenter g) - y (spacecraft g)) / distance g * MOON_GRAVITY * dt)
   \<and> (\<not> thrusting g \<and> distance g = 0 \<longrightarrow>
        velocityX (spacecraft (integrate g)) = velocityX (spacecraft g) + MOON_GRAVITY * dt
        \<and> velocityY (spacecraft (integrate g)) = velocityY (spacecraft g))
   \<and> \<bar>velocityX (spacecraft (integrate_pt g)) - velocityX (spacecraft g)\<bar>
      \<le> (THRUST_FORCE + MOON_GRAVITY) * dt
   \<and> \<bar>velocityY (spacecraft (integrate_pt g)) - velocityY (spacecraft g)\<bar>
      \<le> (THRUST_FORCE + MOON_GRAVITY) * dt
   \<and> (\<not> thrusting g \<longrightarrow>
        velocityX (spacecraft (integrate_pt g)) = velocityX (spacecraft (integrate g))
        \<and> velocityY (spacecraft (integrate_pt g)) = velocityY (spacecraft (integrate g)))
   \<and> (isGameActive g \<and> \<not> isPaused g \<longrightarrow>
        spacecraft (update g) = spacecraft (integrate g)
        \<and> (\<forall>g'. update_pt g = Inr g' \<longrightarrow> spacecraft g' = spacecraft (integrate_pt g)))"
proof -
  let ?a = "x (moonCenter g) - x (spacecraft g)" and ?b = "y (moonCenter g) - y (spacecraft g)"
  let ?t = "atan2 ?b ?a"
  let ?r = "(rotation (spacecraft (integrate g)) * pi) / 180"
  let ?k = "MOON_GRAVITY * dt" and ?f = "THRUST_FORCE * dt"
  have k: "0 \<le> ?k" "0 \<le> ?f" by (simp_all add: MOON_GRAVITY_def THRUST_FORCE_def dt_def)
  have part: "\<bar>s * ?f + c * ?k\<bar> \<le> (THRUST_FORCE + MOON_GRAVITY) * dt"
    if "\<bar>s\<bar> \<le> 1" "\<bar>c\<bar> \<le> 1" for s c :: real
  proof -
    have "\<bar>s * ?f + c * ?k\<bar> \<le> \<bar>s\<bar> * ?f + \<bar>c\<bar> * ?k"
      using k by (metis abs_mult abs_of_nonneg abs_triangle_ineq)
    also have "\<dots> \<le> 1 * ?f + 1 * ?k"
      using that k by (intro add_mono mult_right_mono) auto
    finally show ?thesis by (simp add: algebra_simps)
  qed
  have bound_x: "\<bar>velocityX (spacecraft (integrate g)) - velocityX (spacecraft g)\<bar>
      \<le> (THRUST_FORCE + MOON_GRAVITY) * dt"
    using part [of "sin ?r" "cos ?t"] part [of 0 "cos ?t"]
    by (simp add: integrate_velocity mult.assoc)
  have bound_y: "\<bar>velocityY (spacecraft (integrate g)) - velocityY (spacecraft g)\<bar>
      \<le> (THRUST_FORCE + MOON_GRAVITY) * dt"
    using part [of "- cos ?r" "sin ?t"] part [of 0 "sin ?t"]
    by (simp add: integrate_velocity mult.assoc)
  have unit: "(velocityX (spacecraft (integrate g)) - velocityX (spacecraft g))\<^sup>2
        + (velocityY (spacecraft (integrate g)) - velocityY (spacecraft g))\<^sup>2
        = (MOON_GRAVITY * dt)\<^sup>2" if "\<not> thrusting g"
  proof -
    from that have "velocityX (spacecraft (integrate g)) - velocityX (spacecraft g) = cos ?t * ?k"
      and "velocityY (spacecraft (integrate g)) - velocityY (spacecraft g) = sin ?t * ?k"
      by (simp_all add: integrate_velocity_coasting mult.assoc)
    then have "(velocityX (spacecraft (integrate g)) - velocityX (spacecraft g))\<^sup>2
        + (velocityY (spacecraft (integrate g)) - velocityY (spacecraft g))\<^sup>2
        = (cos ?t * ?k)\<^sup>2 + (sin ?t * ?k)\<^sup>2"
      by simp
    also have "\<dots> = ((cos ?t)\<^sup>2 + (sin ?t)\<^sup>2) * ?k\<^sup>2"
      by (simp only: power_mult_distrib distrib_right)
    also have "\<dots> = ?k\<^sup>2" by simp
    finally show ?thesis .
  qed
  have away: "velocityX (spacecraft (integrate g))
          = velocityX (spacecraft g) + ?a / distance g * MOON_GRAVITY * dt
        \<and> velocityY (spacecraft (integrate g))
          = velocityY (spacecraft g) + ?b / distance g * MOON_GRAVITY * dt"
    if "\<not> thrusting g" "distance g \<noteq> 0"
  proof -
    from that(2) have nz: "?a \<noteq> 0 \<or> ?b \<noteq> 0" by (auto simp: distance_def)
    have "distance g = sqrt (?a\<^sup>2 + ?b\<^sup>2)" by (simp add: distance_def power2_eq_square)
    with that(1) show ?thesis
      by (simp add: integrate_velocity_coasting cos_atan2 [OF nz] sin_atan2 [OF nz])
  qed
  have centre: "velocityX (spacecraft (integrate g)) = velocityX (spacecraft g) + MOON_GRAVITY * dt
        \<and> velocityY (spacecraft (integrate g)) = velocityY (spacecraft g)"
    if "\<not> thrusting g" "distance g = 0"
  proof -
    from that(2) have "?a * ?a + ?b * ?b = 0" by (simp add: distance_def)
    then have "?a = 0 \<and> ?b = 0" by (simp add: sum_squares_eq_zero_iff)
    with that(1) show ?thesis
      by (simp add: integrate_velocity_coasting)
  qed
  let ?r' = "(rotation (spacecraft (integrate_pt g)) * pi) / 180"
  have bound_x_pt: "\<bar>velocityX (spacecraft (integrate_pt g)) - velocityX (spacecraft g)\<bar>
      \<le> (THRUST_FORCE + MOON_GRAVITY) * dt"
    using part [of "sin ?r'" "cos ?t"] part [of 0 "cos ?t"]
    by (simp add: integrate_pt_velocity mult.assoc)
  have bound_y_pt: "\<bar>velocityY (spacecraft (integrate_pt g)) - velocityY (spacecraft g)\<bar>
      \<le> (THRUST_FORCE + MOON_GRAVITY) * dt"
    using part [of "- cos ?r'" "sin ?t"] part [of 0 "sin ?t"]
    by (simp add: integrate_pt_velocity mult.assoc)
  have same: "velocityX (spacecraft (integrate_pt g)) = velocityX (spacecraft (integrate g))
        \<and> velocityY (spacecraft (integrate_pt g)) = velocityY (spacecraft (integrate g))"
    if "\<not> thrusting g"
    using that by (auto simp: integrate_velocity integrate_pt_velocity thrusting_def)
  have applied: "spacecraft (update g) = spacecraft (integrate g)
        \<and> (\<forall>g'. update_pt g = Inr g' \<longrightarrow> spacecraft g' = spacecraft (integrate_pt g))"
    if "isGameActive g" "\<not> isPaused g"
    using that by (simp add: update_def update_pt_def checkCollision_pt_fields(1))
  from bound_x bound_y unit away centre bound_x_pt bound_y_pt same applied
  show ?thesis by blast
qed

theorem gravity_step_is_unit_pull_witness:
  "velocityX (spacecraft (update atCenter)) = MOON_GRAVITY * dt
   \<and> velocityY (spacecraft (update atCenter)) = 0
   \<and> (\<exists>g'. update_pt atCenter = Inr g' \<and> velocityX (spacecraft g') = MOON_GRAVITY * dt
          \<and> velocityY (spacecraft g') = 0)
   \<and> velocityX (spacecraft (integrate
        (demo 0 \<lparr>x = 100, y = 60, rotation = 0, velocityX = 0, velocityY = 0, fuel = 50\<rparr> noKeys))) = 0
   \<and> velocityY (spacecraft (integrate
        (demo 0 \<lparr>x = 100, y = 60, rotation = 0, velocityX = 0, velocityY = 0, fuel = 50\<rparr> noKeys)))
      = MOON_GRAVITY * dt"
proof -
  let ?g = "demo 0 \<lparr>x = 100, y = 60, rotation = 0, velocityX = 0, velocityY = 0, fuel = 50\<rparr> noKeys"
  have centre: "\<not> thrusting atCenter" "distance atCenter = 0" "isGameActive atCenter"
    "\<not> isPaused atCenter" "velocityX (spacecraft atCenter) = 0"
    "velocityY (spacecraft atCenter) = 0"
    by (simp_all add: thrusting_def distance_def atCenter_def demo_def noKeys_def)
  have above: "\<not> thrusting ?g" "distance ?g = 460" "x (moonCenter ?g) - x (spacecraft ?g) = 0"
    "y (moonCenter ?g) - y (spacecraft ?g) = 460" "velocityX (spacecraft ?g) = 0"
    "velocityY (spacecraft ?g) = 0"
    by (simp_all add: thrusting_def distance_def demo_def noKeys_def)
  from gravity_step_is_unit_pull [of atCenter] centre
  have "velocityX (spacecraft (update atCenter)) = MOON_GRAVITY * dt
   \<and> velocityY (spacecraft (update atCenter)) = 0"
    by simp
  moreover have "\<exists>g'. update_pt atCenter = Inr g'
      \<and> velocityX (spacecraft g') = MOON_GRAVITY * dt \<and> velocityY (spacecraft g') = 0"
  proof -
    have "2 \<le> length (moonPoints atCenter)"
      by (simp add: atCenter_def demo_def demoMoon_def)
    from update_pt_total [OF this] obtain g' where g': "update_pt atCenter = Inr g'" ..
    from gravity_step_is_unit_pull [of atCenter] centre g'
    have "velocityX (spacecraft g') = MOON_GRAVITY * dt \<and> velocityY (spacecraft g') = 0"
      by simp
    with g' show ?thesis by blast
  qed
  moreover from gravity_step_is_unit_pull [of ?g] above
  have "velocityX (spacecraft (integrate ?g)) = 0
    \<and> velocityY (spacecraft (integrate ?g)) = MOON_GRAVITY * dt"
    by simp
  ultimately show ?thesis by blast
qed

text \<open>
  C8, as stated, fails for \<^verbatim>\<open>script.js\<close>, whose \<^verbatim>\<open>checkCollision\<close> does not test intersections.
  The craft of \<open>hovering\<close> is at rest 20 units above a side of the example surface. After the
  integration of the tick no side of its box crosses any side of the surface polygon, the
  closing one included, and every side of the polygon is more than 10 units away from the
  position of the craft, of which the box, the drawn body, the legs and the bottom point
  are less than 4 units away. Yet the bottom point is nearer to the centre than the first
  point of the closest side, which is all that \<^verbatim>\<open>script.js\<close> asks: the tick ends the session
  and reports a landing. The same tick of \<^verbatim>\<open>part_001\<close> goes on.
\<close>

theorem silhouette_clear_counterexample:
  "isGameActive hovering \<and> \<not> isPaused hovering \<and> 2 \<le> length (moonPoints hovering)
   \<and> integrate_pt hovering = hovered
   \<and> \<not> silhouetteIntersects hovered 0 \<and> \<not> silhouetteIntersects hovered 1
   \<and> \<not> silhouetteIntersects hovered 2 \<and> \<not> closingSegmentIntersects hovered
   \<and> 10 < clearance hovered 0 \<and> 10 < clearance hovered 1
   \<and> 10 < clearance hovered 2 \<and> 10 < clearance hovered 3
   \<and> update_pt hovering = Inr (endGame True [] hovered)
   \<and> \<not> isGameActive (endGame True [] hovered)
   \<and> modal (endGame True [] hovered) = Some (True, [])
   \<and> modal hovering = None
   \<and> update hovering = hovered"
proof -
  have start: "isGameActive hovering" "\<not> isPaused hovering" "2 \<le> length (moonPoints hovering)"
    "modal hovering = None"
    by (simp_all add: hovering_def demo_def demoMoon_def)
  from start have point: "update_pt hovering = Inr (endGame True [] hovered)"
    by (simp add: update_pt_def hovering_moved hovered_landed)
  from hovered_box have "checkCollision hovered = hovered" by (simp add: checkCollision_def)
  with start have box: "update hovering = hovered"
    by (simp add: update_def hovering_moved)
  have ended: "\<not> isGameActive (endGame True [] hovered)"
    "modal (endGame True [] hovered) = Some (True, [])"
    by simp_all
  from start hovering_moved(1) hovered_sides hovered_clearance point ended box
  show ?thesis by (intro conjI)
qed

text \<open>
  C8, amended. In \<^verbatim>\<open>part_001\<close>, an active, unpaused tick after whose integration no side of
  the craft's box crosses any of the scanned surface segments ends with exactly the
  integrated state: \<^verbatim>\<open>endGame\<close> is not called, so the dialog is as before and the session is
  still active and unpaused.

  In \<^verbatim>\<open>script.js\<close>, on a surface of at least two points, the test is a comparison of
  distances to the centre of the moon. The closest segment is the first scanned segment
  at the least distance from the bottom point of the craft. The tick ends with exactly the
  integrated state, nothing classified, when the bottom point is at least as far from the
  centre as the first point of that segment, and it calls \<^verbatim>\<open>endGame\<close> when the bottom point
  is nearer. In particular the tick goes on when the bottom point is at least as far from
  the centre as every point of the surface.
\<close>

theorem no_collision_continues:
  "(isGameActive g \<and> \<not> isPaused g
      \<and> (\<forall>i. int i \<le> int (length (moonPoints g)) - 2 \<longrightarrow> \<not> silhouetteIntersects (integrate g) i)
      \<longrightarrow> update g = integrate g \<and> isGameActive (update g) \<and> \<not> isPaused (update g)
          \<and> modal (update g) = modal g)
   \<and> (isGameActive g \<and> \<not> isPaused g \<and> 2 \<le> length (moonPoints g)
      \<and> \<not> collision_pt (integrate_pt g)
      \<longrightarrow> update_pt g = Inr (integrate_pt g) \<and> isGameActive (integrate_pt g)
          \<and> \<not> isPaused (integrate_pt g) \<and> modal (integrate_pt g) = modal g)
   \<and> (isGameActive g \<and> \<not> isPaused g \<and> 2 \<le> length (moonPoints g)
      \<and> collision_pt (integrate_pt g)
      \<longrightarrow> (\<exists>success reason. update_pt g = Inr (endGame success reason (integrate_pt g))))
   \<and> (isGameActive g \<and> \<not> isPaused g \<and> 2 \<le> length (moonPoints g)
      \<and> (\<forall>p\<in>set (moonPoints g). surfaceDistance g p \<le> distanceToCenter (integrate_pt g))
      \<longrightarrow> update_pt g = Inr (integrate_pt g))
   \<and> (2 \<le> length (moonPoints g)
      \<longrightarrow> 0 \<le> closestSegmentIndex_pt (integrate_pt g)
          \<and> closestSegmentIndex_pt (integrate_pt g) < int (length (moonPoints g)) - 1
          \<and> (\<forall>j. int j < int (length (moonPoints g)) - 1
                \<longrightarrow> segmentDistance (integrate_pt g) (nat (closestSegmentIndex_pt (integrate_pt g)))
                    \<le> segmentDistance (integrate_pt g) j)
          \<and> (\<forall>j. int j < closestSegmentIndex_pt (integrate_pt g)
                \<longrightarrow> segmentDistance (integrate_pt g) (nat (closestSegmentIndex_pt (integrate_pt g)))
                    < segmentDistance (integrate_pt g) j))"
proof -
  have box: "update g = integrate g \<and> isGameActive (update g) \<and> \<not> isPaused (update g)
          \<and> modal (update g) = modal g"
    if active: "isGameActive g" "\<not> isPaused g"
      and clear: "\<forall>i. int i \<le> int (length (moonPoints g)) - 2
                    \<longrightarrow> \<not> silhouetteIntersects (integrate g) i"
  proof -
    have "length (rotatedPoints (integrate g)) = length (moonPoints g)"
      by (simp add: rotatedPoints_def)
    with clear have "\<not> collision (integrate g)"
      unfolding collision_iff by auto
    then have "checkCollision (integrate g) = integrate g"
      by (simp add: checkCollision_def)
    with active show ?thesis by (simp add: update_def)
  qed
  have point: "update_pt g = Inr (integrate_pt g) \<and> isGameActive (integrate_pt g)
          \<and> \<not> isPaused (integrate_pt g) \<and> modal (integrate_pt g) = modal g"
    if active: "isGameActive g" "\<not> isPaused g" and two: "2 \<le> length (moonPoints g)"
      and clear: "\<not> collision_pt (integrate_pt g)"
  proof -
    from two closestSegmentIndex_pt_range [of "integrate_pt g"]
    have "0 \<le> closestSegmentIndex_pt (integrate_pt g)" by simp
    with clear checkCollision_pt_cases [of "integrate_pt g"]
    have "checkCollision_pt (integrate_pt g) = Inr (integrate_pt g)" by auto
    with active show ?thesis by (simp add: update_pt_def)
  qed
  have inside: "\<exists>success reason. update_pt g = Inr (endGame success reason (integrate_pt g))"
    if active: "isGameActive g" "\<not> isPaused g" and two: "2 \<le> length (moonPoints g)"
      and hit: "collision_pt (integrate_pt g)"
  proof -
    from two closestSegmentIndex_pt_range [of "integrate_pt g"]
    have "0 \<le> closestSegmentIndex_pt (integrate_pt g)" by simp
    with hit checkCollision_pt_cases [of "integrate_pt g"]
    have "\<exists>b r. checkCollision_pt (integrate_pt g) = Inr (endGame b r (integrate_pt g))"
      by auto
    with active show ?thesis by (simp add: update_pt_def)
  qed
  have outside: "update_pt g = Inr (integrate_pt g)"
    if active: "isGameActive g" "\<not> isPaused g" and two: "2 \<le> length (moonPoints g)"
      and far: "\<forall>p\<in>set (moonPoints g). surfaceDistance g p \<le> distanceToCenter (integrate_pt g)"
  proof -
    have same: "surfaceDistance (integrate_pt g) p = surfaceDistance g p" for p
      by (simp add: surfaceDistance_def)
    from two far have "\<not> collision_pt (integrate_pt g)"
      by (intro outside_every_point) (simp_all add: same)
    from point [OF active two this] show ?thesis by simp
  qed
  have closest: "0 \<le> closestSegmentIndex_pt (integrate_pt g)
          \<and> closestSegmentIndex_pt (integrate_pt g) < int (length (moonPoints g)) - 1
          \<and> (\<forall>j. int j < int (length (moonPoints g)) - 1
                \<longrightarrow> segmentDistance (integrate_pt g) (nat (closestSegmentIndex_pt (integrate_pt g)))
                    \<le> segmentDistance (integrate_pt g) j)
          \<and> (\<forall>j. int j < closestSegmentIndex_pt (integrate_pt g)
                \<longrightarrow> segmentDistance (integrate_pt g) (nat (closestSegmentIndex_pt (integrate_pt g)))
                    < segmentDistance (integrate_pt g) j)"
    if two: "2 \<le> length (moonPoints g)"
  proof -
    from two have "2 \<le> length (moonPoints (integrate_pt g))" by simp
    from closestSegmentIndex_pt_least [OF this] show ?thesis by simp
  qed
  from box have c1: "isGameActive g \<and> \<not> isPaused g
      \<and> (\<forall>i. int i \<le> int (length (moonPoints g)) - 2 \<longrightarrow> \<not> silhouetteIntersects (integrate g) i)
      \<longrightarrow> update g = integrate g \<and> isGameActive (update g) \<and> \<not> isPaused (update g)
          \<and> modal (update g) = modal g"
    by (intro impI) (elim conjE)
  from point have c2: "isGameActive g \<and> \<not> isPaused g \<and> 2 \<le> length (moonPoints g)
      \<and> \<not> collision_pt (integrate_pt g)
      \<longrightarrow> update_pt g = Inr (integrate_pt g) \<and> isGameActive (integrate_pt g)
          \<and> \<not> isPaused (integrate_pt g) \<and> modal (integrate_pt g) = modal g"
    by (intro impI) (elim conjE)
  from inside have c3: "isGameActive g \<and> \<not> isPaused g \<and> 2 \<le> length (moonPoints g)
      \<and> collision_pt (integrate_pt g)
      \<longrightarrow> (\<exists>success reason. update_pt g = Inr (endGame success reason (integrate_pt g)))"
    by (intro impI) (elim conjE)
  from outside have c4: "isGameActive g \<and> \<not> isPaused g \<and> 2 \<le> length (moonPoints g)
      \<and> (\<forall>p\<in>set (moonPoints g). surfaceDistance g p \<le> distanceToCenter (integrate_pt g))
      \<longrightarrow> update_pt g = Inr (integrate_pt g)"
    by (intro impI) (elim conjE)
  from closest have c5: "2 \<le> length (moonPoints g)
      \<longrightarrow> 0 \<le> closestSegmentIndex_pt (integrate_pt g)
          \<and> closestSegmentIndex_pt (integrate_pt g) < int (length (moonPoints g)) - 1
          \<and> (\<forall>j. int j < int (length (moonPoints g)) - 1
                \<longrightarrow> segmentDistance (integrate_pt g) (nat (closestSegmentIndex_pt (integrate_pt g)))
                    \<le> segmentDistance (integrate_pt g) j)
          \<and> (\<forall>j. int j < closestSegmentIndex_pt (integrate_pt g)
                \<longrightarrow> segmentDistance (integrate_pt g) (nat (closestSegmentIndex_pt (integrate_pt g)))
                    < segmentDistance (integrate_pt g) j)"
    by (intro impI)
  from c1 c2 c3 c4 c5 show ?thesis by (intro conjI)
qed

theorem no_collision_continues_witness:
  "update (demo beforeFullTurn
       \<lparr>x = 100, y = 60, rotation = 0, velocityX = 0, velocityY = 0, fuel = 50\<rparr> noKeys)
     = demo (2 * pi)
       \<lparr>x = 100, y = 1200009 / 20000, rotation = 0, velocityX = 0, velocityY = 27 / 1000, fuel = 50\<rparr>
       noKeys
   \<and> update_pt (demo beforeFullTurn
       \<lparr>x = 100, y = 60, rotation = 0, velocityX = 0, velocityY = 0, fuel = 50\<rparr> noKeys)
     = Inr (demo (2 * pi)
       \<lparr>x = 100, y = 1200009 / 20000, rotation = 0, velocityX = 0, velocityY = 27 / 1000, fuel = 50\<rparr>
       noKeys)
   \<and> update hovering = hovered
   \<and> (\<exists>success reason. update_pt hovering = Inr (endGame success reason hovered))
   \<and> update_pt climbing
     = Inr (demo (2 * pi)
       \<lparr>x = 100, y = 3590027 / 60000, rotation = 0, velocityX = 0, velocityY = - (9973 / 1000),
        fuel = 50\<rparr> noKeys)
   \<and> closestSegmentIndex_pt hovered = 0
   \<and> segmentDistance hovered 0 \<le> segmentDistance hovered 1
   \<and> segmentDistance hovered 0 \<le> segmentDistance hovered 2"
proof -
  let ?g = "demo beforeFullTurn
       \<lparr>x = 100, y = 60, rotation = 0, velocityX = 0, velocityY = 0, fuel = 50\<rparr> noKeys"
  let ?g' = "demo (2 * pi)
       \<lparr>x = 100, y = 1200009 / 20000, rotation = 0, velocityX = 0, velocityY = 27 / 1000, fuel = 50\<rparr>
       noKeys"
  let ?c' = "demo (2 * pi)
       \<lparr>x = 100, y = 3590027 / 60000, rotation = 0, velocityX = 0, velocityY = - (9973 / 1000),
        fuel = 50\<rparr> noKeys"
  have active: "isGameActive ?g" "\<not> isPaused ?g" "2 \<le> length (moonPoints ?g)"
    by (simp_all add: demo_def demoMoon_def)
  have moved: "integrate ?g = ?g'" "integrate_pt ?g = ?g'"
    by (simp_all add: integrate_def integrate_pt_def demo_def noKeys_def beforeFullTurn_def
        atan2_def MOON_GRAVITY_def dt_def Let_def)
  have "\<not> collision ?g'" by (simp add: demo_simps)
  then have clear: "\<forall>i. int i \<le> int (length (moonPoints ?g)) - 2
      \<longrightarrow> \<not> silhouetteIntersects (integrate ?g) i"
    unfolding moved collision_iff by (simp add: rotatedPoints_def demo_def)
  have index_pt: "closestSegmentIndex_pt ?g' = 0"
    by (simp add: closestSegmentIndex_pt_def closestLoop.simps distanceToLineSegment_def
        spacecraftBottom_def SPACECRAFT_HEIGHT_pt_def demo_simps)
  have clear_pt: "\<not> collision_pt (integrate_pt ?g)"
    unfolding moved collision_pt_def index_pt
    by (simp add: distanceToCenter_def surfaceDistance_def spacecraftBottom_def
        SPACECRAFT_HEIGHT_pt_def demo_simps)
  from no_collision_continues [of ?g] active clear clear_pt
  have resting: "update ?g = integrate ?g" "update_pt ?g = Inr (integrate_pt ?g)" by blast+
  have hover: "isGameActive hovering" "\<not> isPaused hovering" "2 \<le> length (moonPoints hovering)"
    by (simp_all add: hovering_def demo_def demoMoon_def)
  from hovered_box have "\<forall>i. int i \<le> int (length (moonPoints hovering)) - 2
      \<longrightarrow> \<not> silhouetteIntersects (integrate hovering) i"
    unfolding hovering_moved collision_iff
    by (simp add: rotatedPoints_def hovering_def hovered_def demo_def)
  with no_collision_continues [of hovering] hover
  have box: "update hovering = integrate hovering" by blast
  from hovered_collision_pt have "collision_pt (integrate_pt hovering)"
    by (simp add: hovering_moved)
  with no_collision_continues [of hovering] hover
  have point: "\<exists>success reason.
      update_pt hovering = Inr (endGame success reason (integrate_pt hovering))"
    by blast
  have climb: "isGameActive climbing" "\<not> isPaused climbing" "2 \<le> length (moonPoints climbing)"
    by (simp_all add: climbing_def demo_def demoMoon_def)
  have climbed: "integrate_pt climbing = ?c'"
    by (simp add: integrate_pt_def climbing_def demo_def noKeys_def
        beforeFullTurn_def atan2_def MOON_GRAVITY_def dt_def Let_def)
  have "\<forall>p\<in>set (moonPoints climbing).
      surfaceDistance climbing p \<le> distanceToCenter (integrate_pt climbing)"
    unfolding climbed
    by (simp add: climbing_def surfaceDistance_def distanceToCenter_def spacecraftBottom_def
        SPACECRAFT_HEIGHT_pt_def demo_def demoMoon_def)
  with no_collision_continues [of climbing] climb
  have far: "update_pt climbing = Inr (integrate_pt climbing)" by blast
  from no_collision_continues [of hovering] hover(3)
  have "\<forall>j. int j < int (length (moonPoints hovering)) - 1
      \<longrightarrow> segmentDistance (integrate_pt hovering)
            (nat (closestSegmentIndex_pt (integrate_pt hovering)))
          \<le> segmentDistance (integrate_pt hovering) j"
    by blast
  moreover have "int (length (moonPoints hovering)) - 1 = 3"
    by (simp add: hovering_def demo_def demoMoon_def)
  ultimately have least: "\<forall>j. int j < 3 \<longrightarrow> segmentDistance hovered 0 \<le> segmentDistance hovered j"
    unfolding hovering_moved hovered_index by simp
  have "int 1 < 3" "int 2 < 3" by simp_all
  with least have "segmentDistance hovered 0 \<le> segmentDistance hovered 1"
    "segmentDistance hovered 0 \<le> segmentDistance hovered 2"
    by blast+
  with resting box point far hovered_index show ?thesis
    unfolding moved hovering_moved climbed by (intro conjI)
qed

text \<open>
  C9. Once a session has ended (\<^verbatim>\<open>endGame\<close> has cleared \<^verbatim>\<open>isGameActive\<close>), a tick is the
  identity: \<^verbatim>\<open>update\<close> returns at its guard, in both revisions. Over any number of
  further frames, whatever keys are held, nothing but the record of the held keys changes:
  position, velocity, orientation, fuel, the rotation of the moon and the dialog stay as
  the ending tick left them. The restart button hides the dialog and starts the countdown,
  during which the session is paused; the physics runs again once the countdown has
  elapsed, on a session that \<^verbatim>\<open>reset\<close> has made active (before the countdown in \<^verbatim>\<open>part_001\<close>,
  after it in \<^verbatim>\<open>script.js\<close>).
\<close>

theorem ended_is_terminal:
  "\<not> isGameActive (endGame success reason g0)
   \<and> (\<not> isGameActive g \<longrightarrow>
        update g = g \<and> (run ks g)\<lparr>keys := keys g\<rparr> = g
        \<and> update_pt g = Inr g \<and> (\<exists>g'. run_pt ks g = Inr g' \<and> g'\<lparr>keys := keys g\<rparr> = g))
   \<and> modal (tryAgain rand g) = None \<and> isGameActive (tryAgain rand g)
   \<and> isPaused (tryAgain rand g) \<and> update (tryAgain rand g) = tryAgain rand g
   \<and> isGameActive (countdownElapsed (tryAgain rand g))
   \<and> \<not> isPaused (countdownElapsed (tryAgain rand g))
   \<and> modal (tryAgain_pt g) = None \<and> isPaused (tryAgain_pt g)
   \<and> update_pt (tryAgain_pt g) = Inr (tryAgain_pt g)
   \<and> isGameActive (countdownElapsed_pt rand (tryAgain_pt g))
   \<and> \<not> isPaused (countdownElapsed_pt rand (tryAgain_pt g))"
proof -
  have frames: "(run ks g)\<lparr>keys := k0\<rparr> = g\<lparr>keys := k0\<rparr>" if "\<not> isGameActive g" for g k0
    using that by (induction ks arbitrary: g) (simp_all add: update_def)
  have frames_pt: "\<exists>g'. run_pt ks g = Inr g' \<and> g'\<lparr>keys := k0\<rparr> = g\<lparr>keys := k0\<rparr>"
    if "\<not> isGameActive g" for g k0
    using that
  proof (induction ks arbitrary: g)
    case Nil
    show ?case by simp
  next
    case (Cons k ks)
    from Cons.prems have "\<not> isGameActive (g\<lparr>keys := k\<rparr>)" by simp
    from Cons.IH [OF this] Cons.prems show ?case by (simp add: update_pt_def)
  qed
  have "(run ks g)\<lparr>keys := keys g\<rparr> = g" if "\<not> isGameActive g"
    using frames [OF that, of "keys g"] by simp
  moreover have "\<exists>g'. run_pt ks g = Inr g' \<and> g'\<lparr>keys := keys g\<rparr> = g" if "\<not> isGameActive g"
    using frames_pt [OF that, of "keys g"] by simp
  ultimately show ?thesis
    by (simp add: update_def update_pt_def reset_def reset_pt_def generateMoon_def
        generateMoon_pt_def tryAgain_def tryAgain_pt_def startCountdown_def
        startCountdown_pt_def countdownElapsed_def countdownElapsed_pt_def Let_def)
qed

theorem ended_is_terminal_witness:
  "\<not> isGameActive (endGame False ''tooFast''
        (demo 0 \<lparr>x = 100, y = 118, rotation = 0, velocityX = 0, velocityY = 9, fuel = 50\<rparr> noKeys))
   \<and> spacecraft (run [thrustKey, noKeys, thrustKey]
        (endGame False ''tooFast''
          (demo 0 \<lparr>x = 100, y = 118, rotation = 0, velocityX = 0, velocityY = 9, fuel = 50\<rparr> noKeys)))
      = \<lparr>x = 100, y = 118, rotation = 0, velocityX = 0, velocityY = 9, fuel = 50\<rparr>"
proof -
  let ?g = "endGame False ''tooFast''
        (demo 0 \<lparr>x = 100, y = 118, rotation = 0, velocityX = 0, velocityY = 9, fuel = 50\<rparr> noKeys)"
  have ended: "\<not> isGameActive ?g" by simp
  from ended_is_terminal [of False "''tooFast''" _ ?g "[thrustKey, noKeys, thrustKey]"] ended
  have "(run [thrustKey, noKeys, thrustKey] ?g)\<lparr>keys := keys ?g\<rparr> = ?g" by blast
  then have "spacecraft ((run [thrustKey, noKeys, thrustKey] ?g)\<lparr>keys := keys ?g\<rparr>) = spacecraft ?g"
    by (rule arg_cong)
  then have "spacecraft (run [thrustKey, noKeys, thrustKey] ?g)
      = \<lparr>x = 100, y = 118, rotation = 0, velocityX = 0, velocityY = 9, fuel = 50\<rparr>"
    by (simp add: demo_def)
  with ended show ?thesis by blast
qed

text \<open>
  C10. The collision scan of \<^verbatim>\<open>part_001\<close> looks at the segments from point \<open>i\<close> to point
  \<open>i + 1\<close> for \<open>i\<close> from 0 to \<open>length - 2\<close> and at nothing else: it reports a collision
  exactly when a side of the box crosses one of these, the index it reports lies between 0
  and \<open>length - 2\<close>, and without such a crossing \<^verbatim>\<open>checkCollision\<close> changes nothing. The segment
  from the last point back to the first has no index that the loop reaches; the example
  below has the box across it and no collision. The loop of \<^verbatim>\<open>script.js\<close> has the same
  bounds: its index is -1 (fewer than two points) or between 0 and \<open>length - 2\<close>.
\<close>

theorem closing_segment_never_tested:
  "(collision g \<longleftrightarrow>
      (\<exists>i. int i \<le> int (length (moonPoints g)) - 2 \<and> silhouetteIntersects g i))
   \<and> (collision g \<longrightarrow>
        0 \<le> closestSegmentIndex g \<and> closestSegmentIndex g \<le> int (length (moonPoints g)) - 2
        \<and> silhouetteIntersects g (nat (closestSegmentIndex g)))
   \<and> (\<not> collision g \<longrightarrow> checkCollision g = g)
   \<and> (closestSegmentIndex_pt g = - 1 \<and> length (moonPoints g) < 2
       \<or> 0 \<le> closestSegmentIndex_pt g
         \<and> closestSegmentIndex_pt g \<le> int (length (moonPoints g)) - 2)"
proof -
  have len: "length (rotatedPoints g) = length (moonPoints g)"
    by (simp add: rotatedPoints_def)
  have scan: "collision g \<longleftrightarrow>
      (\<exists>i. int i \<le> int (length (moonPoints g)) - 2 \<and> silhouetteIntersects g i)"
    unfolding collision_iff len
    by (rule arg_cong [where f = Ex], rule ext) auto
  have index: "0 \<le> closestSegmentIndex g \<and> closestSegmentIndex g \<le> int (length (moonPoints g)) - 2
        \<and> silhouetteIntersects g (nat (closestSegmentIndex g))" if "collision g"
    using closestSegmentIndex_first(1-3) [OF that] len by simp
  have idle: "checkCollision g = g" if "\<not> collision g"
    using that by (simp add: checkCollision_def)
  have pt: "closestSegmentIndex_pt g = - 1 \<and> length (moonPoints g) < 2
       \<or> 0 \<le> closestSegmentIndex_pt g
         \<and> closestSegmentIndex_pt g \<le> int (length (moonPoints g)) - 2"
    using closestSegmentIndex_pt_range [of g] by auto
  from scan index idle pt show ?thesis by blast
qed

theorem closing_segment_never_tested_witness:
  "collision (demo 0 \<lparr>x = 100, y = 118, rotation = 0, velocityX = 0, velocityY = 1, fuel = 50\<rparr> noKeys)
   \<and> closestSegmentIndex
        (demo 0 \<lparr>x = 100, y = 118, rotation = 0, velocityX = 0, velocityY = 1, fuel = 50\<rparr> noKeys) \<le> 2
   \<and> closingSegmentIntersects
        (demo 0 \<lparr>x = 300, y = 720, rotation = 0, velocityX = 0, velocityY = 1, fuel = 50\<rparr> noKeys)
   \<and> \<not> collision (demo 0 \<lparr>x = 300, y = 720, rotation = 0, velocityX = 0, velocityY = 1, fuel = 50\<rparr> noKeys)
   \<and> checkCollision (demo 0 \<lparr>x = 300, y = 720, rotation = 0, velocityX = 0, velocityY = 1, fuel = 50\<rparr> noKeys)
      = demo 0 \<lparr>x = 300, y = 720, rotation = 0, velocityX = 0, velocityY = 1, fuel = 50\<rparr> noKeys"
proof -
  let ?top = "demo 0 \<lparr>x = 100, y = 118, rotation = 0, velocityX = 0, velocityY = 1, fuel = 50\<rparr> noKeys"
  let ?gap = "demo 0 \<lparr>x = 300, y = 720, rotation = 0, velocityX = 0, velocityY = 1, fuel = 50\<rparr> noKeys"
  have hit: "collision ?top" by (simp add: demo_simps)
  have four: "int (length (moonPoints ?top)) - 2 = 2" by (simp add: demo_def demoMoon_def)
  have crossing: "closingSegmentIntersects ?gap"
    by (simp add: closingSegmentIntersects_def four_sides demo_simps)
  have miss: "\<not> collision ?gap" by (simp add: demo_simps)
  from closing_segment_never_tested [of ?top] hit four
  have "closestSegmentIndex ?top \<le> 2" by simp
  moreover from closing_segment_never_tested [of ?gap] miss
  have "checkCollision ?gap = ?gap" by blast
  ultimately show ?thesis using hit crossing miss by blast
qed

end
